theory Spec2Isabelle
  imports Complex_Main
begin

section \<open>The notebooks and the library they drive\<close>

text \<open>
  The repository is two Jupyter notebooks that drive the REBOUND N-body library. A notebook
  is a list of code cells run against one kernel; a cell is a list of statements. Each cell
  is embedded as a function from the kernel state to an outcome: the new kernel state, or
  the exception that ended the cell together with the state the kernel is left in.

  The library is not part of the repository. Its operations are the fields of a record
  that every cell takes as a parameter, so that a theorem about a cell holds for every
  behaviour of the library unless it states a contract as a hypothesis.

  Times, masses and angles are real numbers. The products and quotients by \<^verbatim>\<open>dtor\<close> are
  taken over the reals. The one sum of two floating-point numbers that the notebooks
  compute, \<^verbatim>\<open>sim.t + framestep\<close>, is computed once per frame from the sum before it, so
  that its rounding adds up over an animation: this addition is a parameter of the model,
  and a theorem that needs it to be exact says so.
\<close>

subsection \<open>Data owned by the library\<close>

record particle =
  p_m :: real
  p_x :: real
  p_y :: real
  p_z :: real
  p_vx :: real
  p_vy :: real
  p_vz :: real

record simulation =
  sim_t :: real
  sim_dt :: real
  sim_G :: real
  sim_units :: "(string \<times> string \<times> string) option"
  sim_particles :: "particle list"

text \<open>The attributes of an orbit that the notebooks read.\<close>

record orbit =
  o_a :: real
  o_e :: real
  o_omega :: real
  o_inc :: real
  o_Omega :: real
  o_P :: real

text \<open>The keyword arguments of \<^verbatim>\<open>sim.add\<close>; an argument that a call leaves out is \<open>None\<close>.\<close>

record add_args =
  arg_m :: "real option"
  arg_a :: "real option"
  arg_e :: "real option"
  arg_omega :: "real option"
  arg_M :: "real option"
  arg_inc :: "real option"
  arg_Omega :: "real option"

text \<open>
  Exceptions. The first two are raised by the interpreter, for a name that is not bound and
  for a division by zero; which exceptions the library raises is for the library to say.
\<close>

datatype error = NameError string | ZeroDivisionError | LibraryError string

text \<open>
  The library. \<open>'f\<close> is the content of a checkpoint file, whose layout is the library's.
  Every operation that can raise returns a sum. The constructor that reads a checkpoint is
  given what the directory has under the name, the content of the file or nothing: what is
  raised for a missing file is the library's exception. The last field is not the
  library's but the interpreter's: the sum of two floating-point numbers.
\<close>

record 'f library =
  lib_Simulation :: simulation
  lib_open :: "'f option \<Rightarrow> error + simulation"
  lib_save :: "simulation \<Rightarrow> error + 'f"
  lib_add :: "add_args \<Rightarrow> simulation \<Rightarrow> error + simulation"
  lib_integrate :: "real \<Rightarrow> simulation \<Rightarrow> error + simulation"
  lib_move_to_com :: "simulation \<Rightarrow> error + simulation"
  lib_calculate_orbits :: "simulation \<Rightarrow> error + orbit list"
  float_add :: "real \<Rightarrow> real \<Rightarrow> real"

subsection \<open>The kernel state\<close>

text \<open>
  Simulation objects live in a store and are named by references, because \<^verbatim>\<open>sim\<close> and
  \<^verbatim>\<open>op.sim\<close> may or may not be the same object. Every call that leaves the notebook is
  recorded in \<open>calls\<close>, and an exception that the library raises is recorded after the
  call that raised it. Every printed line is recorded in \<open>out\<close>; a printed row is the list
  of the numbers handed to the format string. The files are those of the working directory.
\<close>

datatype call =
    Shell string
  | New nat
  | Load string nat
  | Save nat string
  | Add nat add_args
  | Integrate nat real
  | MoveToCom nat
  | CalculateOrbits nat
  | Status nat
  | Plot nat
  | PlotPoint
  | Update nat
  | Draw
  | ClearOutput
  | Display
  | Raised error

datatype printed = Blank | Text string | Row "real list" | StatusOf simulation

record 'f env =
  imported :: bool
  store :: "nat \<Rightarrow> simulation"
  next_ref :: nat
  fs :: "string \<rightharpoonup> 'f"
  calls :: "call list"
  out :: "printed list"
  v_sim :: "nat option"
  v_op :: "nat option"
  v_fig :: "nat option"
  v_dtor :: "real option"
  v_inc_pl :: "real option"
  v_Omega_pl :: "real option"
  v_mass_e :: "real option"
  v_mass_d :: "real option"
  v_mass_c :: "real option"
  v_mass_b :: "real option"
  v_nframe :: "int option"
  v_framestep :: "real option"

type_synonym 'f outcome = "(error \<times> 'f env) + 'f env"

text \<open>A kernel that has run nothing, in a directory with the files \<open>files\<close>.\<close>

definition fresh :: "(string \<rightharpoonup> 'f) \<Rightarrow> 'f env" where
  "fresh files =
     \<lparr>imported = False,
      store = (\<lambda>r. \<lparr>sim_t = 0, sim_dt = 0, sim_G = 0, sim_units = None, sim_particles = []\<rparr>),
      next_ref = 0, fs = files, calls = [], out = [],
      v_sim = None, v_op = None, v_fig = None, v_dtor = None, v_inc_pl = None,
      v_Omega_pl = None, v_mass_e = None, v_mass_d = None, v_mass_c = None, v_mass_b = None,
      v_nframe = None, v_framestep = None\<rparr>"

subsection \<open>Control\<close>

text \<open>Statements in sequence: the first exception ends the cell.\<close>

fun seq :: "('f env \<Rightarrow> 'f outcome) list \<Rightarrow> 'f env \<Rightarrow> 'f outcome" where
  "seq [] env = Inr env"
| "seq (c # cs) env = (case c env of Inl err \<Rightarrow> Inl err | Inr env' \<Rightarrow> seq cs env')"

text \<open>\<^verbatim>\<open>for x in xs: body\<close> and \<^verbatim>\<open>for i in range(n): body\<close> (no body reads \<^verbatim>\<open>i\<close>).\<close>

fun for_each :: "'a list \<Rightarrow> ('a \<Rightarrow> 'f env \<Rightarrow> 'f outcome) \<Rightarrow> 'f env \<Rightarrow> 'f outcome" where
  "for_each [] body env = Inr env"
| "for_each (x # xs) body env =
     (case body x env of Inl err \<Rightarrow> Inl err | Inr env' \<Rightarrow> for_each xs body env')"

fun for_range :: "nat \<Rightarrow> ('f env \<Rightarrow> 'f outcome) \<Rightarrow> 'f env \<Rightarrow> 'f outcome" where
  "for_range 0 body env = Inr env"
| "for_range (Suc n) body env =
     (case body env of Inl err \<Rightarrow> Inl err | Inr env' \<Rightarrow> for_range n body env')"

text \<open>Reading a name: an unbound one raises \<^verbatim>\<open>NameError\<close>.\<close>

definition need :: "string \<Rightarrow> 'a option \<Rightarrow> 'f env \<Rightarrow> ('a \<Rightarrow> 'f outcome) \<Rightarrow> 'f outcome" where
  "need name v env k = (case v of None \<Rightarrow> Inl (NameError name, env) | Some x \<Rightarrow> k x)"

text \<open>Reading a name that the import cell binds.\<close>

definition need_import :: "string \<Rightarrow> 'f env \<Rightarrow> 'f outcome \<Rightarrow> 'f outcome" where
  "need_import name env k = (if imported env then k else Inl (NameError name, env))"

definition log :: "call \<Rightarrow> 'f env \<Rightarrow> 'f env" where
  "log c env = env\<lparr>calls := calls env @ [c]\<rparr>"

definition emit :: "printed \<Rightarrow> 'f env \<Rightarrow> 'f env" where
  "emit p env = env\<lparr>out := out env @ [p]\<rparr>"

subsection \<open>Statements\<close>

text \<open>\<^verbatim>\<open>sim = rebound.Simulation()\<close>\<close>

definition new_simulation :: "'f library \<Rightarrow> 'f env \<Rightarrow> 'f outcome" where
  "new_simulation L env =
     need_import ''rebound'' env
       (let r = next_ref env in
        Inr ((log (New r) env)
               \<lparr>store := (store env)(r := lib_Simulation L), next_ref := Suc r, v_sim := Some r\<rparr>))"

text \<open>\<^verbatim>\<open>sim = rebound.Simulation(name)\<close>: the library reads the file, or finds none.\<close>

definition load_simulation :: "'f library \<Rightarrow> string \<Rightarrow> 'f env \<Rightarrow> 'f outcome" where
  "load_simulation L name env =
     need_import ''rebound'' env
       (let r = next_ref env; env1 = log (Load name r) env in
        case lib_open L (fs env name) of
          Inl err \<Rightarrow> Inl (err, log (Raised err) env1)
        | Inr s \<Rightarrow>
            Inr (env1\<lparr>store := (store env)(r := s), next_ref := Suc r, v_sim := Some r\<rparr>))"

text \<open>\<^verbatim>\<open>del sim\<close>\<close>

definition del_sim :: "'f env \<Rightarrow> 'f outcome" where
  "del_sim env = need ''sim'' (v_sim env) env (\<lambda>r. Inr (env\<lparr>v_sim := None\<rparr>))"

text \<open>\<^verbatim>\<open>sim.units = u\<close>, \<^verbatim>\<open>sim.G = g\<close>, \<^verbatim>\<open>sim.dt = h\<close>\<close>

definition set_units :: "string \<times> string \<times> string \<Rightarrow> 'f env \<Rightarrow> 'f outcome" where
  "set_units u env =
     need ''sim'' (v_sim env) env
       (\<lambda>r. Inr (env\<lparr>store := (store env)(r := (store env r)\<lparr>sim_units := Some u\<rparr>)\<rparr>))"

definition set_G :: "real \<Rightarrow> 'f env \<Rightarrow> 'f outcome" where
  "set_G g env =
     need ''sim'' (v_sim env) env
       (\<lambda>r. Inr (env\<lparr>store := (store env)(r := (store env r)\<lparr>sim_G := g\<rparr>)\<rparr>))"

definition set_dt :: "real \<Rightarrow> 'f env \<Rightarrow> 'f outcome" where
  "set_dt h env =
     need ''sim'' (v_sim env) env
       (\<lambda>r. Inr (env\<lparr>store := (store env)(r := (store env r)\<lparr>sim_dt := h\<rparr>)\<rparr>))"

text \<open>\<^verbatim>\<open>sim.add(**args)\<close>, once the arguments are evaluated.\<close>

definition sim_add :: "'f library \<Rightarrow> nat \<Rightarrow> add_args \<Rightarrow> 'f env \<Rightarrow> 'f outcome" where
  "sim_add L r args env =
     (let env1 = log (Add r args) env in
      case lib_add L args (store env r) of
        Inl err \<Rightarrow> Inl (err, log (Raised err) env1)
      | Inr s \<Rightarrow> Inr (env1\<lparr>store := (store env)(r := s)\<rparr>))"

text \<open>\<^verbatim>\<open>sim.add(m=1.50)\<close>, the mass a parameter.\<close>

definition add_star :: "'f library \<Rightarrow> real \<Rightarrow> 'f env \<Rightarrow> 'f outcome" where
  "add_star L mass env =
     need ''sim'' (v_sim env) env
       (\<lambda>r. sim_add L r
          \<lparr>arg_m = Some mass, arg_a = None, arg_e = None, arg_omega = None, arg_M = None,
           arg_inc = None, arg_Omega = None\<rparr> env)"

text \<open>
  \<^verbatim>\<open>sim.add(m=mass_x, a=A, e=E, omega=W*dtor, M=MA, inc=inc_pl, Omega=Omega_pl)\<close>,
  the form of every planet's call: \<open>mass_name\<close> and \<open>mass_var\<close> say which mass variable is
  read, the literals \<open>A\<close>, \<open>E\<close>, \<open>W\<close>, \<open>MA\<close> are parameters. Names are read left to right.
\<close>

definition add_planet ::
  "'f library \<Rightarrow> string \<Rightarrow> ('f env \<Rightarrow> real option) \<Rightarrow> real \<Rightarrow> real \<Rightarrow> real \<Rightarrow> real \<Rightarrow>
   'f env \<Rightarrow> 'f outcome" where
  "add_planet L mass_name mass_var A E W MA env =
     need ''sim'' (v_sim env) env (\<lambda>r.
     need mass_name (mass_var env) env (\<lambda>mass.
     need ''dtor'' (v_dtor env) env (\<lambda>d.
     need ''inc_pl'' (v_inc_pl env) env (\<lambda>i.
     need ''Omega_pl'' (v_Omega_pl env) env (\<lambda>Om.
       sim_add L r
         \<lparr>arg_m = Some mass, arg_a = Some A, arg_e = Some E, arg_omega = Some (W * d),
          arg_M = Some MA, arg_inc = Some i, arg_Omega = Some Om\<rparr> env)))))"

text \<open>The four planets, with the literals of the source.\<close>

definition add_planet_e :: "'f library \<Rightarrow> 'f env \<Rightarrow> 'f outcome" where
  "add_planet_e L = add_planet L ''mass_e'' v_mass_e 16.64 0.1397 118.8 1.261"

definition add_planet_d :: "'f library \<Rightarrow> 'f env \<Rightarrow> 'f outcome" where
  "add_planet_d L = add_planet L ''mass_d'' v_mass_d 26.29 0.1112 24.3 2.032"

definition add_planet_c :: "'f library \<Rightarrow> 'f env \<Rightarrow> 'f outcome" where
  "add_planet_c L = add_planet L ''mass_c'' v_mass_c 43.12 0.0561 28.5 4.232"

definition add_planet_b :: "'f library \<Rightarrow> 'f env \<Rightarrow> 'f outcome" where
  "add_planet_b L = add_planet L ''mass_b'' v_mass_b 70.50 0.0113 213.6 2.642"

text \<open>\<^verbatim>\<open>dtor = np.pi / 180\<close> and the variables computed from it.\<close>

definition dtor :: real where
  "dtor = pi / 180"

definition assign_dtor :: "'f env \<Rightarrow> 'f outcome" where
  "assign_dtor env = need_import ''np'' env (Inr (env\<lparr>v_dtor := Some dtor\<rparr>))"

definition assign_inc_pl :: "'f env \<Rightarrow> 'f outcome" where
  "assign_inc_pl env =
     need ''dtor'' (v_dtor env) env (\<lambda>d. Inr (env\<lparr>v_inc_pl := Some (27.8 * d)\<rparr>))"

definition assign_Omega_pl :: "'f env \<Rightarrow> 'f outcome" where
  "assign_Omega_pl env =
     need ''dtor'' (v_dtor env) env (\<lambda>d. Inr (env\<lparr>v_Omega_pl := Some (60.1 * d)\<rparr>))"

text \<open>The planet masses: \<^verbatim>\<open>mass_e = x\<close>, \<^verbatim>\<open>mass_d = mass_e\<close>, \<^verbatim>\<open>mass_c = mass_e\<close>,
  \<^verbatim>\<open>mass_b = 3e-3\<close> and \<^verbatim>\<open>mass_b = mass_e * 0.5\<close>.\<close>

definition assign_mass_e :: "real \<Rightarrow> 'f env \<Rightarrow> 'f outcome" where
  "assign_mass_e x env = Inr (env\<lparr>v_mass_e := Some x\<rparr>)"

definition assign_mass_d :: "'f env \<Rightarrow> 'f outcome" where
  "assign_mass_d env =
     need ''mass_e'' (v_mass_e env) env (\<lambda>x. Inr (env\<lparr>v_mass_d := Some x\<rparr>))"

definition assign_mass_c :: "'f env \<Rightarrow> 'f outcome" where
  "assign_mass_c env =
     need ''mass_e'' (v_mass_e env) env (\<lambda>x. Inr (env\<lparr>v_mass_c := Some x\<rparr>))"

definition assign_mass_b :: "real \<Rightarrow> 'f env \<Rightarrow> 'f outcome" where
  "assign_mass_b x env = Inr (env\<lparr>v_mass_b := Some x\<rparr>)"

definition assign_mass_b_half :: "'f env \<Rightarrow> 'f outcome" where
  "assign_mass_b_half env =
     need ''mass_e'' (v_mass_e env) env (\<lambda>x. Inr (env\<lparr>v_mass_b := Some (x * 0.5)\<rparr>))"

text \<open>\<^verbatim>\<open>print()\<close> and \<^verbatim>\<open>print(text)\<close>\<close>

definition print_blank :: "'f env \<Rightarrow> 'f outcome" where
  "print_blank env = Inr (emit Blank env)"

definition print_text :: "string \<Rightarrow> 'f env \<Rightarrow> 'f outcome" where
  "print_text s env = Inr (emit (Text s) env)"

text \<open>
  \<^verbatim>\<open>print("%12.4f ..." % (o.a, o.e, o.omega/dtor, o.inc/dtor, o.Omega/dtor))\<close>:
  dividing a Python float by zero raises.
\<close>

definition print_orbit :: "orbit \<Rightarrow> 'f env \<Rightarrow> 'f outcome" where
  "print_orbit ob env =
     need ''dtor'' (v_dtor env) env (\<lambda>d.
       if d = 0 then Inl (ZeroDivisionError, env)
       else Inr (emit (Row [o_a ob, o_e ob, o_omega ob / d, o_inc ob / d, o_Omega ob / d]) env))"

text \<open>\<^verbatim>\<open>print("%9.3f" % o.P)\<close> and \<^verbatim>\<open>print("%9.3f %9.3f %9.3f" % (p.x,p.y,p.z))\<close>\<close>

definition print_period :: "orbit \<Rightarrow> 'f env \<Rightarrow> 'f outcome" where
  "print_period ob env = Inr (emit (Row [o_P ob]) env)"

definition print_position :: "particle \<Rightarrow> 'f env \<Rightarrow> 'f outcome" where
  "print_position p env = Inr (emit (Row [p_x p, p_y p, p_z p]) env)"

text \<open>\<^verbatim>\<open>for o in sim.calculate_orbits(): body\<close>\<close>

definition for_orbits ::
  "'f library \<Rightarrow> (orbit \<Rightarrow> 'f env \<Rightarrow> 'f outcome) \<Rightarrow> 'f env \<Rightarrow> 'f outcome" where
  "for_orbits L body env =
     need ''sim'' (v_sim env) env (\<lambda>r.
       let env1 = log (CalculateOrbits r) env in
       case lib_calculate_orbits L (store env r) of
         Inl err \<Rightarrow> Inl (err, log (Raised err) env1)
       | Inr obs \<Rightarrow> for_each obs body env1)"

text \<open>\<^verbatim>\<open>for p in sim.particles: body\<close>\<close>

definition for_particles :: "(particle \<Rightarrow> 'f env \<Rightarrow> 'f outcome) \<Rightarrow> 'f env \<Rightarrow> 'f outcome" where
  "for_particles body env =
     need ''sim'' (v_sim env) env (\<lambda>r. for_each (sim_particles (store env r)) body env)"

text \<open>The three lines that print the orbital elements, the same in every cell that has them.\<close>

definition print_elements :: "'f library \<Rightarrow> 'f env \<Rightarrow> 'f outcome" where
  "print_elements L =
     seq [print_blank,
          print_text ''      a (au)          e       omega (deg)  inc (deg)    Omega (deg)'',
          for_orbits L print_orbit]"

text \<open>\<^verbatim>\<open>sim.move_to_com()\<close>, \<^verbatim>\<open>sim.integrate(tmax)\<close>, \<^verbatim>\<open>sim.status(showAllFields=False)\<close>,
  \<^verbatim>\<open>sim.save(name)\<close>\<close>

definition move_to_com :: "'f library \<Rightarrow> 'f env \<Rightarrow> 'f outcome" where
  "move_to_com L env =
     need ''sim'' (v_sim env) env (\<lambda>r.
       let env1 = log (MoveToCom r) env in
       case lib_move_to_com L (store env r) of
         Inl err \<Rightarrow> Inl (err, log (Raised err) env1)
       | Inr s \<Rightarrow> Inr (env1\<lparr>store := (store env)(r := s)\<rparr>))"

definition integrate_ref :: "'f library \<Rightarrow> nat \<Rightarrow> real \<Rightarrow> 'f env \<Rightarrow> 'f outcome" where
  "integrate_ref L r tmax env =
     (let env1 = log (Integrate r tmax) env in
      case lib_integrate L tmax (store env r) of
        Inl err \<Rightarrow> Inl (err, log (Raised err) env1)
      | Inr s \<Rightarrow> Inr (env1\<lparr>store := (store env)(r := s)\<rparr>))"

definition integrate :: "'f library \<Rightarrow> real \<Rightarrow> 'f env \<Rightarrow> 'f outcome" where
  "integrate L tmax env = need ''sim'' (v_sim env) env (\<lambda>r. integrate_ref L r tmax env)"

definition status :: "'f env \<Rightarrow> 'f outcome" where
  "status env =
     need ''sim'' (v_sim env) env (\<lambda>r. Inr (emit (StatusOf (store env r)) (log (Status r) env)))"

definition save :: "'f library \<Rightarrow> string \<Rightarrow> 'f env \<Rightarrow> 'f outcome" where
  "save L name env =
     need ''sim'' (v_sim env) env (\<lambda>r.
       let env1 = log (Save r name) env in
       case lib_save L (store env r) of
         Inl err \<Rightarrow> Inl (err, log (Raised err) env1)
       | Inr content \<Rightarrow> Inr (env1\<lparr>fs := (fs env)(name \<mapsto> content)\<rparr>))"

text \<open>
  Plotting and display. \<^verbatim>\<open>op = rebound.OrbitPlot(sim, ...)\<close> keeps a reference to the
  simulation it is given; the other keyword arguments only style the figure. These calls
  are recorded and read the names they need; what happens inside matplotlib and the display
  is outside the model, so none of them raises by itself.
\<close>

definition orbit_plot :: "'f env \<Rightarrow> 'f outcome" where
  "orbit_plot env =
     need_import ''rebound'' env
       (need ''sim'' (v_sim env) env (\<lambda>r. Inr ((log (Plot r) env)\<lparr>v_op := Some r\<rparr>)))"

definition assign_fig :: "'f env \<Rightarrow> 'f outcome" where
  "assign_fig env = need ''op'' (v_op env) env (\<lambda>r. Inr (env\<lparr>v_fig := Some r\<rparr>))"

definition clear_output :: "'f env \<Rightarrow> 'f outcome" where
  "clear_output env = need_import ''clear_output'' env (Inr (log ClearOutput env))"

definition display_clear_output :: "'f env \<Rightarrow> 'f outcome" where
  "display_clear_output env = need_import ''display'' env (Inr (log ClearOutput env))"

definition display_gcf :: "'f env \<Rightarrow> 'f outcome" where
  "display_gcf env = need_import ''display'' env (Inr (log Display env))"

definition plot_point :: "'f env \<Rightarrow> 'f outcome" where
  "plot_point env = need_import ''plt'' env (Inr (log PlotPoint env))"

definition op_update :: "'f env \<Rightarrow> 'f outcome" where
  "op_update env = need ''op'' (v_op env) env (\<lambda>r. Inr (log (Update r) env))"

definition fig_draw :: "'f env \<Rightarrow> 'f outcome" where
  "fig_draw env = need ''fig'' (v_fig env) env (\<lambda>r. Inr (log Draw env))"

text \<open>\<^verbatim>\<open>nframe = n\<close> and \<^verbatim>\<open>framestep = sim.dt\<close> (\<^verbatim>\<open>1*sim.dt\<close> in the later cells)\<close>

definition assign_nframe :: "int \<Rightarrow> 'f env \<Rightarrow> 'f outcome" where
  "assign_nframe n env = Inr (env\<lparr>v_nframe := Some n\<rparr>)"

definition assign_framestep :: "real \<Rightarrow> 'f env \<Rightarrow> 'f outcome" where
  "assign_framestep k env =
     need ''sim'' (v_sim env) env
       (\<lambda>r. Inr (env\<lparr>v_framestep := Some (k * sim_dt (store env r))\<rparr>))"

text \<open>
  \<^verbatim>\<open>op.sim.integrate(sim.t + framestep)\<close>: the simulation that is advanced is the plot's,
  the time that is read is that of \<^verbatim>\<open>sim\<close>, and the sum is one of floating-point numbers.
\<close>

definition integrate_frame :: "'f library \<Rightarrow> 'f env \<Rightarrow> 'f outcome" where
  "integrate_frame L env =
     need ''op'' (v_op env) env (\<lambda>p.
     need ''sim'' (v_sim env) env (\<lambda>r.
     need ''framestep'' (v_framestep env) env (\<lambda>h.
       integrate_ref L p (float_add L (sim_t (store env r)) h) env)))"

text \<open>\<^verbatim>\<open>for i in range(nframe): body\<close>\<close>

definition for_nframe :: "('f env \<Rightarrow> 'f outcome) \<Rightarrow> 'f env \<Rightarrow> 'f outcome" where
  "for_nframe body env =
     need ''nframe'' (v_nframe env) env (\<lambda>n. for_range (nat n) body env)"

subsection \<open>The cells of the first notebook\<close>

text \<open>
  In the order of the file. \<^verbatim>\<open>pip install\<close> is a shell command; the packages it installs are
  not files of the working directory. The import cell binds \<^verbatim>\<open>np\<close>, \<^verbatim>\<open>plt\<close>, \<^verbatim>\<open>rebound\<close> and
  the display functions.
\<close>

definition cell_pip :: "string \<Rightarrow> 'f env \<Rightarrow> 'f outcome" where
  "cell_pip command env = Inr (log (Shell command) env)"

definition cell_import :: "'f env \<Rightarrow> 'f outcome" where
  "cell_import env = Inr (env\<lparr>imported := True\<rparr>)"

definition cell_setup :: "'f library \<Rightarrow> 'f env \<Rightarrow> 'f outcome" where
  "cell_setup L =
     seq [new_simulation L,
          set_units (''AU'', ''yr'', ''Msun''),
          set_G 39.476926408897626]"

definition cell_add_inner :: "'f library \<Rightarrow> 'f env \<Rightarrow> 'f outcome" where
  "cell_add_inner L =
     seq [add_star L 1.50,
          assign_dtor,
          assign_inc_pl,
          assign_Omega_pl,
          assign_mass_e 0.005,
          assign_mass_d,
          add_planet_e L,
          add_planet_d L,
          print_elements L]"

definition cell_periods :: "'f library \<Rightarrow> 'f env \<Rightarrow> 'f outcome" where
  "cell_periods L =
     seq [print_text ''   P (yr) '',
          for_orbits L print_period,
          set_dt 1.0]"

definition cell_com :: "'f library \<Rightarrow> 'f env \<Rightarrow> 'f outcome" where
  "cell_com L =
     seq [move_to_com L,
          print_text ''   X (au)    Y (au)    Z (au) '',
          for_particles print_position]"

definition cell_plot_save :: "'f library \<Rightarrow> 'f env \<Rightarrow> 'f outcome" where
  "cell_plot_save L =
     seq [orbit_plot,
          save L ''start.bin'']"

definition cell_animate :: "'f library \<Rightarrow> 'f env \<Rightarrow> 'f outcome" where
  "cell_animate L =
     seq [assign_nframe 500,
          assign_framestep 1,
          assign_fig,
          for_nframe (seq [integrate_frame L, clear_output, op_update, fig_draw])]"

definition cell_check :: "'f library \<Rightarrow> 'f env \<Rightarrow> 'f outcome" where
  "cell_check L =
     seq [status,
          move_to_com L,
          print_elements L]"

definition cell_reset :: "'f library \<Rightarrow> 'f env \<Rightarrow> 'f outcome" where
  "cell_reset L =
     seq [del_sim,
          load_simulation L ''start.bin'',
          assign_mass_c,
          assign_mass_b 0.003,
          add_planet_c L,
          add_planet_b L,
          move_to_com L,
          status,
          print_elements L]"

definition cell_plot :: "'f env \<Rightarrow> 'f outcome" where
  "cell_plot = orbit_plot"

definition cell_long_run :: "'f library \<Rightarrow> 'f env \<Rightarrow> 'f outcome" where
  "cell_long_run L =
     seq [integrate L 100000,
          print_elements L]"

definition cell_zoom :: "'f env \<Rightarrow> 'f outcome" where
  "cell_zoom = orbit_plot"

definition cell_animate_zoom :: "'f library \<Rightarrow> 'f env \<Rightarrow> 'f outcome" where
  "cell_animate_zoom L =
     seq [assign_nframe 500,
          assign_framestep 1,
          assign_fig,
          for_nframe (seq [integrate_frame L, op_update, fig_draw])]"

text \<open>The last experiment; the mass given to \<^verbatim>\<open>mass_e\<close> is the literal the reader is asked
  to adjust, and the only difference between the two notebooks' cells.\<close>

definition cell_high_mass :: "'f library \<Rightarrow> real \<Rightarrow> 'f env \<Rightarrow> 'f outcome" where
  "cell_high_mass L mass =
     seq [del_sim,
          new_simulation L,
          add_star L 1.50,
          assign_mass_e mass,
          assign_mass_d,
          assign_mass_c,
          assign_mass_b_half,
          add_planet_e L,
          add_planet_d L,
          add_planet_c L,
          add_planet_b L,
          move_to_com L]"

definition cell_final_run :: "'f library \<Rightarrow> 'f env \<Rightarrow> 'f outcome" where
  "cell_final_run L =
     seq [integrate L 1000000,
          orbit_plot]"

definition cell_status :: "'f env \<Rightarrow> 'f outcome" where
  "cell_status = status"

definition notebook1 :: "'f library \<Rightarrow> ('f env \<Rightarrow> 'f outcome) list" where
  "notebook1 L =
     [cell_pip ''pip install rebound'',
      cell_import,
      cell_setup L,
      cell_add_inner L,
      cell_periods L,
      cell_com L,
      cell_plot_save L,
      cell_animate L,
      cell_check L,
      cell_reset L,
      cell_plot,
      cell_long_run L,
      cell_zoom,
      cell_animate_zoom L,
      cell_high_mass L 0.0073,
      cell_final_run L,
      cell_status]"

subsection \<open>The cells of the second notebook\<close>

text \<open>
  \<^verbatim>\<open>rebound_HR8799.ipynb\<close> has the cells of the first notebook except for the version that
  is installed, the two animations (220 frames, shown through \<^verbatim>\<open>display\<close>; the second one
  in the cell that makes its plot) and the mass of the last experiment.
\<close>

definition cell_animate2 :: "'f library \<Rightarrow> 'f env \<Rightarrow> 'f outcome" where
  "cell_animate2 L =
     seq [assign_nframe 220,
          assign_framestep 1,
          assign_fig,
          for_nframe (seq [integrate_frame L, display_gcf, display_clear_output, op_update])]"

definition cell_animate_zoom2 :: "'f library \<Rightarrow> 'f env \<Rightarrow> 'f outcome" where
  "cell_animate_zoom2 L =
     seq [orbit_plot,
          plot_point,
          assign_nframe 220,
          assign_framestep 1,
          for_nframe (seq [integrate_frame L, display_gcf, display_clear_output, op_update])]"

definition notebook2 :: "'f library \<Rightarrow> ('f env \<Rightarrow> 'f outcome) list" where
  "notebook2 L =
     [cell_pip ''pip install rebound==3.28.4'',
      cell_import,
      cell_setup L,
      cell_add_inner L,
      cell_periods L,
      cell_com L,
      cell_plot_save L,
      cell_animate2 L,
      cell_check L,
      cell_reset L,
      cell_plot,
      cell_long_run L,
      cell_animate_zoom2 L,
      cell_high_mass L 0.005,
      cell_final_run L,
      cell_status]"

text \<open>Running the cells of a notebook top to bottom, stopping at the first exception.\<close>

definition run_all :: "('f env \<Rightarrow> 'f outcome) list \<Rightarrow> 'f env \<Rightarrow> 'f outcome" where
  "run_all cells env = seq cells env"

section \<open>Reading the record of calls\<close>

text \<open>The arguments of the \<^verbatim>\<open>sim.add\<close> calls, in the order they were made.\<close>

fun additions :: "call list \<Rightarrow> add_args list" where
  "additions [] = []"
| "additions (Add r args # cs) = args # additions cs"
| "additions (c # cs) = additions cs"

text \<open>A call that gives the mass only, and a call that gives the six orbital elements.\<close>

definition star :: "real \<Rightarrow> add_args" where
  "star mass =
     \<lparr>arg_m = Some mass, arg_a = None, arg_e = None, arg_omega = None, arg_M = None,
      arg_inc = None, arg_Omega = None\<rparr>"

definition planet :: "real \<Rightarrow> real \<Rightarrow> real \<Rightarrow> real \<Rightarrow> real \<Rightarrow> real \<Rightarrow> real \<Rightarrow> add_args" where
  "planet mass A E W MA i Om =
     \<lparr>arg_m = Some mass, arg_a = Some A, arg_e = Some E, arg_omega = Some W, arg_M = Some MA,
      arg_inc = Some i, arg_Omega = Some Om\<rparr>"

text \<open>The four planets as the notebooks add them, the mass left open.\<close>

definition body_e :: "real \<Rightarrow> add_args" where
  "body_e mass = planet mass 16.64 0.1397 (118.8 * dtor) 1.261 (27.8 * dtor) (60.1 * dtor)"

definition body_d :: "real \<Rightarrow> add_args" where
  "body_d mass = planet mass 26.29 0.1112 (24.3 * dtor) 2.032 (27.8 * dtor) (60.1 * dtor)"

definition body_c :: "real \<Rightarrow> add_args" where
  "body_c mass = planet mass 43.12 0.0561 (28.5 * dtor) 4.232 (27.8 * dtor) (60.1 * dtor)"

definition body_b :: "real \<Rightarrow> add_args" where
  "body_b mass = planet mass 70.50 0.0113 (213.6 * dtor) 2.642 (27.8 * dtor) (60.1 * dtor)"

definition elements_given :: "add_args \<Rightarrow> bool" where
  "elements_given args \<longleftrightarrow>
     arg_a args \<noteq> None \<and> arg_e args \<noteq> None \<and> arg_inc args \<noteq> None \<and>
     arg_Omega args \<noteq> None \<and> arg_omega args \<noteq> None \<and> arg_M args \<noteq> None"

definition mass_only :: "add_args \<Rightarrow> bool" where
  "mass_only args \<longleftrightarrow>
     arg_m args \<noteq> None \<and> arg_a args = None \<and> arg_e args = None \<and> arg_inc args = None \<and>
     arg_Omega args = None \<and> arg_omega args = None \<and> arg_M args = None"

text \<open>The exceptions that the library raised, in the order it raised them.\<close>

fun raised :: "call list \<Rightarrow> error list" where
  "raised [] = []"
| "raised (Raised err # cs) = err # raised cs"
| "raised (c # cs) = raised cs"

text \<open>The exceptions that the interpreter raises by itself.\<close>

fun own_error :: "error \<Rightarrow> bool" where
  "own_error (NameError name) = True"
| "own_error ZeroDivisionError = True"
| "own_error (LibraryError text) = False"

text \<open>The calls that read or write a file, and the number of \<^verbatim>\<open>integrate\<close> calls.\<close>

fun is_file_call :: "call \<Rightarrow> bool" where
  "is_file_call (Load name r) = True"
| "is_file_call (Save r name) = True"
| "is_file_call c = False"

definition file_calls :: "call list \<Rightarrow> call list" where
  "file_calls cs = filter is_file_call cs"

fun is_integrate :: "call \<Rightarrow> bool" where
  "is_integrate (Integrate r tmax) = True"
| "is_integrate c = False"

definition integrations :: "call list \<Rightarrow> nat" where
  "integrations cs = length (filter is_integrate cs)"

text \<open>The calls that build a simulation: making or loading one, adding a body, saving.\<close>

fun is_build :: "call \<Rightarrow> bool" where
  "is_build (New r) = True"
| "is_build (Load name r) = True"
| "is_build (Save r name) = True"
| "is_build (Add r args) = True"
| "is_build c = False"

definition builds :: "call list \<Rightarrow> call list" where
  "builds cs = filter is_build cs"

text \<open>
  The configurations that a record of calls builds: for every simulation object, in the
  order the objects were made, the bodies it was given. An object loaded from a checkpoint
  starts with the bodies of the simulation that was saved there (none when the record has
  no such save).
\<close>

type_synonym built = "(nat \<times> add_args list) list \<times> (string \<times> add_args list) list"

fun track :: "call \<Rightarrow> built \<Rightarrow> built" where
  "track (New r) (objs, files) = (objs @ [(r, [])], files)"
| "track (Load name r) (objs, files) =
     (objs @ [(r, case map_of files name of None \<Rightarrow> [] | Some bs \<Rightarrow> bs)], files)"
| "track (Save r name) (objs, files) =
     (objs, (name, case map_of objs r of None \<Rightarrow> [] | Some bs \<Rightarrow> bs) # files)"
| "track (Add r args) (objs, files) =
     (map (\<lambda>(r', bs). if r' = r then (r', bs @ [args]) else (r', bs)) objs, files)"
| "track c b = b"

definition configurations :: "call list \<Rightarrow> add_args list list" where
  "configurations cs = map snd (fst (fold track cs ([], [])))"

text \<open>
  A configuration with the star first, the planets after it from the inside out, all in
  the plane given by \<^verbatim>\<open>inc_pl\<close> and \<^verbatim>\<open>Omega_pl\<close>.
\<close>

definition further_out :: "add_args \<Rightarrow> add_args \<Rightarrow> bool" where
  "further_out p q =
     (case arg_a p of None \<Rightarrow> False
      | Some x \<Rightarrow> (case arg_a q of None \<Rightarrow> False | Some y \<Rightarrow> x < y))"

definition in_plane :: "add_args \<Rightarrow> bool" where
  "in_plane p \<longleftrightarrow> arg_inc p = Some (27.8 * dtor) \<and> arg_Omega p = Some (60.1 * dtor)"

definition inside_out :: "add_args list \<Rightarrow> bool" where
  "inside_out bodies =
     (case bodies of
        [] \<Rightarrow> False
      | b # planets \<Rightarrow>
          b = star 1.50 \<and> sorted_wrt further_out planets \<and> list_all in_plane planets)"

section \<open>Contracts of the library\<close>


definition constants :: "simulation \<Rightarrow> real \<times> (string \<times> string \<times> string) option" where
  "constants s = (sim_G s, sim_units s)"

definition keeps_constants :: "'f library \<Rightarrow> bool" where
  "keeps_constants L \<longleftrightarrow>
     (\<forall>args s s'. lib_add L args s = Inr s' \<longrightarrow> constants s' = constants s) \<and>
     (\<forall>tmax s s'. lib_integrate L tmax s = Inr s' \<longrightarrow> constants s' = constants s) \<and>
     (\<forall>s s'. lib_move_to_com L s = Inr s' \<longrightarrow> constants s' = constants s)"

definition restores_constants :: "'f library \<Rightarrow> bool" where
  "restores_constants L \<longleftrightarrow>
     (\<forall>s content s'. lib_save L s = Inr content \<and> lib_open L (Some content) = Inr s' \<longrightarrow>
        constants s' = constants s)"

definition never_raises :: "'f library \<Rightarrow> bool" where
  "never_raises L \<longleftrightarrow>
     (\<forall>content. \<exists>s. lib_open L (Some content) = Inr s) \<and>
     (\<forall>s. \<exists>content. lib_save L s = Inr content) \<and>
     (\<forall>args s. \<exists>s'. lib_add L args s = Inr s') \<and>
     (\<forall>tmax s. \<exists>s'. lib_integrate L tmax s = Inr s') \<and>
     (\<forall>s. \<exists>s'. lib_move_to_com L s = Inr s') \<and>
     (\<forall>s. \<exists>obs. lib_calculate_orbits L s = Inr obs)"




subsection \<open>Stand-ins for the library\<close>

text \<open>
  Two libraries that meet the contracts, to show that the hypotheses of the theorems can
  be met. The first keeps the elements a body was added with in the slots of its Cartesian
  state and gives them back as its orbit, sets the time on \<^verbatim>\<open>integrate\<close>, and writes the
  simulation itself to the file. The second changes nothing. Both raise when the file to
  read is missing, and both add floating-point numbers as reals.
\<close>

definition read_back :: "simulation option \<Rightarrow> error + simulation" where
  "read_back file =
     (case file of
        None \<Rightarrow> Inl (LibraryError ''Cannot read binary file'')
      | Some s \<Rightarrow> Inr s)"

definition kept :: "add_args \<Rightarrow> particle" where
  "kept args =
     \<lparr>p_m = (case arg_m args of None \<Rightarrow> 0 | Some x \<Rightarrow> x),
      p_x = (case arg_a args of None \<Rightarrow> 0 | Some x \<Rightarrow> x),
      p_y = (case arg_e args of None \<Rightarrow> 0 | Some x \<Rightarrow> x),
      p_z = (case arg_omega args of None \<Rightarrow> 0 | Some x \<Rightarrow> x),
      p_vx = (case arg_inc args of None \<Rightarrow> 0 | Some x \<Rightarrow> x),
      p_vy = (case arg_Omega args of None \<Rightarrow> 0 | Some x \<Rightarrow> x),
      p_vz = (case arg_M args of None \<Rightarrow> 0 | Some x \<Rightarrow> x)\<rparr>"

definition given_back :: "particle \<Rightarrow> orbit" where
  "given_back p =
     \<lparr>o_a = p_x p, o_e = p_y p, o_omega = p_z p, o_inc = p_vx p, o_Omega = p_vy p, o_P = 1\<rparr>"

definition blank_simulation :: simulation where
  "blank_simulation =
     \<lparr>sim_t = 0, sim_dt = 0.001, sim_G = 1, sim_units = None, sim_particles = []\<rparr>"

definition keeping_library :: "simulation library" where
  "keeping_library =
     \<lparr>lib_Simulation = blank_simulation,
      lib_open = read_back,
      lib_save = Inr,
      lib_add = (\<lambda>args s. Inr (s\<lparr>sim_particles := sim_particles s @ [kept args]\<rparr>)),
      lib_integrate = (\<lambda>tmax s. Inr (s\<lparr>sim_t := tmax\<rparr>)),
      lib_move_to_com = Inr,
      lib_calculate_orbits = (\<lambda>s. Inr (map given_back (tl (sim_particles s)))),
      float_add = (\<lambda>x y. x + y)\<rparr>"


text \<open>A library whose \<^verbatim>\<open>integrate\<close> raises when it is asked to go beyond the time 2.\<close>

definition bounded_library :: "simulation library" where
  "bounded_library =
     keeping_library
       \<lparr>lib_integrate :=
          (\<lambda>tmax s. if tmax \<le> 2 then Inr (s\<lparr>sim_t := tmax\<rparr>)
                     else Inl (LibraryError ''integration failed''))\<rparr>"

text \<open>A library whose every operation raises.\<close>

definition raising_library :: "simulation library" where
  "raising_library =
     \<lparr>lib_Simulation = blank_simulation,
      lib_open = (\<lambda>file. Inl (LibraryError ''failed'')),
      lib_save = (\<lambda>s. Inl (LibraryError ''failed'')),
      lib_add = (\<lambda>args s. Inl (LibraryError ''failed'')),
      lib_integrate = (\<lambda>tmax s. Inl (LibraryError ''failed'')),
      lib_move_to_com = (\<lambda>s. Inl (LibraryError ''failed'')),
      lib_calculate_orbits = (\<lambda>s. Inl (LibraryError ''failed'')),
      float_add = (\<lambda>x y. x + y)\<rparr>"

text \<open>
  A kernel in which the imports are done and \<^verbatim>\<open>sim\<close> and \<^verbatim>\<open>op.sim\<close> are one object, as
  after the cell that makes the plot.
\<close>

definition plotted :: "simulation env" where
  "plotted =
     (fresh Map.empty)
       \<lparr>imported := True, store := (\<lambda>r. blank_simulation), next_ref := 1, v_sim := Some 0,
        v_op := Some 0\<rparr>"

text \<open>
  The first kernel after the cell that adds the star and the planets e and d, and then
  after the cell that makes the plot and saves the checkpoint, both run under the first
  stand-in.
\<close>

definition inner_added :: "simulation env" where
  "inner_added = projr (cell_add_inner keeping_library plotted)"

definition inner_saved :: "simulation env" where
  "inner_saved = projr (cell_plot_save keeping_library inner_added)"

text \<open>The same kernel with the time step 1 that the notebooks assign.\<close>

definition stepping :: "simulation env" where
  "stepping = plotted\<lparr>store := (\<lambda>r. blank_simulation\<lparr>sim_dt := 1\<rparr>)\<rparr>"


section \<open>What later cells depend on\<close>

text \<open>
  The part of the kernel state that decides which calls build a simulation: the names that
  the cells read, the next reference, the building calls made so far and the files.
\<close>

type_synonym bindings =
  "bool \<times> nat option \<times> nat option \<times> nat \<times> real option \<times> real option \<times> real option \<times>
   real option \<times> real option \<times> real option \<times> real option"

definition bindings :: "'f env \<Rightarrow> bindings" where
  "bindings e =
     (imported e, v_sim e, v_op e, next_ref e, v_dtor e, v_inc_pl e, v_Omega_pl e,
      v_mass_e e, v_mass_d e, v_mass_c e, v_mass_b e)"

definition view :: "'f env \<Rightarrow> bindings \<times> call list \<times> (string \<rightharpoonup> 'f)" where
  "view e = (bindings e, builds (calls e), fs e)"

text \<open>The row printed for an orbit when \<^verbatim>\<open>dtor\<close> has the value \<open>d\<close>.\<close>

definition orbit_row :: "real \<Rightarrow> orbit \<Rightarrow> printed" where
  "orbit_row d ob = Row [o_a ob, o_e ob, o_omega ob / d, o_inc ob / d, o_Omega ob / d]"

section \<open>The loop bodies\<close>


text \<open>
  The three loop bodies of the animations are one \<^verbatim>\<open>integrate\<close> call followed by display
  calls; \<open>draws\<close> says whether the body redraws \<^verbatim>\<open>fig\<close>.
\<close>

definition is_frame_body :: "'f library \<Rightarrow> bool \<Rightarrow> ('f env \<Rightarrow> 'f outcome) \<Rightarrow> bool" where
  "is_frame_body L draws body \<longleftrightarrow>
     draws \<and> body = seq [integrate_frame L, clear_output, op_update, fig_draw] \<or>
     draws \<and> body = seq [integrate_frame L, op_update, fig_draw] \<or>
     \<not> draws \<and> body = seq [integrate_frame L, display_gcf, display_clear_output, op_update]"

section \<open>Notions used in the proofs\<close>

text \<open>A kernel in which every name that a later cell reads is bound and the checkpoint exists.\<close>

definition ready :: "'f env \<Rightarrow> bool" where
  "ready e \<longleftrightarrow> imported e \<and> v_sim e \<noteq> None \<and> v_op e \<noteq> None \<and> v_dtor e = Some dtor \<and>
     v_inc_pl e \<noteq> None \<and> v_Omega_pl e \<noteq> None \<and> v_mass_e e \<noteq> None \<and>
     fs e ''start.bin'' \<noteq> None"

text \<open>
  A library whose operations leave the quantity \<open>q\<close> of a simulation as it is, for a
  quantity that does not depend on the time step (which the notebooks assign).
\<close>

definition preserves :: "(simulation \<Rightarrow> 'a) \<Rightarrow> 'f library \<Rightarrow> bool" where
  "preserves q L \<longleftrightarrow>
     (\<forall>args s s'. lib_add L args s = Inr s' \<longrightarrow> q s' = q s) \<and>
     (\<forall>tmax s s'. lib_integrate L tmax s = Inr s' \<longrightarrow> q s' = q s) \<and>
     (\<forall>s s'. lib_move_to_com L s = Inr s' \<longrightarrow> q s' = q s) \<and>
     (\<forall>s h. q (s\<lparr>sim_dt := h\<rparr>) = q s)"

text \<open>
  An outcome in which no exception of the library was handled: a state that is returned
  has no more raised exceptions on record than the state before; an exception that ends
  the run is the interpreter's own, with nothing raised by the library, or it is the one
  exception that the library raised, and nothing is on record after it.
\<close>

definition unhandled :: "'f env \<Rightarrow> 'f outcome \<Rightarrow> bool" where
  "unhandled e res =
     (case res of
        Inr e' \<Rightarrow> raised (calls e') = raised (calls e)
      | Inl (err, e1) \<Rightarrow>
          own_error err \<and> raised (calls e1) = raised (calls e) \<or>
          last (calls e1) = Raised err \<and> raised (calls e1) = raised (calls e) @ [err])"

definition honest :: "('f env \<Rightarrow> 'f outcome) \<Rightarrow> bool" where
  "honest c \<longleftrightarrow> (\<forall>e. unhandled e (c e))"

text \<open>An orbit that has the elements a body was added with.\<close>

definition orbit_as_added :: "add_args \<Rightarrow> orbit \<Rightarrow> bool" where
  "orbit_as_added args ob \<longleftrightarrow>
     arg_a args = Some (o_a ob) \<and> arg_e args = Some (o_e ob) \<and> arg_omega args = Some (o_omega ob) \<and>
     arg_inc args = Some (o_inc ob) \<and> arg_Omega args = Some (o_Omega ob)"


section \<open>Successful statements\<close>

text \<open>
  When a statement returns, and the state it returns: each lemma has the form
  \<open>stmt env = Inr env' \<longleftrightarrow> condition \<and> env' = state\<close>.
\<close>

declare seq.simps [simp del]

lemma seq_Nil_Inr: "seq [] env = Inr env' \<longleftrightarrow> env' = env"
  by (auto simp: seq.simps)

lemma seq_Cons_Inr:
  "seq (c # cs) env = Inr env' \<longleftrightarrow> (\<exists>e1. c env = Inr e1 \<and> seq cs e1 = Inr env')"
  by (cases "c env") (auto simp: seq.simps)

lemma need_Inr: "need name v env k = Inr env' \<longleftrightarrow> v \<noteq> None \<and> k (the v) = Inr env'"
  by (cases v) (auto simp: need_def)

lemma need_import_Inr: "need_import name env k = Inr env' \<longleftrightarrow> imported env \<and> k = Inr env'"
  by (auto simp: need_import_def)

lemmas ok_simps = seq_Nil_Inr seq_Cons_Inr need_Inr need_import_Inr

lemma not_isl_D: "\<not> isl x \<Longrightarrow> \<exists>s. x = Inr s"
  by (cases x) auto

lemma new_simulation_Inr:
  "new_simulation L env = Inr env' \<longleftrightarrow>
     imported env \<and>
     env' = env\<lparr>calls := calls env @ [New (next_ref env)],
                store := (store env)(next_ref env := lib_Simulation L),
                next_ref := Suc (next_ref env), v_sim := Some (next_ref env)\<rparr>"
  by (auto simp: new_simulation_def ok_simps log_def Let_def)

lemma load_simulation_Inr:
  "load_simulation L name env = Inr env' \<longleftrightarrow>
     imported env \<and> \<not> isl (lib_open L (fs env name)) \<and>
     env' = env\<lparr>calls := calls env @ [Load name (next_ref env)],
                store := (store env)(next_ref env := projr (lib_open L (fs env name))),
                next_ref := Suc (next_ref env), v_sim := Some (next_ref env)\<rparr>"
  by (cases "lib_open L (fs env name)")
     (auto simp: load_simulation_def ok_simps log_def Let_def)

lemma del_sim_Inr: "del_sim env = Inr env' \<longleftrightarrow> v_sim env \<noteq> None \<and> env' = env\<lparr>v_sim := None\<rparr>"
  by (auto simp: del_sim_def ok_simps)

lemma set_units_Inr:
  "set_units u env = Inr env' \<longleftrightarrow>
     v_sim env \<noteq> None \<and>
     env' = env\<lparr>store := (store env)
               (the (v_sim env) := (store env (the (v_sim env)))\<lparr>sim_units := Some u\<rparr>)\<rparr>"
  by (auto simp: set_units_def ok_simps)

lemma set_G_Inr:
  "set_G g env = Inr env' \<longleftrightarrow>
     v_sim env \<noteq> None \<and>
     env' = env\<lparr>store := (store env)
               (the (v_sim env) := (store env (the (v_sim env)))\<lparr>sim_G := g\<rparr>)\<rparr>"
  by (auto simp: set_G_def ok_simps)

lemma set_dt_Inr:
  "set_dt h env = Inr env' \<longleftrightarrow>
     v_sim env \<noteq> None \<and>
     env' = env\<lparr>store := (store env)
               (the (v_sim env) := (store env (the (v_sim env)))\<lparr>sim_dt := h\<rparr>)\<rparr>"
  by (auto simp: set_dt_def ok_simps)

lemma sim_add_Inr:
  "sim_add L r args env = Inr env' \<longleftrightarrow>
     \<not> isl (lib_add L args (store env r)) \<and>
     env' = env\<lparr>calls := calls env @ [Add r args],
                store := (store env)(r := projr (lib_add L args (store env r)))\<rparr>"
  by (cases "lib_add L args (store env r)") (auto simp: sim_add_def log_def Let_def)

lemma add_star_Inr:
  "add_star L mass env = Inr env' \<longleftrightarrow>
     v_sim env \<noteq> None \<and> sim_add L (the (v_sim env)) (star mass) env = Inr env'"
  by (auto simp: add_star_def ok_simps star_def)

lemma add_planet_Inr:
  "add_planet L mass_name mass_var A E W MA env = Inr env' \<longleftrightarrow>
     v_sim env \<noteq> None \<and> mass_var env \<noteq> None \<and> v_dtor env \<noteq> None \<and> v_inc_pl env \<noteq> None \<and>
     v_Omega_pl env \<noteq> None \<and>
     sim_add L (the (v_sim env))
       (planet (the (mass_var env)) A E (W * the (v_dtor env)) MA (the (v_inc_pl env))
          (the (v_Omega_pl env))) env = Inr env'"
  by (auto simp: add_planet_def ok_simps planet_def)

lemma assign_dtor_Inr:
  "assign_dtor env = Inr env' \<longleftrightarrow> imported env \<and> env' = env\<lparr>v_dtor := Some dtor\<rparr>"
  by (auto simp: assign_dtor_def ok_simps)

lemma assign_inc_pl_Inr:
  "assign_inc_pl env = Inr env' \<longleftrightarrow>
     v_dtor env \<noteq> None \<and> env' = env\<lparr>v_inc_pl := Some (27.8 * the (v_dtor env))\<rparr>"
  by (auto simp: assign_inc_pl_def ok_simps)

lemma assign_Omega_pl_Inr:
  "assign_Omega_pl env = Inr env' \<longleftrightarrow>
     v_dtor env \<noteq> None \<and> env' = env\<lparr>v_Omega_pl := Some (60.1 * the (v_dtor env))\<rparr>"
  by (auto simp: assign_Omega_pl_def ok_simps)

lemma assign_mass_e_Inr: "assign_mass_e x env = Inr env' \<longleftrightarrow> env' = env\<lparr>v_mass_e := Some x\<rparr>"
  by (auto simp: assign_mass_e_def)

lemma assign_mass_b_Inr: "assign_mass_b x env = Inr env' \<longleftrightarrow> env' = env\<lparr>v_mass_b := Some x\<rparr>"
  by (auto simp: assign_mass_b_def)

lemma assign_mass_d_Inr:
  "assign_mass_d env = Inr env' \<longleftrightarrow>
     v_mass_e env \<noteq> None \<and> env' = env\<lparr>v_mass_d := Some (the (v_mass_e env))\<rparr>"
  by (auto simp: assign_mass_d_def ok_simps)

lemma assign_mass_c_Inr:
  "assign_mass_c env = Inr env' \<longleftrightarrow>
     v_mass_e env \<noteq> None \<and> env' = env\<lparr>v_mass_c := Some (the (v_mass_e env))\<rparr>"
  by (auto simp: assign_mass_c_def ok_simps)

lemma assign_mass_b_half_Inr:
  "assign_mass_b_half env = Inr env' \<longleftrightarrow>
     v_mass_e env \<noteq> None \<and> env' = env\<lparr>v_mass_b := Some (the (v_mass_e env) * 0.5)\<rparr>"
  by (auto simp: assign_mass_b_half_def ok_simps)

lemma print_blank_Inr: "print_blank env = Inr env' \<longleftrightarrow> env' = env\<lparr>out := out env @ [Blank]\<rparr>"
  by (auto simp: print_blank_def emit_def)

lemma print_text_Inr: "print_text s env = Inr env' \<longleftrightarrow> env' = env\<lparr>out := out env @ [Text s]\<rparr>"
  by (auto simp: print_text_def emit_def)

lemma move_to_com_Inr:
  "move_to_com L env = Inr env' \<longleftrightarrow>
     v_sim env \<noteq> None \<and> \<not> isl (lib_move_to_com L (store env (the (v_sim env)))) \<and>
     env' = env\<lparr>calls := calls env @ [MoveToCom (the (v_sim env))],
                store := (store env)
                  (the (v_sim env) := projr (lib_move_to_com L (store env (the (v_sim env)))))\<rparr>"
  by (cases "v_sim env"; cases "lib_move_to_com L (store env (the (v_sim env)))")
     (auto simp: move_to_com_def need_def log_def Let_def)

lemma integrate_ref_Inr:
  "integrate_ref L r tmax env = Inr env' \<longleftrightarrow>
     \<not> isl (lib_integrate L tmax (store env r)) \<and>
     env' = env\<lparr>calls := calls env @ [Integrate r tmax],
                store := (store env)(r := projr (lib_integrate L tmax (store env r)))\<rparr>"
  by (cases "lib_integrate L tmax (store env r)") (auto simp: integrate_ref_def log_def Let_def)

lemma integrate_Inr:
  "integrate L tmax env = Inr env' \<longleftrightarrow>
     v_sim env \<noteq> None \<and> integrate_ref L (the (v_sim env)) tmax env = Inr env'"
  by (auto simp: integrate_def ok_simps)

lemma integrate_frame_Inr:
  "integrate_frame L env = Inr env' \<longleftrightarrow>
     v_op env \<noteq> None \<and> v_sim env \<noteq> None \<and> v_framestep env \<noteq> None \<and>
     integrate_ref L (the (v_op env))
       (float_add L (sim_t (store env (the (v_sim env)))) (the (v_framestep env))) env = Inr env'"
  by (auto simp: integrate_frame_def ok_simps)

lemma status_Inr:
  "status env = Inr env' \<longleftrightarrow>
     v_sim env \<noteq> None \<and>
     env' = env\<lparr>calls := calls env @ [Status (the (v_sim env))],
                out := out env @ [StatusOf (store env (the (v_sim env)))]\<rparr>"
  by (auto simp: status_def ok_simps log_def emit_def)

lemma save_Inr:
  "save L name env = Inr env' \<longleftrightarrow>
     v_sim env \<noteq> None \<and> \<not> isl (lib_save L (store env (the (v_sim env)))) \<and>
     env' = env\<lparr>calls := calls env @ [Save (the (v_sim env)) name],
                fs := (fs env)(name \<mapsto> projr (lib_save L (store env (the (v_sim env)))))\<rparr>"
  by (cases "v_sim env"; cases "lib_save L (store env (the (v_sim env)))")
     (auto simp: save_def need_def log_def Let_def)

lemma orbit_plot_Inr:
  "orbit_plot env = Inr env' \<longleftrightarrow>
     imported env \<and> v_sim env \<noteq> None \<and>
     env' = env\<lparr>calls := calls env @ [Plot (the (v_sim env))], v_op := v_sim env\<rparr>"
  by (auto simp: orbit_plot_def ok_simps log_def)

lemma assign_fig_Inr:
  "assign_fig env = Inr env' \<longleftrightarrow> v_op env \<noteq> None \<and> env' = env\<lparr>v_fig := v_op env\<rparr>"
  by (auto simp: assign_fig_def ok_simps)

lemma clear_output_Inr:
  "clear_output env = Inr env' \<longleftrightarrow> imported env \<and> env' = env\<lparr>calls := calls env @ [ClearOutput]\<rparr>"
  by (auto simp: clear_output_def ok_simps log_def)

lemma display_clear_output_Inr:
  "display_clear_output env = Inr env' \<longleftrightarrow>
     imported env \<and> env' = env\<lparr>calls := calls env @ [ClearOutput]\<rparr>"
  by (auto simp: display_clear_output_def ok_simps log_def)

lemma display_gcf_Inr:
  "display_gcf env = Inr env' \<longleftrightarrow> imported env \<and> env' = env\<lparr>calls := calls env @ [Display]\<rparr>"
  by (auto simp: display_gcf_def ok_simps log_def)

lemma plot_point_Inr:
  "plot_point env = Inr env' \<longleftrightarrow> imported env \<and> env' = env\<lparr>calls := calls env @ [PlotPoint]\<rparr>"
  by (auto simp: plot_point_def ok_simps log_def)

lemma op_update_Inr:
  "op_update env = Inr env' \<longleftrightarrow>
     v_op env \<noteq> None \<and> env' = env\<lparr>calls := calls env @ [Update (the (v_op env))]\<rparr>"
  by (auto simp: op_update_def ok_simps log_def)

lemma fig_draw_Inr:
  "fig_draw env = Inr env' \<longleftrightarrow> v_fig env \<noteq> None \<and> env' = env\<lparr>calls := calls env @ [Draw]\<rparr>"
  by (auto simp: fig_draw_def ok_simps log_def)

lemma assign_nframe_Inr: "assign_nframe n env = Inr env' \<longleftrightarrow> env' = env\<lparr>v_nframe := Some n\<rparr>"
  by (auto simp: assign_nframe_def)

lemma assign_framestep_Inr:
  "assign_framestep k env = Inr env' \<longleftrightarrow>
     v_sim env \<noteq> None \<and>
     env' = env\<lparr>v_framestep := Some (k * sim_dt (store env (the (v_sim env))))\<rparr>"
  by (auto simp: assign_framestep_def ok_simps)

lemmas stmt_simps =
  new_simulation_Inr load_simulation_Inr del_sim_Inr set_units_Inr set_G_Inr set_dt_Inr
  sim_add_Inr add_star_Inr add_planet_Inr assign_dtor_Inr assign_inc_pl_Inr assign_Omega_pl_Inr
  assign_mass_e_Inr assign_mass_b_Inr assign_mass_d_Inr assign_mass_c_Inr assign_mass_b_half_Inr
  print_blank_Inr print_text_Inr move_to_com_Inr integrate_ref_Inr integrate_Inr
  integrate_frame_Inr status_Inr save_Inr orbit_plot_Inr assign_fig_Inr clear_output_Inr
  display_clear_output_Inr display_gcf_Inr plot_point_Inr op_update_Inr fig_draw_Inr
  assign_nframe_Inr assign_framestep_Inr

section \<open>Loops\<close>

lemma for_range_count:
  assumes "for_range n body e = Inr e'" and "P k e"
    and step: "\<And>a b j. body a = Inr b \<Longrightarrow> P j a \<Longrightarrow> P (Suc j) b"
  shows "P (k + n) e'"
  using assms(1,2)
proof (induction n arbitrary: e k)
  case 0
  then show ?case by simp
next
  case (Suc n)
  from Suc.prems(1) obtain a where a: "body e = Inr a" and rest: "for_range n body a = Inr e'"
    by (auto split: sum.splits)
  from step [OF a Suc.prems(2)] have "P (Suc k) a" .
  from Suc.IH [OF rest this] show ?case by simp
qed

lemma for_range_total:
  assumes "Q e" and step: "\<And>a. Q a \<Longrightarrow> \<exists>b. body a = Inr b \<and> Q b"
  shows "\<exists>e'. for_range n body e = Inr e' \<and> Q e'"
  using assms(1)
proof (induction n arbitrary: e)
  case 0
  then show ?case by simp
next
  case (Suc n)
  from step [OF Suc.prems] obtain a where a: "body e = Inr a" and "Q a" by blast
  from Suc.IH [OF this(2)] a show ?case by simp
qed

lemma for_nframe_Inr:
  "for_nframe body env = Inr env' \<longleftrightarrow>
     v_nframe env \<noteq> None \<and> for_range (nat (the (v_nframe env))) body env = Inr env'"
  by (simp add: for_nframe_def ok_simps)

lemma frame_body_step:
  assumes "is_frame_body L draws body" and "body a = Inr b"
  shows "\<exists>p r h s. v_op a = Some p \<and> v_sim a = Some r \<and> v_framestep a = Some h \<and>
        lib_integrate L (float_add L (sim_t (store a r)) h) (store a p) = Inr s \<and>
        store b = (store a)(p := s) \<and> integrations (calls b) = Suc (integrations (calls a)) \<and>
        v_op b = v_op a \<and> v_sim b = v_sim a \<and> v_framestep b = v_framestep a \<and>
        view b = view a"
  using assms unfolding is_frame_body_def
  by (auto simp: ok_simps stmt_simps integrations_def view_def bindings_def builds_def
        dest!: not_isl_D)

lemma frames_count:
  assumes "is_frame_body L draws body" and "for_range n body e = Inr e'"
  shows "integrations (calls e') = integrations (calls e) + n"
proof -
  have "integrations (calls e') = integrations (calls e) + (0 + n)"
    by (rule for_range_count [where P = "\<lambda>j a. integrations (calls a) = integrations (calls e) + j",
          OF assms(2)])
       (auto dest!: frame_body_step [OF assms(1)])
  then show ?thesis by simp
qed


lemma frames_total:
  assumes "is_frame_body L draws body" and "\<forall>tmax s. \<exists>s'. lib_integrate L tmax s = Inr s'"
    and "imported e" and "v_op e \<noteq> None" and "v_sim e \<noteq> None" and "v_framestep e \<noteq> None"
    and "draws \<longrightarrow> v_fig e \<noteq> None"
  shows "\<exists>e'. for_range n body (e :: 'f env) = Inr e'"
proof -
  let ?Q = "\<lambda>a :: 'f env. imported a \<and> v_op a \<noteq> None \<and> v_sim a \<noteq> None \<and> v_framestep a \<noteq> None \<and>
     (draws \<longrightarrow> v_fig a \<noteq> None)"
  have step: "\<exists>b. body a = Inr b \<and> ?Q b" if "?Q a" for a
  proof -
    from that obtain p r h where v: "v_op a = Some p" "v_sim a = Some r" "v_framestep a = Some h"
      by auto
    from that have g: "draws \<longrightarrow> (\<exists>g. v_fig a = Some g)" by auto
    from assms(2) obtain s
      where "lib_integrate L (float_add L (sim_t (store a r)) h) (store a p) = Inr s"
      by blast
    with v g that assms(1) show ?thesis
      unfolding is_frame_body_def by (auto simp: ok_simps stmt_simps)
  qed
  have "\<exists>e'. for_range n body e = Inr e' \<and> ?Q e'"
  proof (rule for_range_total [where Q = ?Q])
    show "?Q e" using assms by simp
  next
    fix a assume "?Q a"
    then show "\<exists>b. body a = Inr b \<and> ?Q b" by (rule step)
  qed
  then show ?thesis by blast
qed

lemma frame_bodies [simp]:
  "is_frame_body L True (seq [integrate_frame L, clear_output, op_update, fig_draw])"
  "is_frame_body L True (seq [integrate_frame L, op_update, fig_draw])"
  "is_frame_body L False (seq [integrate_frame L, display_gcf, display_clear_output, op_update])"
  by (simp_all add: is_frame_body_def)

section \<open>Printing loops\<close>

lemma for_each_print_orbit:
  assumes "v_dtor e = Some d" and "d \<noteq> 0"
  shows "for_each obs print_orbit e = Inr (e\<lparr>out := out e @ map (orbit_row d) obs\<rparr>)"
  using assms
proof (induction obs arbitrary: e)
  case Nil
  then show ?case by simp
next
  case (Cons ob obs)
  have "print_orbit ob e = Inr (e\<lparr>out := out e @ [orbit_row d ob]\<rparr>)"
    using Cons.prems by (simp add: print_orbit_def need_def emit_def orbit_row_def)
  then show ?case using Cons.IH [of "e\<lparr>out := out e @ [orbit_row d ob]\<rparr>"] Cons.prems
    by simp
qed

lemma for_each_print_orbit_Inr:
  "for_each obs print_orbit e = Inr e' \<longleftrightarrow>
     (obs = [] \<or> v_dtor e \<noteq> None \<and> the (v_dtor e) \<noteq> 0) \<and>
     e' = e\<lparr>out := out e @ map (orbit_row (the (v_dtor e))) obs\<rparr>"
proof (cases obs)
  case Nil
  then show ?thesis by auto
next
  case (Cons ob obs')
  show ?thesis
  proof (cases "v_dtor e")
    case None
    then show ?thesis using Cons by (simp add: print_orbit_def need_def)
  next
    case (Some d)
    show ?thesis
    proof (cases "d = 0")
      case True
      then show ?thesis using Cons Some by (simp add: print_orbit_def need_def)
    next
      case False
      from for_each_print_orbit [OF Some False, of obs] Some False Cons show ?thesis by auto
    qed
  qed
qed

lemma for_each_print_period:
  "for_each obs print_period e = Inr (e\<lparr>out := out e @ map (\<lambda>ob. Row [o_P ob]) obs\<rparr>)"
proof (induction obs arbitrary: e)
  case Nil
  then show ?case by simp
next
  case (Cons ob obs)
  show ?case using Cons [of "e\<lparr>out := out e @ [Row [o_P ob]]\<rparr>"]
    by (simp add: print_period_def emit_def)
qed

lemma for_each_print_position:
  "for_each ps print_position e =
     Inr (e\<lparr>out := out e @ map (\<lambda>p. Row [p_x p, p_y p, p_z p]) ps\<rparr>)"
proof (induction ps arbitrary: e)
  case Nil
  then show ?case by simp
next
  case (Cons p ps)
  show ?case using Cons [of "e\<lparr>out := out e @ [Row [p_x p, p_y p, p_z p]]\<rparr>"]
    by (simp add: print_position_def emit_def)
qed

lemma for_orbits_Inr:
  "for_orbits L body env = Inr env' \<longleftrightarrow>
     v_sim env \<noteq> None \<and> \<not> isl (lib_calculate_orbits L (store env (the (v_sim env)))) \<and>
     for_each (projr (lib_calculate_orbits L (store env (the (v_sim env))))) body
       (env\<lparr>calls := calls env @ [CalculateOrbits (the (v_sim env))]\<rparr>) = Inr env'"
  by (cases "v_sim env"; cases "lib_calculate_orbits L (store env (the (v_sim env)))")
     (auto simp: for_orbits_def need_def log_def Let_def)

lemma for_particles_Inr:
  "for_particles body env = Inr env' \<longleftrightarrow>
     v_sim env \<noteq> None \<and>
     for_each (sim_particles (store env (the (v_sim env)))) body env = Inr env'"
  by (simp add: for_particles_def ok_simps)

lemma print_elements_Inr:
  "print_elements L env = Inr env' \<longleftrightarrow>
     v_sim env \<noteq> None \<and> \<not> isl (lib_calculate_orbits L (store env (the (v_sim env)))) \<and>
     (projr (lib_calculate_orbits L (store env (the (v_sim env)))) = [] \<or>
      v_dtor env \<noteq> None \<and> the (v_dtor env) \<noteq> 0) \<and>
     env' = env\<lparr>calls := calls env @ [CalculateOrbits (the (v_sim env))],
                out := out env @
                  [Blank,
                   Text ''      a (au)          e       omega (deg)  inc (deg)    Omega (deg)''] @
                  map (orbit_row (the (v_dtor env)))
                    (projr (lib_calculate_orbits L (store env (the (v_sim env)))))\<rparr>"
  by (auto simp: print_elements_def ok_simps stmt_simps for_orbits_Inr for_each_print_orbit_Inr)

lemmas loop_simps = for_orbits_Inr for_particles_Inr print_elements_Inr for_each_print_period
  for_each_print_position for_nframe_Inr

lemmas planet_defs = add_planet_e_def add_planet_d_def add_planet_c_def add_planet_b_def

lemmas view_defs = view_def bindings_def builds_def

section \<open>A library that does not raise\<close>

lemma never_raises_simps [simp]:
  assumes "never_raises L"
  shows "\<not> isl (lib_add L args s)" and "\<not> isl (lib_move_to_com L s)"
    and "\<not> isl (lib_integrate L tmax s)" and "\<not> isl (lib_calculate_orbits L s)"
    and "\<not> isl (lib_save L s)" and "\<not> isl (lib_open L (Some c))"
proof -
  from assms obtain a where "lib_add L args s = Inr a" unfolding never_raises_def by blast
  then show "\<not> isl (lib_add L args s)" by simp
  from assms obtain a where "lib_move_to_com L s = Inr a" unfolding never_raises_def by blast
  then show "\<not> isl (lib_move_to_com L s)" by simp
  from assms obtain a where "lib_integrate L tmax s = Inr a" unfolding never_raises_def by blast
  then show "\<not> isl (lib_integrate L tmax s)" by simp
  from assms obtain a where "lib_calculate_orbits L s = Inr a" unfolding never_raises_def by blast
  then show "\<not> isl (lib_calculate_orbits L s)" by simp
  from assms obtain a where "lib_save L s = Inr a" unfolding never_raises_def by blast
  then show "\<not> isl (lib_save L s)" by simp
  from assms obtain a where "lib_open L (Some c) = Inr a" unfolding never_raises_def by blast
  then show "\<not> isl (lib_open L (Some c))" by simp
qed

section \<open>What each cell does to the view\<close>

lemma cell_pip_view: "cell_pip cmd e = Inr e' \<Longrightarrow> view e = V \<Longrightarrow> view e' = V"
  by (auto simp: cell_pip_def log_def view_defs)

lemma cell_import_view:
  "cell_import e = Inr e' \<Longrightarrow> view e = ((i, s, p, n, rest), bs, f) \<Longrightarrow>
   view e' = ((True, s, p, n, rest), bs, f)"
  by (auto simp: cell_import_def view_defs)

lemma cell_setup_view:
  "cell_setup L e = Inr e' \<Longrightarrow> view e = ((i, s, p, n, rest), bs, f) \<Longrightarrow>
   view e' = ((i, Some n, p, Suc n, rest), bs @ [New n], f)"
  by (auto simp: cell_setup_def ok_simps stmt_simps view_defs)

lemma cell_add_inner_view:
  "cell_add_inner L e = Inr e' \<Longrightarrow>
   view e = ((i, s, p, n, d, ic, Om, me, md, mc, mb), bs, f) \<Longrightarrow>
   view e' =
     ((i, s, p, n, Some dtor, Some (27.8 * dtor), Some (60.1 * dtor), Some 0.005, Some 0.005,
       mc, mb),
      bs @ [Add (the s) (star 1.5),
            Add (the s) (planet 0.005 16.64 0.1397 (118.8 * dtor) 1.261 (27.8 * dtor) (60.1 * dtor)),
            Add (the s) (planet 0.005 26.29 0.1112 (24.3 * dtor) 2.032 (27.8 * dtor) (60.1 * dtor))],
      f)"
  by (auto simp: cell_add_inner_def planet_defs ok_simps stmt_simps loop_simps view_defs)

lemma cell_periods_view: "cell_periods L e = Inr e' \<Longrightarrow> view e = V \<Longrightarrow> view e' = V"
  by (auto simp: cell_periods_def ok_simps stmt_simps loop_simps view_defs)

lemma cell_com_view: "cell_com L e = Inr e' \<Longrightarrow> view e = V \<Longrightarrow> view e' = V"
  by (auto simp: cell_com_def ok_simps stmt_simps loop_simps view_defs)

lemma cell_plot_save_view:
  "cell_plot_save L e = Inr e' \<Longrightarrow> view e = ((i, s, p, rest), bs, f) \<Longrightarrow>
   view e' = ((i, s, s, rest), bs @ [Save (the s) ''start.bin''],
              f(''start.bin'' \<mapsto> projr (lib_save L (store e (the s)))))"
  by (auto simp: cell_plot_save_def ok_simps stmt_simps view_defs)

lemma frames_view:
  assumes "is_frame_body L draws body" and "for_range n body e = Inr e'"
  shows "view e' = view e"
  by (rule for_range_count [where P = "\<lambda>j a. view a = view e", OF assms(2)])
     (auto dest!: frame_body_step [OF assms(1)])

lemma cell_animate_view: "cell_animate L e = Inr e' \<Longrightarrow> view e = V \<Longrightarrow> view e' = V"
  by (auto simp: cell_animate_def ok_simps stmt_simps loop_simps
        dest!: frames_view [OF frame_bodies(1)])
     (auto simp: view_defs)

lemma cell_animate_zoom_view: "cell_animate_zoom L e = Inr e' \<Longrightarrow> view e = V \<Longrightarrow> view e' = V"
  by (auto simp: cell_animate_zoom_def ok_simps stmt_simps loop_simps
        dest!: frames_view [OF frame_bodies(2)])
     (auto simp: view_defs)

lemma cell_animate2_view: "cell_animate2 L e = Inr e' \<Longrightarrow> view e = V \<Longrightarrow> view e' = V"
  by (auto simp: cell_animate2_def ok_simps stmt_simps loop_simps
        dest!: frames_view [OF frame_bodies(3)])
     (auto simp: view_defs)

lemma cell_animate_zoom2_view:
  "cell_animate_zoom2 L e = Inr e' \<Longrightarrow> view e = ((i, s, p, rest), bs, f) \<Longrightarrow>
   view e' = ((i, s, s, rest), bs, f)"
  by (auto simp: cell_animate_zoom2_def ok_simps stmt_simps loop_simps
        dest!: frames_view [OF frame_bodies(3)])
     (auto simp: view_defs)

lemma cell_check_view: "cell_check L e = Inr e' \<Longrightarrow> view e = V \<Longrightarrow> view e' = V"
  by (auto simp: cell_check_def ok_simps stmt_simps loop_simps view_defs)

lemma cell_reset_view:
  "cell_reset L e = Inr e' \<Longrightarrow>
   view e = ((i, s, p, n, d, ic, Om, me, md, mc, mb), bs, f) \<Longrightarrow>
   view e' =
     ((i, Some n, p, Suc n, d, ic, Om, me, md, me, Some 0.003),
      bs @ [Load ''start.bin'' n,
            Add n (planet (the me) 43.12 0.0561 (28.5 * the d) 4.232 (the ic) (the Om)),
            Add n (planet 0.003 70.50 0.0113 (213.6 * the d) 2.642 (the ic) (the Om))],
      f)"
  by (auto simp: cell_reset_def planet_defs ok_simps stmt_simps loop_simps view_defs)

lemma cell_plot_view:
  "cell_plot e = Inr e' \<Longrightarrow> view e = ((i, s, p, rest), bs, f) \<Longrightarrow>
   view e' = ((i, s, s, rest), bs, f)"
  by (auto simp: cell_plot_def ok_simps stmt_simps view_defs)

lemma cell_zoom_view:
  "cell_zoom e = Inr e' \<Longrightarrow> view e = ((i, s, p, rest), bs, f) \<Longrightarrow>
   view e' = ((i, s, s, rest), bs, f)"
  by (auto simp: cell_zoom_def ok_simps stmt_simps view_defs)

lemma cell_long_run_view: "cell_long_run L e = Inr e' \<Longrightarrow> view e = V \<Longrightarrow> view e' = V"
  by (auto simp: cell_long_run_def ok_simps stmt_simps loop_simps view_defs)

lemma cell_high_mass_view:
  "cell_high_mass L mass e = Inr e' \<Longrightarrow>
   view e = ((i, s, p, n, d, ic, Om, me, md, mc, mb), bs, f) \<Longrightarrow>
   view e' =
     ((i, Some n, p, Suc n, d, ic, Om, Some mass, Some mass, Some mass, Some (mass * 0.5)),
      bs @ [New n, Add n (star 1.5),
            Add n (planet mass 16.64 0.1397 (118.8 * the d) 1.261 (the ic) (the Om)),
            Add n (planet mass 26.29 0.1112 (24.3 * the d) 2.032 (the ic) (the Om)),
            Add n (planet mass 43.12 0.0561 (28.5 * the d) 4.232 (the ic) (the Om)),
            Add n (planet (mass * 0.5) 70.50 0.0113 (213.6 * the d) 2.642 (the ic) (the Om))],
      f)"
  by (auto simp: cell_high_mass_def planet_defs ok_simps stmt_simps view_defs)

lemma cell_final_run_view:
  "cell_final_run L e = Inr e' \<Longrightarrow> view e = ((i, s, p, rest), bs, f) \<Longrightarrow>
   view e' = ((i, s, s, rest), bs, f)"
  by (auto simp: cell_final_run_def ok_simps stmt_simps view_defs)

lemma cell_status_view: "cell_status e = Inr e' \<Longrightarrow> view e = V \<Longrightarrow> view e' = V"
  by (auto simp: cell_status_def ok_simps stmt_simps view_defs)

section \<open>Cells that return\<close>

lemma integrate_returns: "never_raises L \<Longrightarrow> \<forall>tmax s. \<exists>s'. lib_integrate L tmax s = Inr s'"
  by (simp add: never_raises_def)

lemma cell_animate_total:
  assumes "\<forall>tmax s. \<exists>s'. lib_integrate L tmax s = Inr s'"
    and "imported e" and "v_sim e \<noteq> None" and "v_op e \<noteq> None"
  shows "\<exists>e'. cell_animate L e = Inr e'"
  using assms(2-)
  apply (simp add: cell_animate_def ok_simps stmt_simps for_nframe_Inr)
  apply (rule frames_total [OF frame_bodies(1) assms(1)])
  apply simp_all
  done

lemma cell_animate_zoom_total:
  assumes "\<forall>tmax s. \<exists>s'. lib_integrate L tmax s = Inr s'"
    and "imported e" and "v_sim e \<noteq> None" and "v_op e \<noteq> None"
  shows "\<exists>e'. cell_animate_zoom L e = Inr e'"
  using assms(2-)
  apply (simp add: cell_animate_zoom_def ok_simps stmt_simps for_nframe_Inr)
  apply (rule frames_total [OF frame_bodies(2) assms(1)])
  apply simp_all
  done

lemma cell_animate2_total:
  assumes "\<forall>tmax s. \<exists>s'. lib_integrate L tmax s = Inr s'"
    and "imported e" and "v_sim e \<noteq> None" and "v_op e \<noteq> None"
  shows "\<exists>e'. cell_animate2 L e = Inr e'"
  using assms(2-)
  apply (simp add: cell_animate2_def ok_simps stmt_simps for_nframe_Inr)
  apply (rule frames_total [OF frame_bodies(3) assms(1)])
  apply simp_all
  done

lemma cell_animate_zoom2_total:
  assumes "\<forall>tmax s. \<exists>s'. lib_integrate L tmax s = Inr s'"
    and "imported e" and "v_sim e \<noteq> None"
  shows "\<exists>e'. cell_animate_zoom2 L e = Inr e'"
  using assms(2-)
  apply (simp add: cell_animate_zoom2_def ok_simps stmt_simps for_nframe_Inr)
  apply (rule frames_total [OF frame_bodies(3) assms(1)])
  apply simp_all
  done

lemma dtor_neq_0 [simp]: "dtor \<noteq> 0"
  by (simp add: dtor_def)

lemma cell_setup_total: "imported e \<Longrightarrow> \<exists>e'. cell_setup L e = Inr e'"
  by (simp add: cell_setup_def ok_simps stmt_simps del: not_None_eq)

lemma cell_add_inner_total:
  "never_raises L \<Longrightarrow> imported e \<Longrightarrow> v_sim e \<noteq> None \<Longrightarrow> \<exists>e'. cell_add_inner L e = Inr e'"
  by (simp add: cell_add_inner_def planet_defs ok_simps stmt_simps loop_simps del: not_None_eq)

lemma cell_periods_total:
  "never_raises L \<Longrightarrow> v_sim e \<noteq> None \<Longrightarrow> \<exists>e'. cell_periods L e = Inr e'"
  by (simp add: cell_periods_def ok_simps stmt_simps loop_simps del: not_None_eq)

lemma cell_com_total:
  "never_raises L \<Longrightarrow> v_sim e \<noteq> None \<Longrightarrow> \<exists>e'. cell_com L e = Inr e'"
  by (simp add: cell_com_def ok_simps stmt_simps loop_simps del: not_None_eq)

lemma cell_plot_save_total:
  "never_raises L \<Longrightarrow> imported e \<Longrightarrow> v_sim e \<noteq> None \<Longrightarrow> \<exists>e'. cell_plot_save L e = Inr e'"
  by (simp add: cell_plot_save_def ok_simps stmt_simps loop_simps del: not_None_eq)

lemma cell_check_total: "never_raises L \<Longrightarrow> ready e \<Longrightarrow> \<exists>e'. cell_check L e = Inr e'"
  by (simp add: cell_check_def ok_simps stmt_simps loop_simps ready_def del: not_None_eq)

lemma cell_reset_total:
  assumes "never_raises L" and "ready e"
  shows "\<exists>e'. cell_reset L e = Inr e'"
proof -
  from assms(2) obtain c where "fs e ''start.bin'' = Some c" by (auto simp: ready_def)
  with assms show ?thesis
    by (simp add: cell_reset_def planet_defs ok_simps stmt_simps loop_simps ready_def
          del: not_None_eq)
qed

lemma cell_plot_total: "ready e \<Longrightarrow> \<exists>e'. cell_plot e = Inr e'"
  by (simp add: cell_plot_def ok_simps stmt_simps ready_def del: not_None_eq)

lemma cell_zoom_total: "ready e \<Longrightarrow> \<exists>e'. cell_zoom e = Inr e'"
  by (simp add: cell_zoom_def ok_simps stmt_simps ready_def del: not_None_eq)

lemma cell_long_run_total: "never_raises L \<Longrightarrow> ready e \<Longrightarrow> \<exists>e'. cell_long_run L e = Inr e'"
  by (simp add: cell_long_run_def ok_simps stmt_simps loop_simps ready_def del: not_None_eq)

lemma cell_high_mass_total:
  "never_raises L \<Longrightarrow> ready e \<Longrightarrow> \<exists>e'. cell_high_mass L mass e = Inr e'"
  by (simp add: cell_high_mass_def planet_defs ok_simps stmt_simps loop_simps ready_def del: not_None_eq)

lemma cell_final_run_total: "never_raises L \<Longrightarrow> ready e \<Longrightarrow> \<exists>e'. cell_final_run L e = Inr e'"
  by (simp add: cell_final_run_def ok_simps stmt_simps loop_simps ready_def del: not_None_eq)

lemma cell_status_total: "ready e \<Longrightarrow> \<exists>e'. cell_status e = Inr e'"
  by (simp add: cell_status_def ok_simps stmt_simps ready_def del: not_None_eq)

lemma ready_view:
  "view e = ((True, Some r, Some p, n, Some dtor, Some ic, Some Om, Some me, rest), bs, f) \<Longrightarrow>
   f ''start.bin'' \<noteq> None \<Longrightarrow> ready e"
  by (auto simp: view_defs ready_def)

section \<open>The notebooks from top to bottom\<close>

lemma view_bindings:
  assumes "view e = ((i, s, p, n, d, ic, Om, me, md, mc, mb), bs, f)"
  shows "imported e = i" and "v_sim e = s" and "v_op e = p" and "next_ref e = n"
    and "v_dtor e = d" and "v_inc_pl e = ic" and "v_Omega_pl e = Om" and "v_mass_e e = me"
    and "fs e = f" and "builds (calls e) = bs"
  using assms by (simp_all add: view_def bindings_def)

lemma notebook1_view:
  assumes "run_all (notebook1 L) (fresh files) = Inr e'"
  shows "\<exists>c. view e' =
       ((True, Some 2, Some 2, 3, Some dtor, Some (27.8 * dtor), Some (60.1 * dtor),
         Some 0.0073, Some 0.0073, Some 0.0073, Some (0.0073 * 0.5)),
        [New 0, Add 0 (star 1.5),
         Add 0 (planet 0.005 16.64 0.1397 (118.8 * dtor) 1.261 (27.8 * dtor) (60.1 * dtor)),
         Add 0 (planet 0.005 26.29 0.1112 (24.3 * dtor) 2.032 (27.8 * dtor) (60.1 * dtor)),
         Save 0 ''start.bin'', Load ''start.bin'' 1,
         Add 1 (planet 0.005 43.12 0.0561 (28.5 * dtor) 4.232 (27.8 * dtor) (60.1 * dtor)),
         Add 1 (planet 0.003 70.50 0.0113 (213.6 * dtor) 2.642 (27.8 * dtor) (60.1 * dtor)),
         New 2, Add 2 (star 1.5),
         Add 2 (planet 0.0073 16.64 0.1397 (118.8 * dtor) 1.261 (27.8 * dtor) (60.1 * dtor)),
         Add 2 (planet 0.0073 26.29 0.1112 (24.3 * dtor) 2.032 (27.8 * dtor) (60.1 * dtor)),
         Add 2 (planet 0.0073 43.12 0.0561 (28.5 * dtor) 4.232 (27.8 * dtor) (60.1 * dtor)),
         Add 2 (planet (0.0073 * 0.5) 70.50 0.0113 (213.6 * dtor) 2.642 (27.8 * dtor) (60.1 * dtor))],
        files(''start.bin'' \<mapsto> c))"
proof -
  from assms obtain e1 e2 e3 e4 e5 e6 e7 e8 e9 e10 e11 e12 e13 e14 e15 e16
    where c:
      "cell_pip ''pip install rebound'' (fresh files) = Inr e1"
      "cell_import e1 = Inr e2"
      "cell_setup L e2 = Inr e3"
      "cell_add_inner L e3 = Inr e4"
      "cell_periods L e4 = Inr e5"
      "cell_com L e5 = Inr e6"
      "cell_plot_save L e6 = Inr e7"
      "cell_animate L e7 = Inr e8"
      "cell_check L e8 = Inr e9"
      "cell_reset L e9 = Inr e10"
      "cell_plot e10 = Inr e11"
      "cell_long_run L e11 = Inr e12"
      "cell_zoom e12 = Inr e13"
      "cell_animate_zoom L e13 = Inr e14"
      "cell_high_mass L 0.0073 e14 = Inr e15"
      "cell_final_run L e15 = Inr e16"
      "cell_status e16 = Inr e'"
    by (auto simp: run_all_def notebook1_def ok_simps)
  have v0: "view (fresh files) =
      ((False, None, None, 0, None, None, None, None, None, None, None), [], files)"
    by (simp add: view_defs fresh_def)
  note v1 = cell_pip_view [OF c(1) v0, simplified option.sel]
  note v2 = cell_import_view [OF c(2) v1, simplified option.sel]
  note v3 = cell_setup_view [OF c(3) v2, simplified option.sel]
  note v4 = cell_add_inner_view [OF c(4) v3, simplified option.sel]
  note v5 = cell_periods_view [OF c(5) v4, simplified option.sel]
  note v6 = cell_com_view [OF c(6) v5, simplified option.sel]
  note v7 = cell_plot_save_view [OF c(7) v6, simplified option.sel]
  note v8 = cell_animate_view [OF c(8) v7, simplified option.sel]
  note v9 = cell_check_view [OF c(9) v8, simplified option.sel]
  note v10 = cell_reset_view [OF c(10) v9, simplified option.sel]
  note v11 = cell_plot_view [OF c(11) v10, simplified option.sel]
  note v12 = cell_long_run_view [OF c(12) v11, simplified option.sel]
  note v13 = cell_zoom_view [OF c(13) v12, simplified option.sel]
  note v14 = cell_animate_zoom_view [OF c(14) v13, simplified option.sel]
  note v15 = cell_high_mass_view [OF c(15) v14, simplified option.sel]
  note v16 = cell_final_run_view [OF c(16) v15, simplified option.sel]
  note v17 = cell_status_view [OF c(17) v16, simplified option.sel]
  from v17 show ?thesis
    by (intro exI [of _ "projr (lib_save L (store e6 0))"]) simp
qed

lemma notebook1_total:
  assumes "never_raises L"
  shows "\<exists>e'. run_all (notebook1 L) (fresh files) = Inr e'"
proof -
  note lib = integrate_returns [OF assms]
  have v0: "view (fresh files) =
      ((False, None, None, 0, None, None, None, None, None, None, None), [], files)"
    by (simp add: view_defs fresh_def)
  obtain e1 where c1: "cell_pip ''pip install rebound'' (fresh files) = Inr e1"
    by (simp add: cell_pip_def)
  note v1 = cell_pip_view [OF c1 v0, simplified option.sel]
  obtain e2 where c2: "cell_import e1 = Inr e2"
    by (simp add: cell_import_def)
  note v2 = cell_import_view [OF c2 v1, simplified option.sel]
  from view_bindings [OF v2] have "imported e2" and "v_sim e2 = None"
    by simp_all
  with cell_setup_total [of e2 L] obtain e3 where c3: "cell_setup L e2 = Inr e3"
    by auto
  note v3 = cell_setup_view [OF c3 v2, simplified option.sel]
  from view_bindings [OF v3] have "imported e3" and "v_sim e3 = Some 0"
    by simp_all
  with cell_add_inner_total [OF assms, of e3] obtain e4 where c4: "cell_add_inner L e3 = Inr e4"
    by auto
  note v4 = cell_add_inner_view [OF c4 v3, simplified option.sel]
  from view_bindings [OF v4] have "imported e4" and "v_sim e4 = Some 0"
    by simp_all
  with cell_periods_total [OF assms, of e4] obtain e5 where c5: "cell_periods L e4 = Inr e5"
    by auto
  note v5 = cell_periods_view [OF c5 v4, simplified option.sel]
  from view_bindings [OF v5] have "imported e5" and "v_sim e5 = Some 0"
    by simp_all
  with cell_com_total [OF assms, of e5] obtain e6 where c6: "cell_com L e5 = Inr e6"
    by auto
  note v6 = cell_com_view [OF c6 v5, simplified option.sel]
  from view_bindings [OF v6] have "imported e6" and "v_sim e6 = Some 0"
    by simp_all
  with cell_plot_save_total [OF assms, of e6] obtain e7 where c7: "cell_plot_save L e6 = Inr e7"
    by auto
  note v7 = cell_plot_save_view [OF c7 v6, simplified option.sel]
  from view_bindings [OF v7] have "imported e7" and "v_sim e7 \<noteq> None" and "v_op e7 \<noteq> None"
    by simp_all
  with cell_animate_total [OF lib, of e7] obtain e8 where c8: "cell_animate L e7 = Inr e8"
    by auto
  note v8 = cell_animate_view [OF c8 v7, simplified option.sel]
  have "ready e8" by (rule ready_view [OF v8]) simp
  from cell_check_total [OF assms this] obtain e9 where c9: "cell_check L e8 = Inr e9"
    by blast
  note v9 = cell_check_view [OF c9 v8, simplified option.sel]
  have "ready e9" by (rule ready_view [OF v9]) simp
  from cell_reset_total [OF assms this] obtain e10 where c10: "cell_reset L e9 = Inr e10"
    by blast
  note v10 = cell_reset_view [OF c10 v9, simplified option.sel]
  have "ready e10" by (rule ready_view [OF v10]) simp
  from cell_plot_total [OF this] obtain e11 where c11: "cell_plot e10 = Inr e11"
    by blast
  note v11 = cell_plot_view [OF c11 v10, simplified option.sel]
  have "ready e11" by (rule ready_view [OF v11]) simp
  from cell_long_run_total [OF assms this] obtain e12 where c12: "cell_long_run L e11 = Inr e12"
    by blast
  note v12 = cell_long_run_view [OF c12 v11, simplified option.sel]
  have "ready e12" by (rule ready_view [OF v12]) simp
  from cell_zoom_total [OF this] obtain e13 where c13: "cell_zoom e12 = Inr e13"
    by blast
  note v13 = cell_zoom_view [OF c13 v12, simplified option.sel]
  from view_bindings [OF v13] have "imported e13" and "v_sim e13 \<noteq> None" and "v_op e13 \<noteq> None"
    by simp_all
  with cell_animate_zoom_total [OF lib, of e13] obtain e14 where c14: "cell_animate_zoom L e13 = Inr e14"
    by auto
  note v14 = cell_animate_zoom_view [OF c14 v13, simplified option.sel]
  have "ready e14" by (rule ready_view [OF v14]) simp
  from cell_high_mass_total [OF assms this] obtain e15 where c15: "cell_high_mass L 0.0073 e14 = Inr e15"
    by blast
  note v15 = cell_high_mass_view [OF c15 v14, simplified option.sel]
  have "ready e15" by (rule ready_view [OF v15]) simp
  from cell_final_run_total [OF assms this] obtain e16 where c16: "cell_final_run L e15 = Inr e16"
    by blast
  note v16 = cell_final_run_view [OF c16 v15, simplified option.sel]
  have "ready e16" by (rule ready_view [OF v16]) simp
  from cell_status_total [OF this] obtain e17 where c17: "cell_status e16 = Inr e17"
    by blast
  note v17 = cell_status_view [OF c17 v16, simplified option.sel]
  show ?thesis
    by (unfold run_all_def notebook1_def seq.simps c1 c2 c3 c4 c5 c6 c7 c8 c9 c10 c11 c12 c13 c14 c15 c16 c17 sum.case) blast
qed
lemma notebook2_view:
  assumes "run_all (notebook2 L) (fresh files) = Inr e'"
  shows "\<exists>c. view e' =
       ((True, Some 2, Some 2, 3, Some dtor, Some (27.8 * dtor), Some (60.1 * dtor),
         Some 0.005, Some 0.005, Some 0.005, Some (0.005 * 0.5)),
        [New 0, Add 0 (star 1.5),
         Add 0 (planet 0.005 16.64 0.1397 (118.8 * dtor) 1.261 (27.8 * dtor) (60.1 * dtor)),
         Add 0 (planet 0.005 26.29 0.1112 (24.3 * dtor) 2.032 (27.8 * dtor) (60.1 * dtor)),
         Save 0 ''start.bin'', Load ''start.bin'' 1,
         Add 1 (planet 0.005 43.12 0.0561 (28.5 * dtor) 4.232 (27.8 * dtor) (60.1 * dtor)),
         Add 1 (planet 0.003 70.50 0.0113 (213.6 * dtor) 2.642 (27.8 * dtor) (60.1 * dtor)),
         New 2, Add 2 (star 1.5),
         Add 2 (planet 0.005 16.64 0.1397 (118.8 * dtor) 1.261 (27.8 * dtor) (60.1 * dtor)),
         Add 2 (planet 0.005 26.29 0.1112 (24.3 * dtor) 2.032 (27.8 * dtor) (60.1 * dtor)),
         Add 2 (planet 0.005 43.12 0.0561 (28.5 * dtor) 4.232 (27.8 * dtor) (60.1 * dtor)),
         Add 2 (planet (0.005 * 0.5) 70.50 0.0113 (213.6 * dtor) 2.642 (27.8 * dtor) (60.1 * dtor))],
        files(''start.bin'' \<mapsto> c))"
proof -
  from assms obtain e1 e2 e3 e4 e5 e6 e7 e8 e9 e10 e11 e12 e13 e14 e15
    where c:
      "cell_pip ''pip install rebound==3.28.4'' (fresh files) = Inr e1"
      "cell_import e1 = Inr e2"
      "cell_setup L e2 = Inr e3"
      "cell_add_inner L e3 = Inr e4"
      "cell_periods L e4 = Inr e5"
      "cell_com L e5 = Inr e6"
      "cell_plot_save L e6 = Inr e7"
      "cell_animate2 L e7 = Inr e8"
      "cell_check L e8 = Inr e9"
      "cell_reset L e9 = Inr e10"
      "cell_plot e10 = Inr e11"
      "cell_long_run L e11 = Inr e12"
      "cell_animate_zoom2 L e12 = Inr e13"
      "cell_high_mass L 0.005 e13 = Inr e14"
      "cell_final_run L e14 = Inr e15"
      "cell_status e15 = Inr e'"
    by (auto simp: run_all_def notebook2_def ok_simps)
  have v0: "view (fresh files) =
      ((False, None, None, 0, None, None, None, None, None, None, None), [], files)"
    by (simp add: view_defs fresh_def)
  note v1 = cell_pip_view [OF c(1) v0, simplified option.sel]
  note v2 = cell_import_view [OF c(2) v1, simplified option.sel]
  note v3 = cell_setup_view [OF c(3) v2, simplified option.sel]
  note v4 = cell_add_inner_view [OF c(4) v3, simplified option.sel]
  note v5 = cell_periods_view [OF c(5) v4, simplified option.sel]
  note v6 = cell_com_view [OF c(6) v5, simplified option.sel]
  note v7 = cell_plot_save_view [OF c(7) v6, simplified option.sel]
  note v8 = cell_animate2_view [OF c(8) v7, simplified option.sel]
  note v9 = cell_check_view [OF c(9) v8, simplified option.sel]
  note v10 = cell_reset_view [OF c(10) v9, simplified option.sel]
  note v11 = cell_plot_view [OF c(11) v10, simplified option.sel]
  note v12 = cell_long_run_view [OF c(12) v11, simplified option.sel]
  note v13 = cell_animate_zoom2_view [OF c(13) v12, simplified option.sel]
  note v14 = cell_high_mass_view [OF c(14) v13, simplified option.sel]
  note v15 = cell_final_run_view [OF c(15) v14, simplified option.sel]
  note v16 = cell_status_view [OF c(16) v15, simplified option.sel]
  from v16 show ?thesis
    by (intro exI [of _ "projr (lib_save L (store e6 0))"]) simp
qed

lemma notebook2_total:
  assumes "never_raises L"
  shows "\<exists>e'. run_all (notebook2 L) (fresh files) = Inr e'"
proof -
  note lib = integrate_returns [OF assms]
  have v0: "view (fresh files) =
      ((False, None, None, 0, None, None, None, None, None, None, None), [], files)"
    by (simp add: view_defs fresh_def)
  obtain e1 where c1: "cell_pip ''pip install rebound==3.28.4'' (fresh files) = Inr e1"
    by (simp add: cell_pip_def)
  note v1 = cell_pip_view [OF c1 v0, simplified option.sel]
  obtain e2 where c2: "cell_import e1 = Inr e2"
    by (simp add: cell_import_def)
  note v2 = cell_import_view [OF c2 v1, simplified option.sel]
  from view_bindings [OF v2] have "imported e2" and "v_sim e2 = None"
    by simp_all
  with cell_setup_total [of e2 L] obtain e3 where c3: "cell_setup L e2 = Inr e3"
    by auto
  note v3 = cell_setup_view [OF c3 v2, simplified option.sel]
  from view_bindings [OF v3] have "imported e3" and "v_sim e3 = Some 0"
    by simp_all
  with cell_add_inner_total [OF assms, of e3] obtain e4 where c4: "cell_add_inner L e3 = Inr e4"
    by auto
  note v4 = cell_add_inner_view [OF c4 v3, simplified option.sel]
  from view_bindings [OF v4] have "imported e4" and "v_sim e4 = Some 0"
    by simp_all
  with cell_periods_total [OF assms, of e4] obtain e5 where c5: "cell_periods L e4 = Inr e5"
    by auto
  note v5 = cell_periods_view [OF c5 v4, simplified option.sel]
  from view_bindings [OF v5] have "imported e5" and "v_sim e5 = Some 0"
    by simp_all
  with cell_com_total [OF assms, of e5] obtain e6 where c6: "cell_com L e5 = Inr e6"
    by auto
  note v6 = cell_com_view [OF c6 v5, simplified option.sel]
  from view_bindings [OF v6] have "imported e6" and "v_sim e6 = Some 0"
    by simp_all
  with cell_plot_save_total [OF assms, of e6] obtain e7 where c7: "cell_plot_save L e6 = Inr e7"
    by auto
  note v7 = cell_plot_save_view [OF c7 v6, simplified option.sel]
  from view_bindings [OF v7] have "imported e7" and "v_sim e7 \<noteq> None" and "v_op e7 \<noteq> None"
    by simp_all
  with cell_animate2_total [OF lib, of e7] obtain e8 where c8: "cell_animate2 L e7 = Inr e8"
    by auto
  note v8 = cell_animate2_view [OF c8 v7, simplified option.sel]
  have "ready e8" by (rule ready_view [OF v8]) simp
  from cell_check_total [OF assms this] obtain e9 where c9: "cell_check L e8 = Inr e9"
    by blast
  note v9 = cell_check_view [OF c9 v8, simplified option.sel]
  have "ready e9" by (rule ready_view [OF v9]) simp
  from cell_reset_total [OF assms this] obtain e10 where c10: "cell_reset L e9 = Inr e10"
    by blast
  note v10 = cell_reset_view [OF c10 v9, simplified option.sel]
  have "ready e10" by (rule ready_view [OF v10]) simp
  from cell_plot_total [OF this] obtain e11 where c11: "cell_plot e10 = Inr e11"
    by blast
  note v11 = cell_plot_view [OF c11 v10, simplified option.sel]
  have "ready e11" by (rule ready_view [OF v11]) simp
  from cell_long_run_total [OF assms this] obtain e12 where c12: "cell_long_run L e11 = Inr e12"
    by blast
  note v12 = cell_long_run_view [OF c12 v11, simplified option.sel]
  from view_bindings [OF v12] have "imported e12" and "v_sim e12 \<noteq> None" and "v_op e12 \<noteq> None"
    by simp_all
  with cell_animate_zoom2_total [OF lib, of e12] obtain e13 where c13: "cell_animate_zoom2 L e12 = Inr e13"
    by auto
  note v13 = cell_animate_zoom2_view [OF c13 v12, simplified option.sel]
  have "ready e13" by (rule ready_view [OF v13]) simp
  from cell_high_mass_total [OF assms this] obtain e14 where c14: "cell_high_mass L 0.005 e13 = Inr e14"
    by blast
  note v14 = cell_high_mass_view [OF c14 v13, simplified option.sel]
  have "ready e14" by (rule ready_view [OF v14]) simp
  from cell_final_run_total [OF assms this] obtain e15 where c15: "cell_final_run L e14 = Inr e15"
    by blast
  note v15 = cell_final_run_view [OF c15 v14, simplified option.sel]
  have "ready e15" by (rule ready_view [OF v15]) simp
  from cell_status_total [OF this] obtain e16 where c16: "cell_status e15 = Inr e16"
    by blast
  note v16 = cell_status_view [OF c16 v15, simplified option.sel]
  show ?thesis
    by (unfold run_all_def notebook2_def seq.simps c1 c2 c3 c4 c5 c6 c7 c8 c9 c10 c11 c12 c13 c14 c15 c16 sum.case) blast
qed

lemma preserves_simps [simp]:
  assumes "preserves q L"
  shows "\<not> isl (lib_add L args s) \<Longrightarrow> q (projr (lib_add L args s)) = q s"
    and "\<not> isl (lib_integrate L tmax s) \<Longrightarrow> q (projr (lib_integrate L tmax s)) = q s"
    and "\<not> isl (lib_move_to_com L s) \<Longrightarrow> q (projr (lib_move_to_com L s)) = q s"
    and "q (s\<lparr>sim_dt := h\<rparr>) = q s"
  using assms unfolding preserves_def by (auto dest!: not_isl_D)

lemma frames_kept:
  assumes "is_frame_body L draws body" and "for_range n body e = Inr e'" and "preserves q L"
  shows "(\<lambda>r. q (store e' r)) = (\<lambda>r. q (store e r))"
proof (rule for_range_count [where P = "\<lambda>j a. (\<lambda>r. q (store a r)) = (\<lambda>r. q (store e r))", OF assms(2)])
  show "(\<lambda>r. q (store e r)) = (\<lambda>r. q (store e r))" ..
next
  fix a b :: "'a env" and j :: nat
  assume b: "body a = Inr b" and a: "(\<lambda>r. q (store a r)) = (\<lambda>r. q (store e r))"
  from frame_body_step [OF assms(1) b] obtain p t s
    where s: "lib_integrate L t (store a p) = Inr s" and st: "store b = (store a)(p := s)"
    by blast
  from s assms(3) have "q s = q (store a p)" by (auto simp: preserves_def)
  with st have "(\<lambda>r. q (store b r)) = (\<lambda>r. q (store a r))" by (auto simp: fun_eq_iff)
  with a show "(\<lambda>r. q (store b r)) = (\<lambda>r. q (store e r))" by simp
qed

lemma frames_kept_at:
  assumes "is_frame_body L draws body" and "for_range n body e = Inr e'" and "preserves q L"
  shows "q (store e' r) = q (store e r)"
  using frames_kept [OF assms] by (auto simp: fun_eq_iff)



lemma cell_setup_store:
  "cell_setup L e = Inr e' \<Longrightarrow>
   store e' = (store e)(next_ref e :=
     (lib_Simulation L)\<lparr>sim_units := Some (''AU'', ''yr'', ''Msun''), sim_G := 39.476926408897626\<rparr>)"
  by (auto simp: cell_setup_def ok_simps stmt_simps)

lemma cell_add_inner_kept:
  "preserves q L \<Longrightarrow> cell_add_inner L e = Inr e' \<Longrightarrow> q (store e' r) = q (store e r)"
  by (auto simp: cell_add_inner_def planet_defs ok_simps stmt_simps loop_simps)

lemma cell_periods_kept:
  "preserves q L \<Longrightarrow> cell_periods L e = Inr e' \<Longrightarrow> q (store e' r) = q (store e r)"
  by (auto simp: cell_periods_def ok_simps stmt_simps loop_simps)

lemma cell_com_kept:
  "preserves q L \<Longrightarrow> cell_com L e = Inr e' \<Longrightarrow> q (store e' r) = q (store e r)"
  by (auto simp: cell_com_def ok_simps stmt_simps loop_simps)

lemma cell_plot_save_kept:
  "cell_plot_save L e = Inr e' \<Longrightarrow>
   store e' = store e \<and> \<not> isl (lib_save L (store e (the (v_sim e))))"
  by (auto simp: cell_plot_save_def ok_simps stmt_simps)

lemma cell_animate_kept:
  "preserves q L \<Longrightarrow> cell_animate L e = Inr e' \<Longrightarrow> q (store e' r) = q (store e r)"
  by (auto simp: cell_animate_def ok_simps stmt_simps loop_simps
        dest!: frames_kept_at [OF frame_bodies(1), where q = q and r = r])

lemma cell_animate_zoom_kept:
  "preserves q L \<Longrightarrow> cell_animate_zoom L e = Inr e' \<Longrightarrow> q (store e' r) = q (store e r)"
  by (auto simp: cell_animate_zoom_def ok_simps stmt_simps loop_simps
        dest!: frames_kept_at [OF frame_bodies(2), where q = q and r = r])

lemma cell_animate2_kept:
  "preserves q L \<Longrightarrow> cell_animate2 L e = Inr e' \<Longrightarrow> q (store e' r) = q (store e r)"
  by (auto simp: cell_animate2_def ok_simps stmt_simps loop_simps
        dest!: frames_kept_at [OF frame_bodies(3), where q = q and r = r])

lemma cell_animate_zoom2_kept:
  "preserves q L \<Longrightarrow> cell_animate_zoom2 L e = Inr e' \<Longrightarrow> q (store e' r) = q (store e r)"
  by (auto simp: cell_animate_zoom2_def ok_simps stmt_simps loop_simps
        dest!: frames_kept_at [OF frame_bodies(3), where q = q and r = r])

lemma cell_check_kept:
  "preserves q L \<Longrightarrow> cell_check L e = Inr e' \<Longrightarrow> q (store e' r) = q (store e r)"
  by (auto simp: cell_check_def ok_simps stmt_simps loop_simps)

lemma cell_reset_kept:
  "preserves q L \<Longrightarrow> cell_reset L e = Inr e' \<Longrightarrow>
   \<not> isl (lib_open L (fs e ''start.bin'')) \<and>
   q (store e' r) =
     (if r = next_ref e then q (projr (lib_open L (fs e ''start.bin''))) else q (store e r))"
  by (auto simp: cell_reset_def planet_defs ok_simps stmt_simps loop_simps)

lemma cell_plot_kept: "cell_plot e = Inr e' \<Longrightarrow> store e' = store e"
  by (auto simp: cell_plot_def ok_simps stmt_simps)

lemma cell_zoom_kept: "cell_zoom e = Inr e' \<Longrightarrow> store e' = store e"
  by (auto simp: cell_zoom_def ok_simps stmt_simps)

lemma cell_long_run_kept:
  "preserves q L \<Longrightarrow> cell_long_run L e = Inr e' \<Longrightarrow> q (store e' r) = q (store e r)"
  by (auto simp: cell_long_run_def ok_simps stmt_simps loop_simps)

lemma cell_high_mass_kept:
  "preserves q L \<Longrightarrow> cell_high_mass L mass e = Inr e' \<Longrightarrow>
   q (store e' r) = (if r = next_ref e then q (lib_Simulation L) else q (store e r))"
  by (auto simp: cell_high_mass_def planet_defs ok_simps stmt_simps loop_simps)

lemma cell_final_run_kept:
  "preserves q L \<Longrightarrow> cell_final_run L e = Inr e' \<Longrightarrow> q (store e' r) = q (store e r)"
  by (auto simp: cell_final_run_def ok_simps stmt_simps loop_simps)

lemma cell_status_kept: "cell_status e = Inr e' \<Longrightarrow> store e' = store e"
  by (auto simp: cell_status_def ok_simps stmt_simps)

section \<open>Facts about the record of calls\<close>

lemma additions_append: "additions (xs @ ys) = additions xs @ additions ys"
  by (induction xs rule: additions.induct) simp_all

lemma additions_builds: "additions (builds cs) = additions cs"
  by (induction cs rule: additions.induct) (simp_all add: builds_def)

lemma file_calls_builds: "file_calls (builds cs) = file_calls cs"
proof (induction cs)
  case Nil
  then show ?case by (simp add: file_calls_def builds_def)
next
  case (Cons c cs)
  then show ?case by (cases c) (simp_all add: file_calls_def builds_def)
qed

lemma fold_track_builds: "fold track (builds cs) b = fold track cs b"
proof (induction cs arbitrary: b)
  case Nil
  then show ?case by (simp add: builds_def)
next
  case (Cons c cs)
  then show ?case by (cases c; cases b) (simp_all add: builds_def)
qed

lemma configurations_builds: "configurations (builds cs) = configurations cs"
  by (simp add: configurations_def fold_track_builds)

lemma never_raises_keeping [simp]: "never_raises keeping_library"
  by (simp add: never_raises_def keeping_library_def read_back_def)


lemma Inr_projr: "\<exists>y. x = Inr y \<Longrightarrow> x = Inr (projr x)"
  by auto


lemma seq_raises:
  "seq cs e = Inr e1 \<Longrightarrow> c e1 = Inl x \<Longrightarrow> seq (cs @ c # rest) e = Inl x"
proof (induction cs arbitrary: e)
  case Nil
  then show ?case by (simp add: seq.simps)
next
  case (Cons a cs)
  then show ?case by (cases "a e") (auto simp: seq.simps)
qed

lemmas body_defs = body_e_def body_d_def body_c_def body_b_def

lemma notebook1_builds:
  assumes "run_all (notebook1 L) (fresh files) = Inr e'"
  shows "builds (calls e') =
     [New 0, Add 0 (star 1.5), Add 0 (body_e 0.005), Add 0 (body_d 0.005),
      Save 0 ''start.bin'', Load ''start.bin'' 1, Add 1 (body_c 0.005), Add 1 (body_b 0.003),
      New 2, Add 2 (star 1.5), Add 2 (body_e 0.0073), Add 2 (body_d 0.0073),
      Add 2 (body_c 0.0073), Add 2 (body_b (0.0073 * 0.5))]"
    and "fs e' = files(''start.bin'' := fs e' ''start.bin'')" and "fs e' ''start.bin'' \<noteq> None"
proof -
  from notebook1_view [OF assms] obtain c where v: "view e' =
      ((True, Some 2, Some 2, 3, Some dtor, Some (27.8 * dtor), Some (60.1 * dtor),
         Some 0.0073, Some 0.0073, Some 0.0073, Some (0.0073 * 0.5)),
        [New 0, Add 0 (star 1.5),
         Add 0 (planet 0.005 16.64 0.1397 (118.8 * dtor) 1.261 (27.8 * dtor) (60.1 * dtor)),
         Add 0 (planet 0.005 26.29 0.1112 (24.3 * dtor) 2.032 (27.8 * dtor) (60.1 * dtor)),
         Save 0 ''start.bin'', Load ''start.bin'' 1,
         Add 1 (planet 0.005 43.12 0.0561 (28.5 * dtor) 4.232 (27.8 * dtor) (60.1 * dtor)),
         Add 1 (planet 0.003 70.50 0.0113 (213.6 * dtor) 2.642 (27.8 * dtor) (60.1 * dtor)),
         New 2, Add 2 (star 1.5),
         Add 2 (planet 0.0073 16.64 0.1397 (118.8 * dtor) 1.261 (27.8 * dtor) (60.1 * dtor)),
         Add 2 (planet 0.0073 26.29 0.1112 (24.3 * dtor) 2.032 (27.8 * dtor) (60.1 * dtor)),
         Add 2 (planet 0.0073 43.12 0.0561 (28.5 * dtor) 4.232 (27.8 * dtor) (60.1 * dtor)),
         Add 2 (planet (0.0073 * 0.5) 70.50 0.0113 (213.6 * dtor) 2.642 (27.8 * dtor) (60.1 * dtor))],
        files(''start.bin'' \<mapsto> c))"
    by blast
  note b = view_bindings [OF v]
  from b(10) show "builds (calls e') =
     [New 0, Add 0 (star 1.5), Add 0 (body_e 0.005), Add 0 (body_d 0.005),
      Save 0 ''start.bin'', Load ''start.bin'' 1, Add 1 (body_c 0.005), Add 1 (body_b 0.003),
      New 2, Add 2 (star 1.5), Add 2 (body_e 0.0073), Add 2 (body_d 0.0073),
      Add 2 (body_c 0.0073), Add 2 (body_b (0.0073 * 0.5))]"
    by (simp add: body_defs)
  from b(9) show "fs e' = files(''start.bin'' := fs e' ''start.bin'')"
    and "fs e' ''start.bin'' \<noteq> None"
    by simp_all
qed

lemma notebook2_builds:
  assumes "run_all (notebook2 L) (fresh files) = Inr e'"
  shows "builds (calls e') =
     [New 0, Add 0 (star 1.5), Add 0 (body_e 0.005), Add 0 (body_d 0.005),
      Save 0 ''start.bin'', Load ''start.bin'' 1, Add 1 (body_c 0.005), Add 1 (body_b 0.003),
      New 2, Add 2 (star 1.5), Add 2 (body_e 0.005), Add 2 (body_d 0.005),
      Add 2 (body_c 0.005), Add 2 (body_b (0.005 * 0.5))]"
    and "fs e' = files(''start.bin'' := fs e' ''start.bin'')" and "fs e' ''start.bin'' \<noteq> None"
proof -
  from notebook2_view [OF assms] obtain c where v: "view e' =
      ((True, Some 2, Some 2, 3, Some dtor, Some (27.8 * dtor), Some (60.1 * dtor),
         Some 0.005, Some 0.005, Some 0.005, Some (0.005 * 0.5)),
        [New 0, Add 0 (star 1.5),
         Add 0 (planet 0.005 16.64 0.1397 (118.8 * dtor) 1.261 (27.8 * dtor) (60.1 * dtor)),
         Add 0 (planet 0.005 26.29 0.1112 (24.3 * dtor) 2.032 (27.8 * dtor) (60.1 * dtor)),
         Save 0 ''start.bin'', Load ''start.bin'' 1,
         Add 1 (planet 0.005 43.12 0.0561 (28.5 * dtor) 4.232 (27.8 * dtor) (60.1 * dtor)),
         Add 1 (planet 0.003 70.50 0.0113 (213.6 * dtor) 2.642 (27.8 * dtor) (60.1 * dtor)),
         New 2, Add 2 (star 1.5),
         Add 2 (planet 0.005 16.64 0.1397 (118.8 * dtor) 1.261 (27.8 * dtor) (60.1 * dtor)),
         Add 2 (planet 0.005 26.29 0.1112 (24.3 * dtor) 2.032 (27.8 * dtor) (60.1 * dtor)),
         Add 2 (planet 0.005 43.12 0.0561 (28.5 * dtor) 4.232 (27.8 * dtor) (60.1 * dtor)),
         Add 2 (planet (0.005 * 0.5) 70.50 0.0113 (213.6 * dtor) 2.642 (27.8 * dtor) (60.1 * dtor))],
        files(''start.bin'' \<mapsto> c))"
    by blast
  note b = view_bindings [OF v]
  from b(10) show "builds (calls e') =
     [New 0, Add 0 (star 1.5), Add 0 (body_e 0.005), Add 0 (body_d 0.005),
      Save 0 ''start.bin'', Load ''start.bin'' 1, Add 1 (body_c 0.005), Add 1 (body_b 0.003),
      New 2, Add 2 (star 1.5), Add 2 (body_e 0.005), Add 2 (body_d 0.005),
      Add 2 (body_c 0.005), Add 2 (body_b (0.005 * 0.5))]"
    by (simp add: body_defs)
  from b(9) show "fs e' = files(''start.bin'' := fs e' ''start.bin'')"
    and "fs e' ''start.bin'' \<noteq> None"
    by simp_all
qed

lemma notebook1_returns:
  assumes "never_raises L"
  shows "run_all (notebook1 L) (fresh files) = Inr (projr (run_all (notebook1 L) (fresh files)))"
  by (rule Inr_projr) (rule notebook1_total [OF assms])

lemma notebook2_returns:
  assumes "never_raises L"
  shows "run_all (notebook2 L) (fresh files) = Inr (projr (run_all (notebook2 L) (fresh files)))"
  by (rule Inr_projr) (rule notebook2_total [OF assms])

lemma additions_of_builds:
  "builds cs = bs \<Longrightarrow> additions cs = additions bs"
  using additions_builds [of cs] by simp

lemma file_calls_of_builds:
  "builds cs = bs \<Longrightarrow> file_calls cs = file_calls bs"
  using file_calls_builds [of cs] by simp

lemma configurations_of_builds:
  "builds cs = bs \<Longrightarrow> configurations cs = configurations bs"
  using configurations_builds [of cs] by simp

lemma planet_facts [simp]:
  "elements_given (planet mass A E W MA i Om)" "\<not> mass_only (planet mass A E W MA i Om)"
  "\<not> elements_given (star mass)" "mass_only (star mass)"
  by (simp_all add: elements_given_def mass_only_def planet_def star_def)

lemma configurations_of_notebook:
  "configurations
     [New 0, Add 0 (star 1.5), Add 0 (body_e 0.005), Add 0 (body_d 0.005),
      Save 0 ''start.bin'', Load ''start.bin'' 1, Add 1 (body_c 0.005), Add 1 (body_b 0.003),
      New 2, Add 2 (star 1.5), Add 2 (body_e mass), Add 2 (body_d mass),
      Add 2 (body_c mass), Add 2 (body_b (mass * 0.5))] =
   [[star 1.5, body_e 0.005, body_d 0.005],
    [star 1.5, body_e 0.005, body_d 0.005, body_c 0.005, body_b 0.003],
    [star 1.5, body_e mass, body_d mass, body_c mass, body_b (mass * 0.5)]]"
  by (simp add: configurations_def)

lemma inside_out_of_notebook:
  "list_all inside_out
   [[star 1.5, body_e 0.005, body_d 0.005],
    [star 1.5, body_e 0.005, body_d 0.005, body_c 0.005, body_b 0.003],
    [star 1.5, body_e mass, body_d mass, body_c mass, body_b (mass * 0.5)]]"
  by (simp add: inside_out_def further_out_def in_plane_def body_defs planet_def)

section \<open>What the cells leave to the library\<close>

lemma keeps_constants_preserves:
  assumes "keeps_constants L"
  shows "preserves constants L"
  unfolding preserves_def
proof (intro conjI allI impI)
  fix args s s' assume "lib_add L args s = Inr s'"
  with assms show "constants s' = constants s" unfolding keeps_constants_def by blast
next
  fix tmax s s' assume "lib_integrate L tmax s = Inr s'"
  with assms show "constants s' = constants s" unfolding keeps_constants_def by blast
next
  fix s s' assume "lib_move_to_com L s = Inr s'"
  with assms show "constants s' = constants s" unfolding keeps_constants_def by blast
next
  fix s h show "constants (s\<lparr>sim_dt := h\<rparr>) = constants s" by (simp add: constants_def)
qed


lemma restored:
  assumes "restores_constants L" and "\<not> isl (lib_save L s)"
    and "\<not> isl (lib_open L (Some (projr (lib_save L s))))"
  shows "constants (projr (lib_open L (Some (projr (lib_save L s))))) = constants s"
proof -
  from assms(2) obtain content where c: "lib_save L s = Inr content" by (blast dest: not_isl_D)
  with assms(3) obtain s' where o: "lib_open L (Some content) = Inr s'"
    by (fastforce dest: not_isl_D)
  from assms(1) c o have "constants s' = constants s" unfolding restores_constants_def by blast
  with c o show ?thesis by simp
qed

lemma notebook1_constants:
  assumes "run_all (notebook1 L) (fresh files) = Inr e'"
    and "keeps_constants L" and "restores_constants L"
  shows "v_sim e' = Some 2"
    and "constants (store e' 0) = (39.476926408897626, Some (''AU'', ''yr'', ''Msun''))"
    and "constants (store e' 1) = (39.476926408897626, Some (''AU'', ''yr'', ''Msun''))"
    and "constants (store e' 2) = constants (lib_Simulation L)"
proof -
  note P = keeps_constants_preserves [OF assms(2)]
  from assms(1) obtain e1 e2 e3 e4 e5 e6 e7 e8 e9 e10 e11 e12 e13 e14 e15 e16
    where c:
      "cell_pip ''pip install rebound'' (fresh files) = Inr e1"
      "cell_import e1 = Inr e2"
      "cell_setup L e2 = Inr e3"
      "cell_add_inner L e3 = Inr e4"
      "cell_periods L e4 = Inr e5"
      "cell_com L e5 = Inr e6"
      "cell_plot_save L e6 = Inr e7"
      "cell_animate L e7 = Inr e8"
      "cell_check L e8 = Inr e9"
      "cell_reset L e9 = Inr e10"
      "cell_plot e10 = Inr e11"
      "cell_long_run L e11 = Inr e12"
      "cell_zoom e12 = Inr e13"
      "cell_animate_zoom L e13 = Inr e14"
      "cell_high_mass L 0.0073 e14 = Inr e15"
      "cell_final_run L e15 = Inr e16"
      "cell_status e16 = Inr e'"
    by (auto simp: run_all_def notebook1_def ok_simps)
  have v0: "view (fresh files) =
      ((False, None, None, 0, None, None, None, None, None, None, None), [], files)"
    by (simp add: view_defs fresh_def)
  note v1 = cell_pip_view [OF c(1) v0, simplified option.sel]
  note v2 = cell_import_view [OF c(2) v1, simplified option.sel]
  note v3 = cell_setup_view [OF c(3) v2, simplified option.sel]
  note v4 = cell_add_inner_view [OF c(4) v3, simplified option.sel]
  note v5 = cell_periods_view [OF c(5) v4, simplified option.sel]
  note v6 = cell_com_view [OF c(6) v5, simplified option.sel]
  note v7 = cell_plot_save_view [OF c(7) v6, simplified option.sel]
  note v8 = cell_animate_view [OF c(8) v7, simplified option.sel]
  note v9 = cell_check_view [OF c(9) v8, simplified option.sel]
  note v10 = cell_reset_view [OF c(10) v9, simplified option.sel]
  note v11 = cell_plot_view [OF c(11) v10, simplified option.sel]
  note v12 = cell_long_run_view [OF c(12) v11, simplified option.sel]
  note v13 = cell_zoom_view [OF c(13) v12, simplified option.sel]
  note v14 = cell_animate_zoom_view [OF c(14) v13, simplified option.sel]
  note v15 = cell_high_mass_view [OF c(15) v14, simplified option.sel]
  note v16 = cell_final_run_view [OF c(16) v15, simplified option.sel]
  note v17 = cell_status_view [OF c(17) v16, simplified option.sel]
  from cell_setup_store [OF c(3)] view_bindings(4) [OF v2]
  have a0_3: "constants (store e3 0) = (39.476926408897626, Some (''AU'', ''yr'', ''Msun''))"
    by (simp add: constants_def)
  from cell_add_inner_kept [OF P c(4), of 0] a0_3
  have a0_4: "constants (store e4 0) = (39.476926408897626, Some (''AU'', ''yr'', ''Msun''))"
    by simp
  from cell_periods_kept [OF P c(5), of 0] a0_4
  have a0_5: "constants (store e5 0) = (39.476926408897626, Some (''AU'', ''yr'', ''Msun''))"
    by simp
  from cell_com_kept [OF P c(6), of 0] a0_5
  have a0_6: "constants (store e6 0) = (39.476926408897626, Some (''AU'', ''yr'', ''Msun''))"
    by simp
  from cell_plot_save_kept [OF c(7)] a0_6
  have a0_7: "constants (store e7 0) = (39.476926408897626, Some (''AU'', ''yr'', ''Msun''))"
    by simp
  from cell_plot_save_kept [OF c(7)] view_bindings(2) [OF v6]
  have sv: "\<not> isl (lib_save L (store e6 0))"
    by simp
  have a0_sv: "constants (store e6 0) = (39.476926408897626, Some (''AU'', ''yr'', ''Msun''))"
    by (rule a0_6)
  from cell_animate_kept [OF P c(8), of 0] a0_7
  have a0_8: "constants (store e8 0) = (39.476926408897626, Some (''AU'', ''yr'', ''Msun''))"
    by simp
  from cell_check_kept [OF P c(9), of 0] a0_8
  have a0_9: "constants (store e9 0) = (39.476926408897626, Some (''AU'', ''yr'', ''Msun''))"
    by simp
  from cell_reset_kept [OF P c(10), of 0] view_bindings(4) [OF v9] a0_9
  have a0_10: "constants (store e10 0) = (39.476926408897626, Some (''AU'', ''yr'', ''Msun''))"
    by simp
  from view_bindings(9) [OF v9]
  have f9: "fs e9 ''start.bin'' = Some (projr (lib_save L (store e6 0)))"
    by simp
  from cell_reset_kept [OF P c(10), of 1] f9
  have op: "\<not> isl (lib_open L (Some (projr (lib_save L (store e6 0)))))"
    by simp
  from restored [OF assms(3) sv op] a0_sv
  have ld: "constants (projr (lib_open L (Some (projr (lib_save L (store e6 0)))))) =
      (39.476926408897626, Some (''AU'', ''yr'', ''Msun''))"
    by simp
  from cell_reset_kept [OF P c(10), of 1] view_bindings(4) [OF v9] f9 ld
  have a1_10: "constants (store e10 1) = (39.476926408897626, Some (''AU'', ''yr'', ''Msun''))"
    by simp
  from cell_plot_kept [OF c(11)] a0_10
  have a0_11: "constants (store e11 0) = (39.476926408897626, Some (''AU'', ''yr'', ''Msun''))"
    by simp
  from cell_plot_kept [OF c(11)] a1_10
  have a1_11: "constants (store e11 1) = (39.476926408897626, Some (''AU'', ''yr'', ''Msun''))"
    by simp
  from cell_long_run_kept [OF P c(12), of 0] a0_11
  have a0_12: "constants (store e12 0) = (39.476926408897626, Some (''AU'', ''yr'', ''Msun''))"
    by simp
  from cell_long_run_kept [OF P c(12), of 1] a1_11
  have a1_12: "constants (store e12 1) = (39.476926408897626, Some (''AU'', ''yr'', ''Msun''))"
    by simp
  from cell_zoom_kept [OF c(13)] a0_12
  have a0_13: "constants (store e13 0) = (39.476926408897626, Some (''AU'', ''yr'', ''Msun''))"
    by simp
  from cell_zoom_kept [OF c(13)] a1_12
  have a1_13: "constants (store e13 1) = (39.476926408897626, Some (''AU'', ''yr'', ''Msun''))"
    by simp
  from cell_animate_zoom_kept [OF P c(14), of 0] a0_13
  have a0_14: "constants (store e14 0) = (39.476926408897626, Some (''AU'', ''yr'', ''Msun''))"
    by simp
  from cell_animate_zoom_kept [OF P c(14), of 1] a1_13
  have a1_14: "constants (store e14 1) = (39.476926408897626, Some (''AU'', ''yr'', ''Msun''))"
    by simp
  from cell_high_mass_kept [OF P c(15), of 0] view_bindings(4) [OF v14] a0_14
  have a0_15: "constants (store e15 0) = (39.476926408897626, Some (''AU'', ''yr'', ''Msun''))"
    by simp
  from cell_high_mass_kept [OF P c(15), of 1] view_bindings(4) [OF v14] a1_14
  have a1_15: "constants (store e15 1) = (39.476926408897626, Some (''AU'', ''yr'', ''Msun''))"
    by simp
  from cell_high_mass_kept [OF P c(15), of 2] view_bindings(4) [OF v14]
  have a2_15: "constants (store e15 2) = constants (lib_Simulation L)"
    by simp
  from cell_final_run_kept [OF P c(16), of 0] a0_15
  have a0_16: "constants (store e16 0) = (39.476926408897626, Some (''AU'', ''yr'', ''Msun''))"
    by simp
  from cell_final_run_kept [OF P c(16), of 1] a1_15
  have a1_16: "constants (store e16 1) = (39.476926408897626, Some (''AU'', ''yr'', ''Msun''))"
    by simp
  from cell_final_run_kept [OF P c(16), of 2] a2_15
  have a2_16: "constants (store e16 2) = constants (lib_Simulation L)"
    by simp
  from cell_status_kept [OF c(17)] a0_16
  have a0_17: "constants (store e' 0) = (39.476926408897626, Some (''AU'', ''yr'', ''Msun''))"
    by simp
  from cell_status_kept [OF c(17)] a1_16
  have a1_17: "constants (store e' 1) = (39.476926408897626, Some (''AU'', ''yr'', ''Msun''))"
    by simp
  from cell_status_kept [OF c(17)] a2_16
  have a2_17: "constants (store e' 2) = constants (lib_Simulation L)"
    by simp
  from view_bindings(2) [OF v17] show "v_sim e' = Some 2"
    by simp
  show "constants (store e' 0) = (39.476926408897626, Some (''AU'', ''yr'', ''Msun''))"
    by (rule a0_17)
  show "constants (store e' 1) = (39.476926408897626, Some (''AU'', ''yr'', ''Msun''))"
    by (rule a1_17)
  show "constants (store e' 2) = constants (lib_Simulation L)"
    by (rule a2_17)
qed

lemma notebook2_constants:
  assumes "run_all (notebook2 L) (fresh files) = Inr e'"
    and "keeps_constants L" and "restores_constants L"
  shows "v_sim e' = Some 2"
    and "constants (store e' 0) = (39.476926408897626, Some (''AU'', ''yr'', ''Msun''))"
    and "constants (store e' 1) = (39.476926408897626, Some (''AU'', ''yr'', ''Msun''))"
    and "constants (store e' 2) = constants (lib_Simulation L)"
proof -
  note P = keeps_constants_preserves [OF assms(2)]
  from assms(1) obtain e1 e2 e3 e4 e5 e6 e7 e8 e9 e10 e11 e12 e13 e14 e15
    where c:
      "cell_pip ''pip install rebound==3.28.4'' (fresh files) = Inr e1"
      "cell_import e1 = Inr e2"
      "cell_setup L e2 = Inr e3"
      "cell_add_inner L e3 = Inr e4"
      "cell_periods L e4 = Inr e5"
      "cell_com L e5 = Inr e6"
      "cell_plot_save L e6 = Inr e7"
      "cell_animate2 L e7 = Inr e8"
      "cell_check L e8 = Inr e9"
      "cell_reset L e9 = Inr e10"
      "cell_plot e10 = Inr e11"
      "cell_long_run L e11 = Inr e12"
      "cell_animate_zoom2 L e12 = Inr e13"
      "cell_high_mass L 0.005 e13 = Inr e14"
      "cell_final_run L e14 = Inr e15"
      "cell_status e15 = Inr e'"
    by (auto simp: run_all_def notebook2_def ok_simps)
  have v0: "view (fresh files) =
      ((False, None, None, 0, None, None, None, None, None, None, None), [], files)"
    by (simp add: view_defs fresh_def)
  note v1 = cell_pip_view [OF c(1) v0, simplified option.sel]
  note v2 = cell_import_view [OF c(2) v1, simplified option.sel]
  note v3 = cell_setup_view [OF c(3) v2, simplified option.sel]
  note v4 = cell_add_inner_view [OF c(4) v3, simplified option.sel]
  note v5 = cell_periods_view [OF c(5) v4, simplified option.sel]
  note v6 = cell_com_view [OF c(6) v5, simplified option.sel]
  note v7 = cell_plot_save_view [OF c(7) v6, simplified option.sel]
  note v8 = cell_animate2_view [OF c(8) v7, simplified option.sel]
  note v9 = cell_check_view [OF c(9) v8, simplified option.sel]
  note v10 = cell_reset_view [OF c(10) v9, simplified option.sel]
  note v11 = cell_plot_view [OF c(11) v10, simplified option.sel]
  note v12 = cell_long_run_view [OF c(12) v11, simplified option.sel]
  note v13 = cell_animate_zoom2_view [OF c(13) v12, simplified option.sel]
  note v14 = cell_high_mass_view [OF c(14) v13, simplified option.sel]
  note v15 = cell_final_run_view [OF c(15) v14, simplified option.sel]
  note v16 = cell_status_view [OF c(16) v15, simplified option.sel]
  from cell_setup_store [OF c(3)] view_bindings(4) [OF v2]
  have a0_3: "constants (store e3 0) = (39.476926408897626, Some (''AU'', ''yr'', ''Msun''))"
    by (simp add: constants_def)
  from cell_add_inner_kept [OF P c(4), of 0] a0_3
  have a0_4: "constants (store e4 0) = (39.476926408897626, Some (''AU'', ''yr'', ''Msun''))"
    by simp
  from cell_periods_kept [OF P c(5), of 0] a0_4
  have a0_5: "constants (store e5 0) = (39.476926408897626, Some (''AU'', ''yr'', ''Msun''))"
    by simp
  from cell_com_kept [OF P c(6), of 0] a0_5
  have a0_6: "constants (store e6 0) = (39.476926408897626, Some (''AU'', ''yr'', ''Msun''))"
    by simp
  from cell_plot_save_kept [OF c(7)] a0_6
  have a0_7: "constants (store e7 0) = (39.476926408897626, Some (''AU'', ''yr'', ''Msun''))"
    by simp
  from cell_plot_save_kept [OF c(7)] view_bindings(2) [OF v6]
  have sv: "\<not> isl (lib_save L (store e6 0))"
    by simp
  have a0_sv: "constants (store e6 0) = (39.476926408897626, Some (''AU'', ''yr'', ''Msun''))"
    by (rule a0_6)
  from cell_animate2_kept [OF P c(8), of 0] a0_7
  have a0_8: "constants (store e8 0) = (39.476926408897626, Some (''AU'', ''yr'', ''Msun''))"
    by simp
  from cell_check_kept [OF P c(9), of 0] a0_8
  have a0_9: "constants (store e9 0) = (39.476926408897626, Some (''AU'', ''yr'', ''Msun''))"
    by simp
  from cell_reset_kept [OF P c(10), of 0] view_bindings(4) [OF v9] a0_9
  have a0_10: "constants (store e10 0) = (39.476926408897626, Some (''AU'', ''yr'', ''Msun''))"
    by simp
  from view_bindings(9) [OF v9]
  have f9: "fs e9 ''start.bin'' = Some (projr (lib_save L (store e6 0)))"
    by simp
  from cell_reset_kept [OF P c(10), of 1] f9
  have op: "\<not> isl (lib_open L (Some (projr (lib_save L (store e6 0)))))"
    by simp
  from restored [OF assms(3) sv op] a0_sv
  have ld: "constants (projr (lib_open L (Some (projr (lib_save L (store e6 0)))))) =
      (39.476926408897626, Some (''AU'', ''yr'', ''Msun''))"
    by simp
  from cell_reset_kept [OF P c(10), of 1] view_bindings(4) [OF v9] f9 ld
  have a1_10: "constants (store e10 1) = (39.476926408897626, Some (''AU'', ''yr'', ''Msun''))"
    by simp
  from cell_plot_kept [OF c(11)] a0_10
  have a0_11: "constants (store e11 0) = (39.476926408897626, Some (''AU'', ''yr'', ''Msun''))"
    by simp
  from cell_plot_kept [OF c(11)] a1_10
  have a1_11: "constants (store e11 1) = (39.476926408897626, Some (''AU'', ''yr'', ''Msun''))"
    by simp
  from cell_long_run_kept [OF P c(12), of 0] a0_11
  have a0_12: "constants (store e12 0) = (39.476926408897626, Some (''AU'', ''yr'', ''Msun''))"
    by simp
  from cell_long_run_kept [OF P c(12), of 1] a1_11
  have a1_12: "constants (store e12 1) = (39.476926408897626, Some (''AU'', ''yr'', ''Msun''))"
    by simp
  from cell_animate_zoom2_kept [OF P c(13), of 0] a0_12
  have a0_13: "constants (store e13 0) = (39.476926408897626, Some (''AU'', ''yr'', ''Msun''))"
    by simp
  from cell_animate_zoom2_kept [OF P c(13), of 1] a1_12
  have a1_13: "constants (store e13 1) = (39.476926408897626, Some (''AU'', ''yr'', ''Msun''))"
    by simp
  from cell_high_mass_kept [OF P c(14), of 0] view_bindings(4) [OF v13] a0_13
  have a0_14: "constants (store e14 0) = (39.476926408897626, Some (''AU'', ''yr'', ''Msun''))"
    by simp
  from cell_high_mass_kept [OF P c(14), of 1] view_bindings(4) [OF v13] a1_13
  have a1_14: "constants (store e14 1) = (39.476926408897626, Some (''AU'', ''yr'', ''Msun''))"
    by simp
  from cell_high_mass_kept [OF P c(14), of 2] view_bindings(4) [OF v13]
  have a2_14: "constants (store e14 2) = constants (lib_Simulation L)"
    by simp
  from cell_final_run_kept [OF P c(15), of 0] a0_14
  have a0_15: "constants (store e15 0) = (39.476926408897626, Some (''AU'', ''yr'', ''Msun''))"
    by simp
  from cell_final_run_kept [OF P c(15), of 1] a1_14
  have a1_15: "constants (store e15 1) = (39.476926408897626, Some (''AU'', ''yr'', ''Msun''))"
    by simp
  from cell_final_run_kept [OF P c(15), of 2] a2_14
  have a2_15: "constants (store e15 2) = constants (lib_Simulation L)"
    by simp
  from cell_status_kept [OF c(16)] a0_15
  have a0_16: "constants (store e' 0) = (39.476926408897626, Some (''AU'', ''yr'', ''Msun''))"
    by simp
  from cell_status_kept [OF c(16)] a1_15
  have a1_16: "constants (store e' 1) = (39.476926408897626, Some (''AU'', ''yr'', ''Msun''))"
    by simp
  from cell_status_kept [OF c(16)] a2_15
  have a2_16: "constants (store e' 2) = constants (lib_Simulation L)"
    by simp
  from view_bindings(2) [OF v16] show "v_sim e' = Some 2"
    by simp
  show "constants (store e' 0) = (39.476926408897626, Some (''AU'', ''yr'', ''Msun''))"
    by (rule a0_16)
  show "constants (store e' 1) = (39.476926408897626, Some (''AU'', ''yr'', ''Msun''))"
    by (rule a1_16)
  show "constants (store e' 2) = constants (lib_Simulation L)"
    by (rule a2_16)
qed

lemma cell_of_notebooks:
  assumes "c \<in> set (notebook1 L) \<union> set (notebook2 L)"
  obtains
      (at_pip1) "c = cell_pip ''pip install rebound''"
    | (at_pip2) "c = cell_pip ''pip install rebound==3.28.4''"
    | (at_import) "c = cell_import"
    | (at_setup) "c = cell_setup L"
    | (at_add_inner) "c = cell_add_inner L"
    | (at_periods) "c = cell_periods L"
    | (at_com) "c = cell_com L"
    | (at_plot_save) "c = cell_plot_save L"
    | (at_animate) "c = cell_animate L"
    | (at_animate2) "c = cell_animate2 L"
    | (at_check) "c = cell_check L"
    | (at_reset) "c = cell_reset L"
    | (at_plot) "c = cell_plot"
    | (at_long_run) "c = cell_long_run L"
    | (at_zoom) "c = cell_zoom"
    | (at_animate_zoom) "c = cell_animate_zoom L"
    | (at_animate_zoom2) "c = cell_animate_zoom2 L"
    | (at_high1) "c = cell_high_mass L 0.0073"
    | (at_high2) "c = cell_high_mass L 0.005"
    | (at_final_run) "c = cell_final_run L"
    | (at_status) "c = cell_status"
  using assms by (auto simp: notebook1_def notebook2_def)


lemma view_now:
  "view e =
     ((imported e, v_sim e, v_op e, next_ref e, v_dtor e, v_inc_pl e, v_Omega_pl e, v_mass_e e,
       v_mass_d e, v_mass_c e, v_mass_b e), builds (calls e), fs e)"
  by (simp add: view_def bindings_def)





lemma keeping_library_constants:
  "keeps_constants keeping_library" "restores_constants keeping_library"
  by (auto simp: keeps_constants_def restores_constants_def keeping_library_def constants_def
        read_back_def)


section \<open>Exceptions of the library\<close>

text \<open>
  Every statement, every loop and every cell leaves the exceptions of the library
  unhandled, in the sense of \<open>unhandled\<close>.
\<close>

lemma raised_append: "raised (xs @ ys) = raised xs @ raised ys"
  by (induction xs rule: raised.induct) simp_all

lemma unhandled_Inr [simp]: "unhandled e (Inr e') \<longleftrightarrow> raised (calls e') = raised (calls e)"
  by (simp add: unhandled_def)

lemma unhandled_own [simp]: "own_error err \<Longrightarrow> unhandled e (Inl (err, e))"
  by (simp add: unhandled_def)

lemma unhandled_after:
  "raised (calls a) = raised (calls e) \<Longrightarrow> unhandled a res \<Longrightarrow> unhandled e res"
  by (auto simp: unhandled_def split: sum.splits)

lemma honest_seq: "list_all honest cs \<Longrightarrow> honest (seq cs)"
  unfolding honest_def
proof (induction cs)
  case Nil
  then show ?case by (simp add: seq.simps)
next
  case (Cons c cs)
  show ?case
  proof
    fix e
    from Cons.prems have c: "unhandled e (c e)" by simp
    show "unhandled e (seq (c # cs) e)"
    proof (cases "c e")
      case (Inl x)
      with c show ?thesis by (simp add: seq.simps)
    next
      case (Inr a)
      with c have "raised (calls a) = raised (calls e)" by simp
      moreover from Cons have "unhandled a (seq cs a)" by simp
      ultimately have "unhandled e (seq cs a)" by (rule unhandled_after)
      with Inr show ?thesis by (simp add: seq.simps)
    qed
  qed
qed

lemma honest_for_range: "honest body \<Longrightarrow> honest (for_range n body)"
  unfolding honest_def
proof (induction n)
  case 0
  then show ?case by simp
next
  case (Suc n)
  show ?case
  proof
    fix e
    from Suc.prems have c: "unhandled e (body e)" by simp
    show "unhandled e (for_range (Suc n) body e)"
    proof (cases "body e")
      case (Inl x)
      with c show ?thesis by simp
    next
      case (Inr a)
      with c have "raised (calls a) = raised (calls e)" by simp
      moreover from Suc have "unhandled a (for_range n body a)" by simp
      ultimately have "unhandled e (for_range n body a)" by (rule unhandled_after)
      with Inr show ?thesis by simp
    qed
  qed
qed

lemma honest_for_each: "(\<And>x. honest (body x)) \<Longrightarrow> honest (for_each xs body)"
  unfolding honest_def
proof (induction xs)
  case Nil
  then show ?case by simp
next
  case (Cons x xs)
  show ?case
  proof
    fix e
    from Cons.prems have c: "unhandled e (body x e)" by simp
    show "unhandled e (for_each (x # xs) body e)"
    proof (cases "body x e")
      case (Inl y)
      with c show ?thesis by simp
    next
      case (Inr a)
      with c have "raised (calls a) = raised (calls e)" by simp
      moreover from Cons have "unhandled a (for_each xs body a)" by simp
      ultimately have "unhandled e (for_each xs body a)" by (rule unhandled_after)
      with Inr show ?thesis by simp
    qed
  qed
qed

lemma honest_need:
  "(\<And>x. v = Some x \<Longrightarrow> unhandled e (k x)) \<Longrightarrow> unhandled e (need name v e k)"
  by (cases v) (simp_all add: need_def)

lemma honest_need_import: "unhandled e k \<Longrightarrow> unhandled e (need_import name e k)"
  by (simp add: need_import_def)

lemma honest_for_nframe: "honest body \<Longrightarrow> honest (for_nframe body)"
  using honest_for_range [of body]
  by (auto simp: honest_def for_nframe_def intro!: honest_need)

lemma honest_for_particles: "(\<And>x. honest (body x)) \<Longrightarrow> honest (for_particles body)"
  using honest_for_each [of body]
  by (auto simp: honest_def for_particles_def intro!: honest_need)

lemma honest_for_orbits:
  assumes "\<And>x. honest (body x)"
  shows "honest (for_orbits L body)"
  unfolding honest_def
proof
  fix e :: "'a env"
  show "unhandled e (for_orbits L body e)"
  proof (cases "v_sim e")
    case None
    then show ?thesis by (simp add: for_orbits_def need_def)
  next
    case (Some r)
    show ?thesis
    proof (cases "lib_calculate_orbits L (store e r)")
      case (Inl err)
      with Some show ?thesis
        by (simp add: for_orbits_def need_def log_def unhandled_def raised_append)
    next
      case (Inr obs)
      from honest_for_each [of body obs] assms
      have "unhandled (log (CalculateOrbits r) e) (for_each obs body (log (CalculateOrbits r) e))"
        by (simp add: honest_def)
      then have "unhandled e (for_each obs body (log (CalculateOrbits r) e))"
        by (rule unhandled_after [rotated]) (simp add: log_def raised_append)
      with Some Inr show ?thesis by (simp add: for_orbits_def need_def)
    qed
  qed
qed

lemma honest_statements [simp]:
  "honest (new_simulation L)" "honest (load_simulation L name)" "honest del_sim"
  "honest (set_units u)" "honest (set_G g)" "honest (set_dt h)" "honest (sim_add L r args)"
  "honest (add_star L mass)" "honest (add_planet L mass_name mass_var A E W MA)"
  "honest assign_dtor" "honest assign_inc_pl" "honest assign_Omega_pl"
  "honest (assign_mass_e x)" "honest assign_mass_d" "honest assign_mass_c"
  "honest (assign_mass_b x)" "honest assign_mass_b_half" "honest print_blank"
  "honest (print_text t)" "honest (print_orbit ob)" "honest (print_period ob)"
  "honest (print_position p)" "honest (move_to_com L)" "honest (integrate_ref L r tmax)"
  "honest (integrate L tmax)" "honest status" "honest (save L name)" "honest orbit_plot"
  "honest assign_fig" "honest clear_output" "honest display_clear_output" "honest display_gcf"
  "honest plot_point" "honest op_update" "honest fig_draw" "honest (assign_nframe n)"
  "honest (assign_framestep k)" "honest (integrate_frame L)"
  by (auto simp: honest_def unhandled_def raised_append need_def need_import_def log_def emit_def
        Let_def new_simulation_def load_simulation_def del_sim_def set_units_def set_G_def
        set_dt_def sim_add_def add_star_def add_planet_def assign_dtor_def assign_inc_pl_def
        assign_Omega_pl_def assign_mass_e_def assign_mass_d_def assign_mass_c_def
        assign_mass_b_def assign_mass_b_half_def print_blank_def print_text_def print_orbit_def
        print_period_def print_position_def move_to_com_def integrate_ref_def integrate_def
        status_def save_def orbit_plot_def assign_fig_def clear_output_def
        display_clear_output_def display_gcf_def plot_point_def op_update_def fig_draw_def
        assign_nframe_def assign_framestep_def integrate_frame_def
        split: option.splits sum.splits)

lemma honest_print_elements [simp]: "honest (print_elements L)"
  by (simp add: print_elements_def honest_seq honest_for_orbits)

lemma honest_cells [simp]:
  "honest (cell_pip cmd)" "honest cell_import" "honest (cell_setup L)"
  "honest (cell_add_inner L)" "honest (cell_periods L)" "honest (cell_com L)"
  "honest (cell_plot_save L)" "honest (cell_animate L)" "honest (cell_check L)"
  "honest (cell_reset L)" "honest cell_plot" "honest (cell_long_run L)" "honest cell_zoom"
  "honest (cell_animate_zoom L)" "honest (cell_high_mass L mass)" "honest (cell_final_run L)"
  "honest cell_status" "honest (cell_animate2 L)" "honest (cell_animate_zoom2 L)"
  by (simp_all add: cell_setup_def cell_add_inner_def cell_periods_def cell_com_def
        cell_plot_save_def cell_animate_def cell_check_def cell_reset_def cell_plot_def
        cell_long_run_def cell_zoom_def cell_animate_zoom_def cell_high_mass_def
        cell_final_run_def cell_status_def cell_animate2_def cell_animate_zoom2_def planet_defs
        honest_seq honest_for_orbits honest_for_particles honest_for_nframe)
     (simp_all add: honest_def cell_pip_def cell_import_def log_def raised_append)

lemma for_range_raises:
  "for_range k body a = Inr b \<Longrightarrow> body b = Inl y \<Longrightarrow> for_range (Suc (k + n)) body a = Inl y"
proof (induction k arbitrary: a)
  case 0
  then show ?case by simp
next
  case (Suc k)
  from Suc.prems(1) obtain a1 where a: "body a = Inr a1" and rest: "for_range k body a1 = Inr b"
    by (auto split: sum.splits)
  from Suc.IH [OF rest Suc.prems(2)] a show ?case by simp
qed

lemma for_each_raises:
  "for_each xs body a = Inr b \<Longrightarrow> body x b = Inl y \<Longrightarrow> for_each (xs @ x # rest) body a = Inl y"
proof (induction xs arbitrary: a)
  case Nil
  then show ?case by simp
next
  case (Cons z xs)
  from Cons.prems(1) obtain a1 where a: "body z a = Inr a1" and r: "for_each xs body a1 = Inr b"
    by (auto split: sum.splits)
  from Cons.IH [OF r Cons.prems(2)] a show ?case by simp
qed

lemma honest_of_notebooks:
  assumes "c \<in> set (notebook1 L) \<union> set (notebook2 L)"
  shows "honest c"
  using assms by (rule cell_of_notebooks) simp_all

text \<open>Three frames of an animation under the library that stops at the time 2.\<close>

lemma member_notebook1:
  "cell_reset L \<in> set (notebook1 L) \<union> set (notebook2 L)"
  "cell_animate L \<in> set (notebook1 L) \<union> set (notebook2 L)"
  "cell_com L \<in> set (notebook1 L) \<union> set (notebook2 L)"
  by (simp_all add: notebook1_def)

lemma two_frames:
  "for_range 2 (seq [integrate_frame bounded_library, clear_output, op_update, fig_draw])
     (stepping\<lparr>v_nframe := Some 500, v_framestep := Some 1, v_fig := Some 0\<rparr>) =
   Inr (stepping\<lparr>v_nframe := Some 500, v_framestep := Some 1, v_fig := Some 0,
          store := (\<lambda>r. blank_simulation\<lparr>sim_dt := 1\<rparr>)(0 := blank_simulation\<lparr>sim_dt := 1, sim_t := 2\<rparr>),
          calls := [Integrate 0 1, ClearOutput, Update 0, Draw,
                    Integrate 0 2, ClearOutput, Update 0, Draw]\<rparr>)"
  by (simp add: numeral_2_eq_2 seq.simps integrate_frame_def integrate_ref_def clear_output_def
        op_update_def fig_draw_def need_def need_import_def log_def bounded_library_def
        keeping_library_def stepping_def plotted_def fresh_def blank_simulation_def)

lemma third_frame:
  "seq [integrate_frame bounded_library, clear_output, op_update, fig_draw]
     (stepping\<lparr>v_nframe := Some 500, v_framestep := Some 1, v_fig := Some 0,
          store := (\<lambda>r. blank_simulation\<lparr>sim_dt := 1\<rparr>)(0 := blank_simulation\<lparr>sim_dt := 1, sim_t := 2\<rparr>),
          calls := [Integrate 0 1, ClearOutput, Update 0, Draw,
                    Integrate 0 2, ClearOutput, Update 0, Draw]\<rparr>) =
   Inl (LibraryError ''integration failed'',
        stepping\<lparr>v_nframe := Some 500, v_framestep := Some 1, v_fig := Some 0,
          store := (\<lambda>r. blank_simulation\<lparr>sim_dt := 1\<rparr>)(0 := blank_simulation\<lparr>sim_dt := 1, sim_t := 2\<rparr>),
          calls := [Integrate 0 1, ClearOutput, Update 0, Draw,
                    Integrate 0 2, ClearOutput, Update 0, Draw,
                    Integrate 0 3, Raised (LibraryError ''integration failed'')]\<rparr>)"
  by (simp add: seq.simps integrate_frame_def integrate_ref_def clear_output_def
        op_update_def fig_draw_def need_def need_import_def log_def bounded_library_def
        keeping_library_def stepping_def plotted_def fresh_def blank_simulation_def)

section \<open>The time after an animation\<close>













section \<open>Degrees and radians\<close>

lemma dtor_neq_1: "dtor \<noteq> 1"
proof -
  have "pi < 180" using pi_less_4 by simp
  then show ?thesis by (simp add: dtor_def)
qed

lemma degrees_row:
  "orbit_row dtor
     \<lparr>o_a = A, o_e = E, o_omega = w * dtor, o_inc = i * dtor, o_Omega = Om * dtor, o_P = P\<rparr> =
   Row [A, E, w, i, Om]"
  by (simp add: orbit_row_def)

lemma as_added_row:
  assumes "orbit_as_added (planet mass A E (W * dtor) MA (i * dtor) (Om * dtor)) ob"
  shows "orbit_row (pi / 180) ob = Row [A, E, W, i, Om]"
proof -
  from assms have "o_a ob = A" "o_e ob = E" "o_omega ob = W * dtor" "o_inc ob = i * dtor"
    "o_Omega ob = Om * dtor"
    by (simp_all add: orbit_as_added_def planet_def)
  then have "orbit_row dtor ob = Row [A, E, W, i, Om]"
    by (simp add: orbit_row_def)
  then show ?thesis by (simp only: dtor_def)
qed

lemma printing_cells:
  "cell_add_inner L e = Inr e' \<Longrightarrow>
     v_dtor e' = Some (pi / 180) \<and>
     out e' = out e @
       [Blank, Text ''      a (au)          e       omega (deg)  inc (deg)    Omega (deg)''] @
       map (orbit_row (pi / 180)) (projr (lib_calculate_orbits L (store e' (the (v_sim e')))))"
  "v_dtor e = Some dtor \<Longrightarrow> cell_check L e = Inr e' \<Longrightarrow>
     out e' = out e @
       [StatusOf (store e (the (v_sim e))), Blank,
        Text ''      a (au)          e       omega (deg)  inc (deg)    Omega (deg)''] @
       map (orbit_row (pi / 180)) (projr (lib_calculate_orbits L (store e' (the (v_sim e')))))"
  "v_dtor e = Some dtor \<Longrightarrow> cell_reset L e = Inr e' \<Longrightarrow>
     out e' = out e @
       [StatusOf (store e' (the (v_sim e'))), Blank,
        Text ''      a (au)          e       omega (deg)  inc (deg)    Omega (deg)''] @
       map (orbit_row (pi / 180)) (projr (lib_calculate_orbits L (store e' (the (v_sim e')))))"
  "v_dtor e = Some dtor \<Longrightarrow> cell_long_run L e = Inr e' \<Longrightarrow>
     out e' = out e @
       [Blank, Text ''      a (au)          e       omega (deg)  inc (deg)    Omega (deg)''] @
       map (orbit_row (pi / 180)) (projr (lib_calculate_orbits L (store e' (the (v_sim e')))))"
  by (auto simp: cell_add_inner_def cell_check_def cell_reset_def cell_long_run_def planet_defs
        ok_simps stmt_simps loop_simps dtor_def)

lemma gives_back: "orbit_as_added (planet mass A E W MA i Om) (given_back (kept (planet mass A E W MA i Om)))"
  by (simp add: orbit_as_added_def planet_def kept_def given_back_def)

text \<open>The cells that add and save the inner planets, under the first stand-in.\<close>

lemma inner_added_eq:
  "cell_add_inner keeping_library plotted = Inr inner_added"
  "inner_added =
     plotted\<lparr>v_dtor := Some dtor, v_inc_pl := Some (27.8 * dtor), v_Omega_pl := Some (60.1 * dtor),
       v_mass_e := Some 0.005, v_mass_d := Some 0.005,
       store := (\<lambda>r. blank_simulation)
         (0 := blank_simulation\<lparr>sim_particles :=
            [kept (star 1.5), kept (body_e 0.005), kept (body_d 0.005)]\<rparr>),
       calls := [Add 0 (star 1.5), Add 0 (body_e 0.005), Add 0 (body_d 0.005), CalculateOrbits 0],
       out := [Blank, Text ''      a (au)          e       omega (deg)  inc (deg)    Omega (deg)'', Row [16.64, 0.1397, 118.8, 27.8, 60.1],
               Row [26.29, 0.1112, 24.3, 27.8, 60.1]]\<rparr>"
proof -
  have "\<exists>e'. cell_add_inner keeping_library plotted = Inr e'"
    by (rule cell_add_inner_total) (simp_all add: plotted_def)
  then show c: "cell_add_inner keeping_library plotted = Inr inner_added"
    unfolding inner_added_def by (rule Inr_projr)
  then show "inner_added =
     plotted\<lparr>v_dtor := Some dtor, v_inc_pl := Some (27.8 * dtor), v_Omega_pl := Some (60.1 * dtor),
       v_mass_e := Some 0.005, v_mass_d := Some 0.005,
       store := (\<lambda>r. blank_simulation)
         (0 := blank_simulation\<lparr>sim_particles :=
            [kept (star 1.5), kept (body_e 0.005), kept (body_d 0.005)]\<rparr>),
       calls := [Add 0 (star 1.5), Add 0 (body_e 0.005), Add 0 (body_d 0.005), CalculateOrbits 0],
       out := [Blank, Text ''      a (au)          e       omega (deg)  inc (deg)    Omega (deg)'', Row [16.64, 0.1397, 118.8, 27.8, 60.1],
               Row [26.29, 0.1112, 24.3, 27.8, 60.1]]\<rparr>"
    by (auto simp: cell_add_inner_def planet_defs ok_simps stmt_simps loop_simps
          keeping_library_def plotted_def fresh_def blank_simulation_def body_defs
          orbit_row_def given_back_def kept_def planet_def star_def)
qed

lemma inner_saved_eq:
  "cell_plot_save keeping_library inner_added = Inr inner_saved"
  "inner_saved =
     inner_added\<lparr>v_op := Some 0, calls := calls inner_added @ [Plot 0, Save 0 ''start.bin''],
       fs := [''start.bin'' \<mapsto> store inner_added 0]\<rparr>"
proof -
  have b: "imported inner_added" "v_sim inner_added = Some 0" "v_op inner_added = Some 0"
    "fs inner_added = Map.empty"
    by (simp_all add: inner_added_eq(2) plotted_def fresh_def)
  have "\<exists>e'. cell_plot_save keeping_library inner_added = Inr e'"
    by (rule cell_plot_save_total) (simp_all add: b)
  then show c: "cell_plot_save keeping_library inner_added = Inr inner_saved"
    unfolding inner_saved_def by (rule Inr_projr)
  then show "inner_saved =
     inner_added\<lparr>v_op := Some 0, calls := calls inner_added @ [Plot 0, Save 0 ''start.bin''],
       fs := [''start.bin'' \<mapsto> store inner_added 0]\<rparr>"
    using b by (auto simp: cell_plot_save_def ok_simps stmt_simps keeping_library_def)
qed

lemma inner_saved_facts:
  "ready inner_saved" "v_dtor inner_saved = Some dtor" "v_inc_pl inner_saved = Some (27.8 * dtor)"
  "v_Omega_pl inner_saved = Some (60.1 * dtor)" "v_mass_e inner_saved = Some 0.005"
  "v_sim inner_saved = Some 0" "next_ref inner_saved = 1"
  "fs inner_saved ''start.bin'' =
     Some (blank_simulation\<lparr>sim_particles :=
       [kept (star 1.5), kept (body_e 0.005), kept (body_d 0.005)]\<rparr>)"
  by (simp_all add: inner_saved_eq(2) inner_added_eq(2) plotted_def fresh_def ready_def)

section \<open>The animation loops\<close>

text \<open>
  C7. Each animation loop makes exactly \<^verbatim>\<open>nframe\<close> iterations and then ends: a run of an
  animation cell that returns has made 500 calls of \<^verbatim>\<open>integrate\<close> in the first notebook and
  220 in the second, whatever the library does; and when \<^verbatim>\<open>integrate\<close> does not raise and
  the names the cell reads are bound, the cell returns.
\<close>

theorem animation_runs_every_frame:
  "(cell_animate L env = Inr e1 \<longrightarrow> integrations (calls e1) = integrations (calls env) + 500) \<and>
   (cell_animate_zoom L env = Inr e2 \<longrightarrow> integrations (calls e2) = integrations (calls env) + 500) \<and>
   (cell_animate2 L env = Inr e3 \<longrightarrow> integrations (calls e3) = integrations (calls env) + 220) \<and>
   (cell_animate_zoom2 L env = Inr e4 \<longrightarrow> integrations (calls e4) = integrations (calls env) + 220) \<and>
   ((\<forall>tmax s. \<exists>s'. lib_integrate L tmax s = Inr s') \<and> imported env \<and> v_sim env \<noteq> None \<and>
      v_op env \<noteq> None \<longrightarrow>
    (\<exists>e. cell_animate L env = Inr e) \<and> (\<exists>e. cell_animate_zoom L env = Inr e) \<and>
    (\<exists>e. cell_animate2 L env = Inr e) \<and> (\<exists>e. cell_animate_zoom2 L env = Inr e))"
proof (intro conjI impI)
  assume "cell_animate L env = Inr e1"
  then show "integrations (calls e1) = integrations (calls env) + 500"
    by (auto simp: cell_animate_def ok_simps stmt_simps for_nframe_Inr
          dest!: frames_count [OF frame_bodies(1)])
next
  assume "cell_animate_zoom L env = Inr e2"
  then show "integrations (calls e2) = integrations (calls env) + 500"
    by (auto simp: cell_animate_zoom_def ok_simps stmt_simps for_nframe_Inr
          dest!: frames_count [OF frame_bodies(2)])
next
  assume "cell_animate2 L env = Inr e3"
  then show "integrations (calls e3) = integrations (calls env) + 220"
    by (auto simp: cell_animate2_def ok_simps stmt_simps for_nframe_Inr
          dest!: frames_count [OF frame_bodies(3)])
next
  assume "cell_animate_zoom2 L env = Inr e4"
  then show "integrations (calls e4) = integrations (calls env) + 220"
    by (auto simp: cell_animate_zoom2_def ok_simps stmt_simps for_nframe_Inr integrations_def
          dest!: frames_count [OF frame_bodies(3)])
next
  assume h: "(\<forall>tmax s. \<exists>s'. lib_integrate L tmax s = Inr s') \<and> imported env \<and>
    v_sim env \<noteq> None \<and> v_op env \<noteq> None"
  then obtain r p where v: "v_sim env = Some r" "v_op env = Some p" by auto
  from h have lib: "\<forall>tmax s. \<exists>s'. lib_integrate L tmax s = Inr s'" and imp: "imported env"
    by simp_all
  from imp v show "\<exists>e. cell_animate L env = Inr e"
    apply (simp add: cell_animate_def ok_simps stmt_simps for_nframe_Inr)
    apply (rule frames_total [OF frame_bodies(1) lib])
    apply simp_all
    done
  from imp v show "\<exists>e. cell_animate_zoom L env = Inr e"
    apply (simp add: cell_animate_zoom_def ok_simps stmt_simps for_nframe_Inr)
    apply (rule frames_total [OF frame_bodies(2) lib])
    apply simp_all
    done
  from imp v show "\<exists>e. cell_animate2 L env = Inr e"
    apply (simp add: cell_animate2_def ok_simps stmt_simps for_nframe_Inr)
    apply (rule frames_total [OF frame_bodies(3) lib])
    apply simp_all
    done
  from imp v show "\<exists>e. cell_animate_zoom2 L env = Inr e"
    apply (simp add: cell_animate_zoom2_def ok_simps stmt_simps for_nframe_Inr)
    apply (rule frames_total [OF frame_bodies(3) lib])
    apply simp_all
    done
qed

theorem animation_runs_every_frame_witness:
  "cell_animate keeping_library plotted = Inr (projr (cell_animate keeping_library plotted)) \<and>
   integrations (calls (projr (cell_animate keeping_library plotted))) = 500 \<and>
   cell_animate_zoom keeping_library plotted =
     Inr (projr (cell_animate_zoom keeping_library plotted)) \<and>
   integrations (calls (projr (cell_animate_zoom keeping_library plotted))) = 500 \<and>
   cell_animate2 keeping_library plotted = Inr (projr (cell_animate2 keeping_library plotted)) \<and>
   integrations (calls (projr (cell_animate2 keeping_library plotted))) = 220 \<and>
   cell_animate_zoom2 keeping_library plotted =
     Inr (projr (cell_animate_zoom2 keeping_library plotted)) \<and>
   integrations (calls (projr (cell_animate_zoom2 keeping_library plotted))) = 220"
proof -
  note t = animation_runs_every_frame [of keeping_library plotted
      "projr (cell_animate keeping_library plotted)"
      "projr (cell_animate_zoom keeping_library plotted)"
      "projr (cell_animate2 keeping_library plotted)"
      "projr (cell_animate_zoom2 keeping_library plotted)"]
  have h: "(\<forall>tmax s. \<exists>s'. lib_integrate keeping_library tmax s = Inr s') \<and> imported plotted \<and>
      v_sim plotted \<noteq> None \<and> v_op plotted \<noteq> None"
    by (simp add: keeping_library_def plotted_def)
  have z: "integrations (calls plotted) = 0"
    by (simp add: plotted_def fresh_def integrations_def)
  from t h have ex: "\<exists>e. cell_animate keeping_library plotted = Inr e"
      "\<exists>e. cell_animate_zoom keeping_library plotted = Inr e"
      "\<exists>e. cell_animate2 keeping_library plotted = Inr e"
      "\<exists>e. cell_animate_zoom2 keeping_library plotted = Inr e"
    by blast+
  then have r: "cell_animate keeping_library plotted =
        Inr (projr (cell_animate keeping_library plotted))"
      "cell_animate_zoom keeping_library plotted =
        Inr (projr (cell_animate_zoom keeping_library plotted))"
      "cell_animate2 keeping_library plotted =
        Inr (projr (cell_animate2 keeping_library plotted))"
      "cell_animate_zoom2 keeping_library plotted =
        Inr (projr (cell_animate_zoom2 keeping_library plotted))"
    by auto
  from t r z show ?thesis by simp
qed




section \<open>Adding bodies\<close>

text \<open>
  C2. As stated the claim fails: the call that adds the central star gives its mass only.
  Run under the library that keeps what it is given, the first notebook makes a
  \<^verbatim>\<open>sim.add\<close> call without the six elements.
\<close>

theorem every_add_gives_elements_counterexample:
  "\<not> list_all elements_given
       (additions (calls (projr (run_all (notebook1 keeping_library) (fresh Map.empty)))))"
proof -
  note r = notebook1_returns [OF never_raises_keeping, of Map.empty]
  from additions_of_builds [OF notebook1_builds(1) [OF r]] show ?thesis
    by (simp add: body_defs)
qed

text \<open>
  C2, amended. Every \<^verbatim>\<open>sim.add\<close> call of a notebook run from top to bottom gives the six
  orbital elements, except the two calls that add the central star, which give the mass
  1.50 and nothing else.
\<close>

theorem every_planet_add_gives_elements:
  "(run_all (notebook1 L) (fresh files) = Inr e1 \<longrightarrow>
      additions (calls e1) =
        [star 1.5, body_e 0.005, body_d 0.005, body_c 0.005, body_b 0.003,
         star 1.5, body_e 0.0073, body_d 0.0073, body_c 0.0073, body_b (0.0073 * 0.5)] \<and>
      filter mass_only (additions (calls e1)) = [star 1.5, star 1.5] \<and>
      list_all elements_given (filter (\<lambda>args. \<not> mass_only args) (additions (calls e1)))) \<and>
   (run_all (notebook2 L) (fresh files) = Inr e2 \<longrightarrow>
      additions (calls e2) =
        [star 1.5, body_e 0.005, body_d 0.005, body_c 0.005, body_b 0.003,
         star 1.5, body_e 0.005, body_d 0.005, body_c 0.005, body_b (0.005 * 0.5)] \<and>
      filter mass_only (additions (calls e2)) = [star 1.5, star 1.5] \<and>
      list_all elements_given (filter (\<lambda>args. \<not> mass_only args) (additions (calls e2))))"
proof (intro conjI impI)
  assume r: "run_all (notebook1 L) (fresh files) = Inr e1"
  note a = additions_of_builds [OF notebook1_builds(1) [OF r]]
  from a show "additions (calls e1) =
        [star 1.5, body_e 0.005, body_d 0.005, body_c 0.005, body_b 0.003,
         star 1.5, body_e 0.0073, body_d 0.0073, body_c 0.0073, body_b (0.0073 * 0.5)]"
    by simp
  from a show "filter mass_only (additions (calls e1)) = [star 1.5, star 1.5]"
    by (simp add: body_defs)
  from a show "list_all elements_given (filter (\<lambda>args. \<not> mass_only args) (additions (calls e1)))"
    by (simp add: body_defs)
next
  assume r: "run_all (notebook2 L) (fresh files) = Inr e2"
  note a = additions_of_builds [OF notebook2_builds(1) [OF r]]
  from a show "additions (calls e2) =
        [star 1.5, body_e 0.005, body_d 0.005, body_c 0.005, body_b 0.003,
         star 1.5, body_e 0.005, body_d 0.005, body_c 0.005, body_b (0.005 * 0.5)]"
    by simp
  from a show "filter mass_only (additions (calls e2)) = [star 1.5, star 1.5]"
    by (simp add: body_defs)
  from a show "list_all elements_given (filter (\<lambda>args. \<not> mass_only args) (additions (calls e2)))"
    by (simp add: body_defs)
qed

theorem every_planet_add_gives_elements_witness:
  "run_all (notebook1 keeping_library) (fresh Map.empty) =
     Inr (projr (run_all (notebook1 keeping_library) (fresh Map.empty))) \<and>
   filter mass_only
     (additions (calls (projr (run_all (notebook1 keeping_library) (fresh Map.empty))))) =
     [star 1.5, star 1.5] \<and>
   run_all (notebook2 keeping_library) (fresh Map.empty) =
     Inr (projr (run_all (notebook2 keeping_library) (fresh Map.empty))) \<and>
   filter mass_only
     (additions (calls (projr (run_all (notebook2 keeping_library) (fresh Map.empty))))) =
     [star 1.5, star 1.5]"
  using every_planet_add_gives_elements [of keeping_library Map.empty
      "projr (run_all (notebook1 keeping_library) (fresh Map.empty))"
      "projr (run_all (notebook2 keeping_library) (fresh Map.empty))"]
    notebook1_returns [OF never_raises_keeping, of Map.empty]
    notebook2_returns [OF never_raises_keeping, of Map.empty]
  by blast



text \<open>
  C9. A notebook run from top to bottom builds three configurations: the star and the
  planets e and d; the same loaded from the checkpoint, with c and b added; and the star
  with e, d, c and b. In each the star of mass 1.50 comes first with no orbital elements,
  the semi-major axes of the planets after it increase strictly, and every planet has the
  inclination \<open>27.8 * dtor\<close> and the node \<open>60.1 * dtor\<close>.
\<close>

theorem star_first_planets_inside_out:
  "(run_all (notebook1 L) (fresh files) = Inr e1 \<longrightarrow>
      configurations (calls e1) =
        [[star 1.5, body_e 0.005, body_d 0.005],
         [star 1.5, body_e 0.005, body_d 0.005, body_c 0.005, body_b 0.003],
         [star 1.5, body_e 0.0073, body_d 0.0073, body_c 0.0073, body_b (0.0073 * 0.5)]] \<and>
      list_all inside_out (configurations (calls e1))) \<and>
   (run_all (notebook2 L) (fresh files) = Inr e2 \<longrightarrow>
      configurations (calls e2) =
        [[star 1.5, body_e 0.005, body_d 0.005],
         [star 1.5, body_e 0.005, body_d 0.005, body_c 0.005, body_b 0.003],
         [star 1.5, body_e 0.005, body_d 0.005, body_c 0.005, body_b (0.005 * 0.5)]] \<and>
      list_all inside_out (configurations (calls e2)))"
proof (intro conjI impI)
  assume r: "run_all (notebook1 L) (fresh files) = Inr e1"
  from configurations_of_builds [OF notebook1_builds(1) [OF r]]
  have c: "configurations (calls e1) =
        [[star 1.5, body_e 0.005, body_d 0.005],
         [star 1.5, body_e 0.005, body_d 0.005, body_c 0.005, body_b 0.003],
         [star 1.5, body_e 0.0073, body_d 0.0073, body_c 0.0073, body_b (0.0073 * 0.5)]]"
    by (simp only: configurations_of_notebook)
  then show "configurations (calls e1) =
        [[star 1.5, body_e 0.005, body_d 0.005],
         [star 1.5, body_e 0.005, body_d 0.005, body_c 0.005, body_b 0.003],
         [star 1.5, body_e 0.0073, body_d 0.0073, body_c 0.0073, body_b (0.0073 * 0.5)]]" .
  from c inside_out_of_notebook [of "0.0073"] show "list_all inside_out (configurations (calls e1))"
    by simp
next
  assume r: "run_all (notebook2 L) (fresh files) = Inr e2"
  from configurations_of_builds [OF notebook2_builds(1) [OF r]]
  have c: "configurations (calls e2) =
        [[star 1.5, body_e 0.005, body_d 0.005],
         [star 1.5, body_e 0.005, body_d 0.005, body_c 0.005, body_b 0.003],
         [star 1.5, body_e 0.005, body_d 0.005, body_c 0.005, body_b (0.005 * 0.5)]]"
    by (simp only: configurations_of_notebook)
  then show "configurations (calls e2) =
        [[star 1.5, body_e 0.005, body_d 0.005],
         [star 1.5, body_e 0.005, body_d 0.005, body_c 0.005, body_b 0.003],
         [star 1.5, body_e 0.005, body_d 0.005, body_c 0.005, body_b (0.005 * 0.5)]]" .
  from c inside_out_of_notebook [of "0.005"] show "list_all inside_out (configurations (calls e2))"
    by simp
qed

theorem star_first_planets_inside_out_witness:
  "run_all (notebook1 keeping_library) (fresh Map.empty) =
     Inr (projr (run_all (notebook1 keeping_library) (fresh Map.empty))) \<and>
   list_all inside_out
     (configurations (calls (projr (run_all (notebook1 keeping_library) (fresh Map.empty))))) \<and>
   run_all (notebook2 keeping_library) (fresh Map.empty) =
     Inr (projr (run_all (notebook2 keeping_library) (fresh Map.empty))) \<and>
   list_all inside_out
     (configurations (calls (projr (run_all (notebook2 keeping_library) (fresh Map.empty)))))"
  using star_first_planets_inside_out [of keeping_library Map.empty
      "projr (run_all (notebook1 keeping_library) (fresh Map.empty))"
      "projr (run_all (notebook2 keeping_library) (fresh Map.empty))"]
    notebook1_returns [OF never_raises_keeping, of Map.empty]
    notebook2_returns [OF never_raises_keeping, of Map.empty]
  by blast

text \<open>
  C10. As stated the claim fails for the mean anomaly, which is an angle: every call that
  adds a planet passes it as the number written in the source, without \<^verbatim>\<open>dtor\<close>. In the run
  of the first notebook the call that adds planet e has the argument of pericentre
  \<open>118.8 * dtor\<close> and the mean anomaly 1.261, which is not \<open>1.261 * dtor\<close>.
\<close>

theorem mean_anomaly_counterexample:
  "arg_omega (additions (calls (projr (run_all (notebook1 keeping_library) (fresh Map.empty)))) ! 1) =
     Some (118.8 * dtor) \<and>
   arg_M (additions (calls (projr (run_all (notebook1 keeping_library) (fresh Map.empty)))) ! 1) =
     Some 1.261 \<and>
   arg_M (additions (calls (projr (run_all (notebook1 keeping_library) (fresh Map.empty)))) ! 1) \<noteq>
     Some (1.261 * dtor)"
proof -
  note r = notebook1_returns [OF never_raises_keeping, of Map.empty]
  from additions_of_builds [OF notebook1_builds(1) [OF r]] dtor_neq_1 show ?thesis
    by (simp add: body_defs planet_def)
qed

text \<open>
  C10, amended. \<^verbatim>\<open>dtor\<close> is \<open>pi / 180\<close>. Of the angles given to \<^verbatim>\<open>sim.add\<close>, the argument
  of pericentre, the inclination and the node are the degrees written in the source times
  \<open>pi / 180\<close>, in every call of both notebooks; the mean anomaly is passed as written, in
  radians, and is never printed. Each of the four cells that print orbital elements prints,
  for every orbit that the library returns, the argument of pericentre, the inclination and
  the node divided by \<open>pi / 180\<close>. Over the reals \<open>x * dtor / dtor = x\<close>, so that an orbit
  whose angles are degrees times \<^verbatim>\<open>dtor\<close> is printed with those degrees; and when the library
  gives back the elements that the bodies were added with, the cell that adds the planets e
  and d and the cell that adds c and b print the values that the source writes.
\<close>

theorem angles_round_trip:
  "dtor = pi / 180 \<and> x * dtor / dtor = x \<and>
   orbit_row dtor
     \<lparr>o_a = A, o_e = E, o_omega = w * dtor, o_inc = i * dtor, o_Omega = Om * dtor, o_P = P\<rparr> =
     Row [A, E, w, i, Om] \<and>
   (run_all (notebook1 L) (fresh files) = Inr e1 \<longrightarrow>
      map arg_omega (additions (calls e1)) =
          [None, Some (118.8 * (pi / 180)), Some (24.3 * (pi / 180)), Some (28.5 * (pi / 180)),
           Some (213.6 * (pi / 180)),
           None, Some (118.8 * (pi / 180)), Some (24.3 * (pi / 180)), Some (28.5 * (pi / 180)),
           Some (213.6 * (pi / 180))] \<and>
      map arg_inc (additions (calls e1)) =
          [None, Some (27.8 * (pi / 180)), Some (27.8 * (pi / 180)), Some (27.8 * (pi / 180)),
           Some (27.8 * (pi / 180)),
           None, Some (27.8 * (pi / 180)), Some (27.8 * (pi / 180)), Some (27.8 * (pi / 180)),
           Some (27.8 * (pi / 180))] \<and>
      map arg_Omega (additions (calls e1)) =
          [None, Some (60.1 * (pi / 180)), Some (60.1 * (pi / 180)), Some (60.1 * (pi / 180)),
           Some (60.1 * (pi / 180)),
           None, Some (60.1 * (pi / 180)), Some (60.1 * (pi / 180)), Some (60.1 * (pi / 180)),
           Some (60.1 * (pi / 180))] \<and>
      map arg_M (additions (calls e1)) =
          [None, Some 1.261, Some 2.032, Some 4.232, Some 2.642,
           None, Some 1.261, Some 2.032, Some 4.232, Some 2.642]) \<and>
   (run_all (notebook2 L) (fresh files) = Inr e2 \<longrightarrow>
      map arg_omega (additions (calls e2)) =
          [None, Some (118.8 * (pi / 180)), Some (24.3 * (pi / 180)), Some (28.5 * (pi / 180)),
           Some (213.6 * (pi / 180)),
           None, Some (118.8 * (pi / 180)), Some (24.3 * (pi / 180)), Some (28.5 * (pi / 180)),
           Some (213.6 * (pi / 180))] \<and>
      map arg_inc (additions (calls e2)) =
          [None, Some (27.8 * (pi / 180)), Some (27.8 * (pi / 180)), Some (27.8 * (pi / 180)),
           Some (27.8 * (pi / 180)),
           None, Some (27.8 * (pi / 180)), Some (27.8 * (pi / 180)), Some (27.8 * (pi / 180)),
           Some (27.8 * (pi / 180))] \<and>
      map arg_Omega (additions (calls e2)) =
          [None, Some (60.1 * (pi / 180)), Some (60.1 * (pi / 180)), Some (60.1 * (pi / 180)),
           Some (60.1 * (pi / 180)),
           None, Some (60.1 * (pi / 180)), Some (60.1 * (pi / 180)), Some (60.1 * (pi / 180)),
           Some (60.1 * (pi / 180))] \<and>
      map arg_M (additions (calls e2)) =
          [None, Some 1.261, Some 2.032, Some 4.232, Some 2.642,
           None, Some 1.261, Some 2.032, Some 4.232, Some 2.642]) \<and>
   (cell_add_inner L s1 = Inr a1 \<longrightarrow>
      v_dtor a1 = Some (pi / 180) \<and>
      out a1 = out s1 @ [Blank, Text ''      a (au)          e       omega (deg)  inc (deg)    Omega (deg)''] @
        map (orbit_row (pi / 180)) (projr (lib_calculate_orbits L (store a1 (the (v_sim a1)))))) \<and>
   (v_dtor s2 = Some dtor \<and> cell_check L s2 = Inr a2 \<longrightarrow>
      out a2 = out s2 @ [StatusOf (store s2 (the (v_sim s2))), Blank, Text ''      a (au)          e       omega (deg)  inc (deg)    Omega (deg)''] @
        map (orbit_row (pi / 180)) (projr (lib_calculate_orbits L (store a2 (the (v_sim a2)))))) \<and>
   (v_dtor s3 = Some dtor \<and> cell_reset L s3 = Inr a3 \<longrightarrow>
      out a3 = out s3 @ [StatusOf (store a3 (the (v_sim a3))), Blank, Text ''      a (au)          e       omega (deg)  inc (deg)    Omega (deg)''] @
        map (orbit_row (pi / 180)) (projr (lib_calculate_orbits L (store a3 (the (v_sim a3)))))) \<and>
   (v_dtor s4 = Some dtor \<and> cell_long_run L s4 = Inr a4 \<longrightarrow>
      out a4 = out s4 @ [Blank, Text ''      a (au)          e       omega (deg)  inc (deg)    Omega (deg)''] @
        map (orbit_row (pi / 180)) (projr (lib_calculate_orbits L (store a4 (the (v_sim a4)))))) \<and>
   (cell_add_inner L s1 = Inr a1 \<and>
    lib_calculate_orbits L (store a1 (the (v_sim a1))) = Inr [ob_e, ob_d] \<and>
    orbit_as_added (body_e 0.005) ob_e \<and> orbit_as_added (body_d 0.005) ob_d \<longrightarrow>
      additions (calls a1) = additions (calls s1) @ [star 1.5, body_e 0.005, body_d 0.005] \<and>
      out a1 = out s1 @
        [Blank, Text ''      a (au)          e       omega (deg)  inc (deg)    Omega (deg)'',
         Row [16.64, 0.1397, 118.8, 27.8, 60.1],
         Row [26.29, 0.1112, 24.3, 27.8, 60.1]]) \<and>
   (v_dtor s3 = Some dtor \<and> v_inc_pl s3 = Some (27.8 * dtor) \<and>
    v_Omega_pl s3 = Some (60.1 * dtor) \<and> v_mass_e s3 = Some m \<and> cell_reset L s3 = Inr a3 \<and>
    lib_calculate_orbits L (store a3 (the (v_sim a3))) = Inr [ob_e, ob_d, ob_c, ob_b] \<and>
    orbit_as_added (body_e m) ob_e \<and> orbit_as_added (body_d m) ob_d \<and>
    orbit_as_added (body_c m) ob_c \<and> orbit_as_added (body_b 0.003) ob_b \<longrightarrow>
      additions (calls a3) = additions (calls s3) @ [body_c m, body_b 0.003] \<and>
      out a3 = out s3 @
        [StatusOf (store a3 (the (v_sim a3))), Blank, Text ''      a (au)          e       omega (deg)  inc (deg)    Omega (deg)'',
         Row [16.64, 0.1397, 118.8, 27.8, 60.1],
         Row [26.29, 0.1112, 24.3, 27.8, 60.1],
         Row [43.12, 0.0561, 28.5, 27.8, 60.1],
         Row [70.50, 0.0113, 213.6, 27.8, 60.1]])"
proof (intro conjI impI)
  show "dtor = pi / 180" by (rule dtor_def)
  show "x * dtor / dtor = x" by simp
  show "orbit_row dtor
     \<lparr>o_a = A, o_e = E, o_omega = w * dtor, o_inc = i * dtor, o_Omega = Om * dtor, o_P = P\<rparr> =
     Row [A, E, w, i, Om]"
    by (rule degrees_row)
next
  assume r: "run_all (notebook1 L) (fresh files) = Inr e1"
  note a = additions_of_builds [OF notebook1_builds(1) [OF r]]
  from a
  show "map arg_omega (additions (calls e1)) =
          [None, Some (118.8 * (pi / 180)), Some (24.3 * (pi / 180)), Some (28.5 * (pi / 180)),
           Some (213.6 * (pi / 180)),
           None, Some (118.8 * (pi / 180)), Some (24.3 * (pi / 180)), Some (28.5 * (pi / 180)),
           Some (213.6 * (pi / 180))]"
    and "map arg_inc (additions (calls e1)) =
          [None, Some (27.8 * (pi / 180)), Some (27.8 * (pi / 180)), Some (27.8 * (pi / 180)),
           Some (27.8 * (pi / 180)),
           None, Some (27.8 * (pi / 180)), Some (27.8 * (pi / 180)), Some (27.8 * (pi / 180)),
           Some (27.8 * (pi / 180))]"
    and "map arg_Omega (additions (calls e1)) =
          [None, Some (60.1 * (pi / 180)), Some (60.1 * (pi / 180)), Some (60.1 * (pi / 180)),
           Some (60.1 * (pi / 180)),
           None, Some (60.1 * (pi / 180)), Some (60.1 * (pi / 180)), Some (60.1 * (pi / 180)),
           Some (60.1 * (pi / 180))]"
    and "map arg_M (additions (calls e1)) =
          [None, Some 1.261, Some 2.032, Some 4.232, Some 2.642,
           None, Some 1.261, Some 2.032, Some 4.232, Some 2.642]"
    by (simp_all add: body_defs planet_def star_def dtor_def)
next
  assume r: "run_all (notebook2 L) (fresh files) = Inr e2"
  note a = additions_of_builds [OF notebook2_builds(1) [OF r]]
  from a
  show "map arg_omega (additions (calls e2)) =
          [None, Some (118.8 * (pi / 180)), Some (24.3 * (pi / 180)), Some (28.5 * (pi / 180)),
           Some (213.6 * (pi / 180)),
           None, Some (118.8 * (pi / 180)), Some (24.3 * (pi / 180)), Some (28.5 * (pi / 180)),
           Some (213.6 * (pi / 180))]"
    and "map arg_inc (additions (calls e2)) =
          [None, Some (27.8 * (pi / 180)), Some (27.8 * (pi / 180)), Some (27.8 * (pi / 180)),
           Some (27.8 * (pi / 180)),
           None, Some (27.8 * (pi / 180)), Some (27.8 * (pi / 180)), Some (27.8 * (pi / 180)),
           Some (27.8 * (pi / 180))]"
    and "map arg_Omega (additions (calls e2)) =
          [None, Some (60.1 * (pi / 180)), Some (60.1 * (pi / 180)), Some (60.1 * (pi / 180)),
           Some (60.1 * (pi / 180)),
           None, Some (60.1 * (pi / 180)), Some (60.1 * (pi / 180)), Some (60.1 * (pi / 180)),
           Some (60.1 * (pi / 180))]"
    and "map arg_M (additions (calls e2)) =
          [None, Some 1.261, Some 2.032, Some 4.232, Some 2.642,
           None, Some 1.261, Some 2.032, Some 4.232, Some 2.642]"
    by (simp_all add: body_defs planet_def star_def dtor_def)
next
  assume c: "cell_add_inner L s1 = Inr a1"
  from printing_cells(1) [OF c]
  show "v_dtor a1 = Some (pi / 180)"
    and "out a1 = out s1 @ [Blank, Text ''      a (au)          e       omega (deg)  inc (deg)    Omega (deg)''] @
        map (orbit_row (pi / 180)) (projr (lib_calculate_orbits L (store a1 (the (v_sim a1)))))"
    by simp_all
next
  assume "v_dtor s2 = Some dtor \<and> cell_check L s2 = Inr a2"
  then show "out a2 = out s2 @ [StatusOf (store s2 (the (v_sim s2))), Blank, Text ''      a (au)          e       omega (deg)  inc (deg)    Omega (deg)''] @
        map (orbit_row (pi / 180)) (projr (lib_calculate_orbits L (store a2 (the (v_sim a2)))))"
    using printing_cells(2) by blast
next
  assume "v_dtor s3 = Some dtor \<and> cell_reset L s3 = Inr a3"
  then show "out a3 = out s3 @ [StatusOf (store a3 (the (v_sim a3))), Blank, Text ''      a (au)          e       omega (deg)  inc (deg)    Omega (deg)''] @
        map (orbit_row (pi / 180)) (projr (lib_calculate_orbits L (store a3 (the (v_sim a3)))))"
    using printing_cells(3) by blast
next
  assume "v_dtor s4 = Some dtor \<and> cell_long_run L s4 = Inr a4"
  then show "out a4 = out s4 @ [Blank, Text ''      a (au)          e       omega (deg)  inc (deg)    Omega (deg)''] @
        map (orbit_row (pi / 180)) (projr (lib_calculate_orbits L (store a4 (the (v_sim a4)))))"
    using printing_cells(4) by blast
next
  assume h: "cell_add_inner L s1 = Inr a1 \<and>
    lib_calculate_orbits L (store a1 (the (v_sim a1))) = Inr [ob_e, ob_d] \<and>
    orbit_as_added (body_e 0.005) ob_e \<and> orbit_as_added (body_d 0.005) ob_d"
  then have c: "cell_add_inner L s1 = Inr a1" by simp
  from c show "additions (calls a1) = additions (calls s1) @ [star 1.5, body_e 0.005, body_d 0.005]"
    by (auto simp: cell_add_inner_def planet_defs ok_simps stmt_simps loop_simps additions_append
          body_defs)
  from h have rows: "orbit_row (pi / 180) ob_e = Row [16.64, 0.1397, 118.8, 27.8, 60.1]"
    "orbit_row (pi / 180) ob_d = Row [26.29, 0.1112, 24.3, 27.8, 60.1]"
    by (auto simp: body_defs intro: as_added_row)
  from h have obs: "projr (lib_calculate_orbits L (store a1 (the (v_sim a1)))) = [ob_e, ob_d]"
    by simp
  from printing_cells(1) [OF c] show "out a1 = out s1 @
        [Blank, Text ''      a (au)          e       omega (deg)  inc (deg)    Omega (deg)'',
         Row [16.64, 0.1397, 118.8, 27.8, 60.1],
         Row [26.29, 0.1112, 24.3, 27.8, 60.1]]"
    unfolding obs by (simp add: rows)
next
  assume h: "v_dtor s3 = Some dtor \<and> v_inc_pl s3 = Some (27.8 * dtor) \<and>
    v_Omega_pl s3 = Some (60.1 * dtor) \<and> v_mass_e s3 = Some m \<and> cell_reset L s3 = Inr a3 \<and>
    lib_calculate_orbits L (store a3 (the (v_sim a3))) = Inr [ob_e, ob_d, ob_c, ob_b] \<and>
    orbit_as_added (body_e m) ob_e \<and> orbit_as_added (body_d m) ob_d \<and>
    orbit_as_added (body_c m) ob_c \<and> orbit_as_added (body_b 0.003) ob_b"
  then have c: "cell_reset L s3 = Inr a3" and d: "v_dtor s3 = Some dtor" by simp_all
  from h show "additions (calls a3) = additions (calls s3) @ [body_c m, body_b 0.003]"
    by (auto simp: cell_reset_def planet_defs ok_simps stmt_simps loop_simps additions_append
          body_defs)
  from h have rows: "orbit_row (pi / 180) ob_e = Row [16.64, 0.1397, 118.8, 27.8, 60.1]"
    "orbit_row (pi / 180) ob_d = Row [26.29, 0.1112, 24.3, 27.8, 60.1]"
    "orbit_row (pi / 180) ob_c = Row [43.12, 0.0561, 28.5, 27.8, 60.1]"
    "orbit_row (pi / 180) ob_b = Row [70.50, 0.0113, 213.6, 27.8, 60.1]"
    by (auto simp: body_defs intro: as_added_row)
  from h have obs: "projr (lib_calculate_orbits L (store a3 (the (v_sim a3)))) =
      [ob_e, ob_d, ob_c, ob_b]"
    by simp
  from printing_cells(3) [OF d c] show "out a3 = out s3 @
        [StatusOf (store a3 (the (v_sim a3))), Blank, Text ''      a (au)          e       omega (deg)  inc (deg)    Omega (deg)'',
         Row [16.64, 0.1397, 118.8, 27.8, 60.1],
         Row [26.29, 0.1112, 24.3, 27.8, 60.1],
         Row [43.12, 0.0561, 28.5, 27.8, 60.1],
         Row [70.50, 0.0113, 213.6, 27.8, 60.1]]"
    unfolding obs by (simp add: rows)
qed

theorem angles_round_trip_witness:
  "cell_add_inner keeping_library plotted = Inr inner_added \<and>
   out inner_added =
     [Blank, Text ''      a (au)          e       omega (deg)  inc (deg)    Omega (deg)'',
      Row [16.64, 0.1397, 118.8, 27.8, 60.1],
      Row [26.29, 0.1112, 24.3, 27.8, 60.1]] \<and>
   v_dtor inner_saved = Some dtor \<and>
   cell_reset keeping_library inner_saved = Inr (projr (cell_reset keeping_library inner_saved)) \<and>
   out (projr (cell_reset keeping_library inner_saved)) =
     out inner_saved @
     [StatusOf (store (projr (cell_reset keeping_library inner_saved)) 1), Blank, Text ''      a (au)          e       omega (deg)  inc (deg)    Omega (deg)'',
      Row [16.64, 0.1397, 118.8, 27.8, 60.1],
      Row [26.29, 0.1112, 24.3, 27.8, 60.1],
      Row [43.12, 0.0561, 28.5, 27.8, 60.1],
      Row [70.50, 0.0113, 213.6, 27.8, 60.1]] \<and>
   cell_check keeping_library inner_saved = Inr (projr (cell_check keeping_library inner_saved)) \<and>
   out (projr (cell_check keeping_library inner_saved)) =
     out inner_saved @
     [StatusOf (store inner_saved 0), Blank, Text ''      a (au)          e       omega (deg)  inc (deg)    Omega (deg)'',
      Row [16.64, 0.1397, 118.8, 27.8, 60.1],
      Row [26.29, 0.1112, 24.3, 27.8, 60.1]] \<and>
   cell_long_run keeping_library inner_saved =
     Inr (projr (cell_long_run keeping_library inner_saved)) \<and>
   out (projr (cell_long_run keeping_library inner_saved)) =
     out inner_saved @
     [Blank, Text ''      a (au)          e       omega (deg)  inc (deg)    Omega (deg)'',
      Row [16.64, 0.1397, 118.8, 27.8, 60.1],
      Row [26.29, 0.1112, 24.3, 27.8, 60.1]] \<and>
   run_all (notebook1 keeping_library) (fresh Map.empty) =
     Inr (projr (run_all (notebook1 keeping_library) (fresh Map.empty))) \<and>
   map arg_M (additions (calls (projr (run_all (notebook1 keeping_library) (fresh Map.empty))))) =
     [None, Some 1.261, Some 2.032, Some 4.232, Some 2.642,
      None, Some 1.261, Some 2.032, Some 4.232, Some 2.642] \<and>
   run_all (notebook2 keeping_library) (fresh Map.empty) =
     Inr (projr (run_all (notebook2 keeping_library) (fresh Map.empty))) \<and>
   map arg_M (additions (calls (projr (run_all (notebook2 keeping_library) (fresh Map.empty))))) =
     [None, Some 1.261, Some 2.032, Some 4.232, Some 2.642,
      None, Some 1.261, Some 2.032, Some 4.232, Some 2.642]"
proof -
  let ?K = keeping_library
  let ?a2 = "projr (cell_check ?K inner_saved)"
  let ?a3 = "projr (cell_reset ?K inner_saved)"
  let ?a4 = "projr (cell_long_run ?K inner_saved)"
  let ?n1 = "projr (run_all (notebook1 ?K) (fresh Map.empty))"
  let ?n2 = "projr (run_all (notebook2 ?K) (fresh Map.empty))"
  let ?ge = "given_back (kept (body_e 0.005))"
  let ?gd = "given_back (kept (body_d 0.005))"
  let ?gc = "given_back (kept (body_c 0.005))"
  let ?gb = "given_back (kept (body_b 0.003))"
  note f = inner_saved_facts
  note r1 = notebook1_returns [OF never_raises_keeping, of Map.empty]
  note r2 = notebook2_returns [OF never_raises_keeping, of Map.empty]
  have c2: "cell_check ?K inner_saved = Inr ?a2"
    by (rule Inr_projr, rule cell_check_total [OF never_raises_keeping f(1)])
  have c3: "cell_reset ?K inner_saved = Inr ?a3"
    by (rule Inr_projr, rule cell_reset_total [OF never_raises_keeping f(1)])
  have c4: "cell_long_run ?K inner_saved = Inr ?a4"
    by (rule Inr_projr, rule cell_long_run_total [OF never_raises_keeping f(1)])
  have o1: "lib_calculate_orbits ?K (store inner_added (the (v_sim inner_added))) = Inr [?ge, ?gd]"
    by (simp add: inner_added_eq(2) plotted_def keeping_library_def)
  from c3 have o3: "v_sim ?a3 = Some 1"
    "lib_calculate_orbits ?K (store ?a3 (the (v_sim ?a3))) = Inr [?ge, ?gd, ?gc, ?gb]"
    using f(2-)
    by (auto simp: cell_reset_def planet_defs ok_simps stmt_simps loop_simps keeping_library_def
          read_back_def body_defs)
  from c2 have o2: "projr (lib_calculate_orbits ?K (store ?a2 (the (v_sim ?a2)))) = [?ge, ?gd]"
    using f(2-)
    by (auto simp: cell_check_def ok_simps stmt_simps loop_simps keeping_library_def
          inner_saved_eq(2) inner_added_eq(2) plotted_def)
  from c4 have o4: "projr (lib_calculate_orbits ?K (store ?a4 (the (v_sim ?a4)))) = [?ge, ?gd]"
    using f(2-)
    by (auto simp: cell_long_run_def ok_simps stmt_simps loop_simps keeping_library_def
          inner_saved_eq(2) inner_added_eq(2) plotted_def)
  have g: "orbit_as_added (body_e 0.005) ?ge" "orbit_as_added (body_d 0.005) ?gd"
    "orbit_as_added (body_c 0.005) ?gc" "orbit_as_added (body_b 0.003) ?gb"
    by (simp_all add: body_defs gives_back)
  have rows: "orbit_row (pi / 180) ?ge = Row [16.64, 0.1397, 118.8, 27.8, 60.1]"
    "orbit_row (pi / 180) ?gd = Row [26.29, 0.1112, 24.3, 27.8, 60.1]"
    using g(1,2) by (auto simp: body_defs intro: as_added_row)
  note t = angles_round_trip [where L = ?K and files = Map.empty and ?e1.0 = ?n1 and ?e2.0 = ?n2
      and ?s1.0 = plotted and ?a1.0 = inner_added and ?s2.0 = inner_saved and ?a2.0 = ?a2
      and ?s3.0 = inner_saved and ?a3.0 = ?a3 and ?s4.0 = inner_saved and ?a4.0 = ?a4
      and ob_e = ?ge and ob_d = ?gd and ob_c = ?gc and ob_b = ?gb and m = "0.005"
      and x = 1 and A = 1 and E = 1 and w = 1 and i = 1 and Om = 1 and P = 1]
  from t [THEN conjunct2, THEN conjunct2, THEN conjunct2, THEN conjunct1] r1 have m1: "map arg_M (additions (calls ?n1)) = [None, Some 1.261, Some 2.032, Some 4.232, Some 2.642,
      None, Some 1.261, Some 2.032, Some 4.232, Some 2.642]"
    by simp
  from t [THEN conjunct2, THEN conjunct2, THEN conjunct2, THEN conjunct2, THEN conjunct1] r2 have m2: "map arg_M (additions (calls ?n2)) = [None, Some 1.261, Some 2.032, Some 4.232, Some 2.642,
      None, Some 1.261, Some 2.032, Some 4.232, Some 2.642]"
    by simp
  from t [THEN conjunct2, THEN conjunct2, THEN conjunct2, THEN conjunct2, THEN conjunct2, THEN conjunct2, THEN conjunct2, THEN conjunct2, THEN conjunct2, THEN conjunct1] inner_added_eq(1) o1 g(1,2) have p1: "out inner_added = out plotted @
     [Blank, Text ''      a (au)          e       omega (deg)  inc (deg)    Omega (deg)'',
      Row [16.64, 0.1397, 118.8, 27.8, 60.1],
      Row [26.29, 0.1112, 24.3, 27.8, 60.1]]"
    by simp
  from t [THEN conjunct2, THEN conjunct2, THEN conjunct2, THEN conjunct2, THEN conjunct2, THEN conjunct2, THEN conjunct1] f(2) c2 have "out ?a2 = out inner_saved @
      [StatusOf (store inner_saved (the (v_sim inner_saved))), Blank, Text ''      a (au)          e       omega (deg)  inc (deg)    Omega (deg)''] @
      map (orbit_row (pi / 180)) (projr (lib_calculate_orbits ?K (store ?a2 (the (v_sim ?a2)))))"
    by simp
  then have p2: "out ?a2 = out inner_saved @
     [StatusOf (store inner_saved 0), Blank, Text ''      a (au)          e       omega (deg)  inc (deg)    Omega (deg)'',
      Row [16.64, 0.1397, 118.8, 27.8, 60.1],
      Row [26.29, 0.1112, 24.3, 27.8, 60.1]]"
    unfolding o2 list.map rows by (simp add: f)
  from t [THEN conjunct2, THEN conjunct2, THEN conjunct2, THEN conjunct2, THEN conjunct2, THEN conjunct2, THEN conjunct2, THEN conjunct2, THEN conjunct2, THEN conjunct2] f(2-5) c3 o3(2) g have "out ?a3 = out inner_saved @
     [StatusOf (store ?a3 (the (v_sim ?a3))), Blank, Text ''      a (au)          e       omega (deg)  inc (deg)    Omega (deg)'',
      Row [16.64, 0.1397, 118.8, 27.8, 60.1],
      Row [26.29, 0.1112, 24.3, 27.8, 60.1],
      Row [43.12, 0.0561, 28.5, 27.8, 60.1],
      Row [70.50, 0.0113, 213.6, 27.8, 60.1]]"
    by simp
  then have p3: "out ?a3 = out inner_saved @
     [StatusOf (store ?a3 1), Blank, Text ''      a (au)          e       omega (deg)  inc (deg)    Omega (deg)'',
      Row [16.64, 0.1397, 118.8, 27.8, 60.1],
      Row [26.29, 0.1112, 24.3, 27.8, 60.1],
      Row [43.12, 0.0561, 28.5, 27.8, 60.1],
      Row [70.50, 0.0113, 213.6, 27.8, 60.1]]"
    by (simp add: o3(1))
  from t [THEN conjunct2, THEN conjunct2, THEN conjunct2, THEN conjunct2, THEN conjunct2, THEN conjunct2, THEN conjunct2, THEN conjunct2, THEN conjunct1] f(2) c4 have "out ?a4 = out inner_saved @ [Blank, Text ''      a (au)          e       omega (deg)  inc (deg)    Omega (deg)''] @
      map (orbit_row (pi / 180)) (projr (lib_calculate_orbits ?K (store ?a4 (the (v_sim ?a4)))))"
    by simp
  then have p4: "out ?a4 = out inner_saved @
     [Blank, Text ''      a (au)          e       omega (deg)  inc (deg)    Omega (deg)'',
      Row [16.64, 0.1397, 118.8, 27.8, 60.1],
      Row [26.29, 0.1112, 24.3, 27.8, 60.1]]"
    unfolding o4 list.map rows by simp
  from p1 have p1': "out inner_added =
     [Blank, Text ''      a (au)          e       omega (deg)  inc (deg)    Omega (deg)'',
      Row [16.64, 0.1397, 118.8, 27.8, 60.1],
      Row [26.29, 0.1112, 24.3, 27.8, 60.1]]"
    by (simp add: plotted_def fresh_def)
  from inner_added_eq(1) p1' f(2) c2 p2 c3 p3 c4 p4 r1 m1 r2 m2 show ?thesis
    by (intro conjI)
qed

section \<open>Files and exceptions\<close>

text \<open>
  C5. The only file that a notebook run from top to bottom writes or reads is
  \<^verbatim>\<open>start.bin\<close>: the calls that touch a file are one save of it and, after that, one load of
  it; every other file of the directory is as it was before the run.
\<close>

theorem only_the_checkpoint_file:
  "(run_all (notebook1 L) (fresh files) = Inr e1 \<longrightarrow>
      file_calls (calls e1) = [Save 0 ''start.bin'', Load ''start.bin'' 1] \<and>
      fs e1 = files(''start.bin'' := fs e1 ''start.bin'') \<and> fs e1 ''start.bin'' \<noteq> None) \<and>
   (run_all (notebook2 L) (fresh files) = Inr e2 \<longrightarrow>
      file_calls (calls e2) = [Save 0 ''start.bin'', Load ''start.bin'' 1] \<and>
      fs e2 = files(''start.bin'' := fs e2 ''start.bin'') \<and> fs e2 ''start.bin'' \<noteq> None)"
proof (intro conjI impI)
  assume r: "run_all (notebook1 L) (fresh files) = Inr e1"
  from file_calls_of_builds [OF notebook1_builds(1) [OF r]]
  show "file_calls (calls e1) = [Save 0 ''start.bin'', Load ''start.bin'' 1]"
    by (simp add: file_calls_def)
  from notebook1_builds(2,3) [OF r]
  show "fs e1 = files(''start.bin'' := fs e1 ''start.bin'')" and "fs e1 ''start.bin'' \<noteq> None" .
next
  assume r: "run_all (notebook2 L) (fresh files) = Inr e2"
  from file_calls_of_builds [OF notebook2_builds(1) [OF r]]
  show "file_calls (calls e2) = [Save 0 ''start.bin'', Load ''start.bin'' 1]"
    by (simp add: file_calls_def)
  from notebook2_builds(2,3) [OF r]
  show "fs e2 = files(''start.bin'' := fs e2 ''start.bin'')" and "fs e2 ''start.bin'' \<noteq> None" .
qed

theorem only_the_checkpoint_file_witness:
  "run_all (notebook1 keeping_library) (fresh Map.empty) =
     Inr (projr (run_all (notebook1 keeping_library) (fresh Map.empty))) \<and>
   file_calls (calls (projr (run_all (notebook1 keeping_library) (fresh Map.empty)))) =
     [Save 0 ''start.bin'', Load ''start.bin'' 1] \<and>
   run_all (notebook2 keeping_library) (fresh Map.empty) =
     Inr (projr (run_all (notebook2 keeping_library) (fresh Map.empty))) \<and>
   file_calls (calls (projr (run_all (notebook2 keeping_library) (fresh Map.empty)))) =
     [Save 0 ''start.bin'', Load ''start.bin'' 1]"
  using only_the_checkpoint_file [of keeping_library Map.empty
      "projr (run_all (notebook1 keeping_library) (fresh Map.empty))"
      "projr (run_all (notebook2 keeping_library) (fresh Map.empty))"]
    notebook1_returns [OF never_raises_keeping, of Map.empty]
    notebook2_returns [OF never_raises_keeping, of Map.empty]
  by blast

text \<open>
  C4. No cell handles an exception of the library. In every cell of the two notebooks, from
  every state and for every library: when the cell returns, the library has raised nothing
  during the cell; when the cell ends with an exception, that is a \<^verbatim>\<open>NameError\<close> or a
  \<^verbatim>\<open>ZeroDivisionError\<close> of the interpreter and the library has raised nothing, or it is
  the one exception that the library raised, and the last thing on record: no statement ran
  after it. Each of the six operations of the library that can raise is called by one
  statement, which ends with the operation's exception when the operation raises; so do the
  cell that loads \<^verbatim>\<open>start.bin\<close>, whose exception for a missing or unreadable file is the
  library's and leaves \<^verbatim>\<open>sim\<close> deleted, and the cells whose first call is one of the other
  operations. A loop ends with the exception of the first frame or line that raises, a
  sequence of statements with that of the first statement that raises. Exceptions raised
  inside the plotting and display calls are outside the model.
\<close>

theorem library_exceptions_end_the_cell:
  assumes "c \<in> set (notebook1 L) \<union> set (notebook2 L)"
  shows
    "(c e = Inr e' \<longrightarrow> raised (calls e') = raised (calls e)) \<and>
     (c e = Inl (err, e1) \<longrightarrow>
        own_error err \<and> raised (calls e1) = raised (calls e) \<or>
        last (calls e1) = Raised err \<and> raised (calls e1) = raised (calls e) @ [err]) \<and>
     (imported a \<and> lib_open L (fs a name) = Inl x \<longrightarrow>
        load_simulation L name a =
          Inl (x, a\<lparr>calls := calls a @ [Load name (next_ref a), Raised x]\<rparr>)) \<and>
     (lib_add L args (store a r) = Inl x \<longrightarrow>
        sim_add L r args a = Inl (x, a\<lparr>calls := calls a @ [Add r args, Raised x]\<rparr>)) \<and>
     (lib_integrate L tmax (store a r) = Inl x \<longrightarrow>
        integrate_ref L r tmax a =
          Inl (x, a\<lparr>calls := calls a @ [Integrate r tmax, Raised x]\<rparr>)) \<and>
     (v_sim a = Some r \<and> lib_move_to_com L (store a r) = Inl x \<longrightarrow>
        move_to_com L a = Inl (x, a\<lparr>calls := calls a @ [MoveToCom r, Raised x]\<rparr>)) \<and>
     (v_sim a = Some r \<and> lib_save L (store a r) = Inl x \<longrightarrow>
        save L name a = Inl (x, a\<lparr>calls := calls a @ [Save r name, Raised x]\<rparr>)) \<and>
     (v_sim a = Some r \<and> lib_calculate_orbits L (store a r) = Inl x \<longrightarrow>
        for_orbits L body a =
          Inl (x, a\<lparr>calls := calls a @ [CalculateOrbits r, Raised x]\<rparr>)) \<and>
     (imported a \<and> v_sim a = Some r \<and> lib_open L (fs a ''start.bin'') = Inl x \<longrightarrow>
        cell_reset L a =
          Inl (x, a\<lparr>v_sim := None,
                    calls := calls a @ [Load ''start.bin'' (next_ref a), Raised x]\<rparr>)) \<and>
     (v_sim a = Some r \<and> lib_add L (star 1.5) (store a r) = Inl x \<longrightarrow>
        cell_add_inner L a =
          Inl (x, a\<lparr>calls := calls a @ [Add r (star 1.5), Raised x]\<rparr>)) \<and>
     (v_sim a = Some r \<and> lib_integrate L 100000 (store a r) = Inl x \<longrightarrow>
        cell_long_run L a =
          Inl (x, a\<lparr>calls := calls a @ [Integrate r 100000, Raised x]\<rparr>)) \<and>
     (v_sim a = Some r \<and> lib_move_to_com L (store a r) = Inl x \<longrightarrow>
        cell_com L a = Inl (x, a\<lparr>calls := calls a @ [MoveToCom r, Raised x]\<rparr>)) \<and>
     (imported a \<and> v_sim a = Some r \<and> lib_save L (store a r) = Inl x \<longrightarrow>
        cell_plot_save L a =
          Inl (x, a\<lparr>v_op := Some r,
                    calls := calls a @ [Plot r, Save r ''start.bin'', Raised x]\<rparr>)) \<and>
     (v_sim a = Some r \<and> lib_calculate_orbits L (store a r) = Inl x \<longrightarrow>
        cell_periods L a =
          Inl (x, a\<lparr>out := out a @ [Text ''   P (yr) ''],
                    calls := calls a @ [CalculateOrbits r, Raised x]\<rparr>)) \<and>
     (for_range k frame b = Inr b1 \<and> frame b1 = Inl y \<longrightarrow>
        for_range (Suc (k + n)) frame b = Inl y) \<and>
     (for_each xs line b = Inr b1 \<and> line z b1 = Inl y \<longrightarrow>
        for_each (xs @ z # zs) line b = Inl y) \<and>
     (seq cs b = Inr b1 \<and> stmt b1 = Inl y \<longrightarrow> seq (cs @ stmt # rest) b = Inl y)"
proof -
  from honest_of_notebooks [OF assms] have h: "unhandled e (c e)"
    by (simp add: honest_def)
  have A: "c e = Inr e' \<longrightarrow> raised (calls e') = raised (calls e)"
    using h by (auto simp: unhandled_def)
  have B: "c e = Inl (err, e1) \<longrightarrow>
        own_error err \<and> raised (calls e1) = raised (calls e) \<or>
        last (calls e1) = Raised err \<and> raised (calls e1) = raised (calls e) @ [err]"
    using h by (auto simp: unhandled_def)
  have S: "imported a \<and> lib_open L (fs a name) = Inl x \<longrightarrow>
        load_simulation L name a =
          Inl (x, a\<lparr>calls := calls a @ [Load name (next_ref a), Raised x]\<rparr>)"
    "lib_add L args (store a r) = Inl x \<longrightarrow>
        sim_add L r args a = Inl (x, a\<lparr>calls := calls a @ [Add r args, Raised x]\<rparr>)"
    "lib_integrate L tmax (store a r) = Inl x \<longrightarrow>
        integrate_ref L r tmax a =
          Inl (x, a\<lparr>calls := calls a @ [Integrate r tmax, Raised x]\<rparr>)"
    "v_sim a = Some r \<and> lib_move_to_com L (store a r) = Inl x \<longrightarrow>
        move_to_com L a = Inl (x, a\<lparr>calls := calls a @ [MoveToCom r, Raised x]\<rparr>)"
    "v_sim a = Some r \<and> lib_save L (store a r) = Inl x \<longrightarrow>
        save L name a = Inl (x, a\<lparr>calls := calls a @ [Save r name, Raised x]\<rparr>)"
    "v_sim a = Some r \<and> lib_calculate_orbits L (store a r) = Inl x \<longrightarrow>
        for_orbits L body a =
          Inl (x, a\<lparr>calls := calls a @ [CalculateOrbits r, Raised x]\<rparr>)"
    by (simp_all add: load_simulation_def sim_add_def integrate_ref_def move_to_com_def save_def
          for_orbits_def need_def need_import_def log_def)
  have C: "imported a \<and> v_sim a = Some r \<and> lib_open L (fs a ''start.bin'') = Inl x \<longrightarrow>
        cell_reset L a =
          Inl (x, a\<lparr>v_sim := None,
                    calls := calls a @ [Load ''start.bin'' (next_ref a), Raised x]\<rparr>)"
    "v_sim a = Some r \<and> lib_add L (star 1.5) (store a r) = Inl x \<longrightarrow>
        cell_add_inner L a =
          Inl (x, a\<lparr>calls := calls a @ [Add r (star 1.5), Raised x]\<rparr>)"
    "v_sim a = Some r \<and> lib_integrate L 100000 (store a r) = Inl x \<longrightarrow>
        cell_long_run L a =
          Inl (x, a\<lparr>calls := calls a @ [Integrate r 100000, Raised x]\<rparr>)"
    "v_sim a = Some r \<and> lib_move_to_com L (store a r) = Inl x \<longrightarrow>
        cell_com L a = Inl (x, a\<lparr>calls := calls a @ [MoveToCom r, Raised x]\<rparr>)"
    "imported a \<and> v_sim a = Some r \<and> lib_save L (store a r) = Inl x \<longrightarrow>
        cell_plot_save L a =
          Inl (x, a\<lparr>v_op := Some r,
                    calls := calls a @ [Plot r, Save r ''start.bin'', Raised x]\<rparr>)"
    "v_sim a = Some r \<and> lib_calculate_orbits L (store a r) = Inl x \<longrightarrow>
        cell_periods L a =
          Inl (x, a\<lparr>out := out a @ [Text ''   P (yr) ''],
                    calls := calls a @ [CalculateOrbits r, Raised x]\<rparr>)"
    by (simp_all add: cell_reset_def cell_add_inner_def cell_long_run_def cell_com_def
          cell_plot_save_def cell_periods_def seq.simps del_sim_def load_simulation_def
          add_star_def sim_add_def integrate_def integrate_ref_def move_to_com_def orbit_plot_def
          save_def print_text_def for_orbits_def need_def need_import_def log_def emit_def
          star_def)
  have D: "for_range k frame b = Inr b1 \<and> frame b1 = Inl y \<longrightarrow>
        for_range (Suc (k + n)) frame b = Inl y"
    "for_each xs line b = Inr b1 \<and> line z b1 = Inl y \<longrightarrow>
        for_each (xs @ z # zs) line b = Inl y"
    "seq cs b = Inr b1 \<and> stmt b1 = Inl y \<longrightarrow> seq (cs @ stmt # rest) b = Inl y"
    by (blast intro: for_range_raises for_each_raises seq_raises)+
  from A B S C D show ?thesis by blast
qed

theorem library_exceptions_end_the_cell_witness:
  "cell_reset keeping_library \<in> set (notebook1 keeping_library) \<union> set (notebook2 keeping_library) \<and>
   fs plotted ''start.bin'' = None \<and>
   cell_reset keeping_library plotted =
     Inl (LibraryError ''Cannot read binary file'',
          plotted\<lparr>v_sim := None,
            calls := [Load ''start.bin'' 1, Raised (LibraryError ''Cannot read binary file'')]\<rparr>) \<and>
   cell_add_inner raising_library plotted =
     Inl (LibraryError ''failed'',
          plotted\<lparr>calls := [Add 0 (star 1.5), Raised (LibraryError ''failed'')]\<rparr>) \<and>
   cell_long_run raising_library plotted =
     Inl (LibraryError ''failed'',
          plotted\<lparr>calls := [Integrate 0 100000, Raised (LibraryError ''failed'')]\<rparr>) \<and>
   cell_com raising_library plotted =
     Inl (LibraryError ''failed'',
          plotted\<lparr>calls := [MoveToCom 0, Raised (LibraryError ''failed'')]\<rparr>) \<and>
   cell_plot_save raising_library plotted =
     Inl (LibraryError ''failed'',
          plotted\<lparr>calls := [Plot 0, Save 0 ''start.bin'', Raised (LibraryError ''failed'')]\<rparr>) \<and>
   cell_periods raising_library plotted =
     Inl (LibraryError ''failed'',
          plotted\<lparr>out := [Text ''   P (yr) ''],
            calls := [CalculateOrbits 0, Raised (LibraryError ''failed'')]\<rparr>) \<and>
   cell_animate bounded_library stepping =
     Inl (LibraryError ''integration failed'',
          stepping\<lparr>v_nframe := Some 500, v_framestep := Some 1, v_fig := Some 0,
            store := (\<lambda>r. blank_simulation\<lparr>sim_dt := 1\<rparr>)
              (0 := blank_simulation\<lparr>sim_dt := 1, sim_t := 2\<rparr>),
            calls := [Integrate 0 1, ClearOutput, Update 0, Draw,
                      Integrate 0 2, ClearOutput, Update 0, Draw,
                      Integrate 0 3, Raised (LibraryError ''integration failed'')]\<rparr>) \<and>
   cell_com keeping_library plotted =
     Inr (plotted\<lparr>calls := [MoveToCom 0], out := [Text ''   X (au)    Y (au)    Z (au) '']\<rparr>) \<and>
   raised (calls (plotted\<lparr>calls := [MoveToCom 0],
     out := [Text ''   X (au)    Y (au)    Z (au) '']\<rparr>)) = raised (calls plotted)"
proof -
  let ?x = "LibraryError ''failed''"
  let ?frame = "seq [integrate_frame bounded_library, clear_output, op_update, fig_draw]"
  let ?b = "stepping\<lparr>v_nframe := Some 500, v_framestep := Some 1, v_fig := Some 0\<rparr>"
  let ?b1 = "stepping\<lparr>v_nframe := Some 500, v_framestep := Some 1, v_fig := Some 0,
          store := (\<lambda>r. blank_simulation\<lparr>sim_dt := 1\<rparr>)(0 := blank_simulation\<lparr>sim_dt := 1, sim_t := 2\<rparr>),
          calls := [Integrate 0 1, ClearOutput, Update 0, Draw,
                    Integrate 0 2, ClearOutput, Update 0, Draw]\<rparr>"
  let ?y = "(LibraryError ''integration failed'',
        stepping\<lparr>v_nframe := Some 500, v_framestep := Some 1, v_fig := Some 0,
          store := (\<lambda>r. blank_simulation\<lparr>sim_dt := 1\<rparr>)(0 := blank_simulation\<lparr>sim_dt := 1, sim_t := 2\<rparr>),
          calls := [Integrate 0 1, ClearOutput, Update 0, Draw,
                    Integrate 0 2, ClearOutput, Update 0, Draw,
                    Integrate 0 3, Raised (LibraryError ''integration failed'')]\<rparr>)"
  let ?done = "plotted\<lparr>calls := [MoveToCom 0], out := [Text ''   X (au)    Y (au)    Z (au) '']\<rparr>"
  have p: "imported plotted" "v_sim plotted = Some 0" "fs plotted ''start.bin'' = None"
    "calls plotted = []" "out plotted = []" "next_ref plotted = 1"
    by (simp_all add: plotted_def fresh_def)
  have raising: "lib_open raising_library (fs plotted ''start.bin'') = Inl ?x"
    "lib_add raising_library (star 1.5) (store plotted 0) = Inl ?x"
    "lib_integrate raising_library 100000 (store plotted 0) = Inl ?x"
    "lib_move_to_com raising_library (store plotted 0) = Inl ?x"
    "lib_save raising_library (store plotted 0) = Inl ?x"
    "lib_calculate_orbits raising_library (store plotted 0) = Inl ?x"
    by (simp_all add: raising_library_def)
  have missing: "lib_open keeping_library (fs plotted ''start.bin'') =
      Inl (LibraryError ''Cannot read binary file'')"
    by (simp add: keeping_library_def read_back_def p)
  have returns: "cell_com keeping_library plotted = Inr ?done"
    by (simp add: cell_com_def seq.simps move_to_com_def print_text_def for_particles_def
          need_def log_def emit_def keeping_library_def plotted_def fresh_def
          blank_simulation_def fun_upd_idem)
  have start: "seq [assign_nframe 500, assign_framestep 1, assign_fig] stepping = Inr ?b"
    by (simp add: seq.simps assign_nframe_def assign_framestep_def assign_fig_def need_def
          stepping_def plotted_def fresh_def blank_simulation_def)
  note t1 = library_exceptions_end_the_cell [OF member_notebook1(1) [of raising_library],
      where a = plotted and r = 0 and x = ?x and name = "''start.bin''" and args = "star 1.5"
        and tmax = 100000 and body = print_period and e = plotted and e' = ?done
        and err = ?x and ?e1.0 = plotted and k = 2 and frame = ?frame and b = ?b and ?b1.0 = ?b1
        and y = ?y and n = 497 and xs = "[]" and line = "\<lambda>z. ?frame" and z = 0 and zs = "[]"
        and cs = "[]" and stmt = ?frame and rest = "[]"]
  note t2 = library_exceptions_end_the_cell [OF member_notebook1(1) [of keeping_library],
      where a = plotted and r = 0 and x = "LibraryError ''Cannot read binary file''" and name = "''start.bin''" and args = "star 1.5"
        and tmax = 100000 and body = print_period and e = plotted and e' = ?done
        and err = ?x and ?e1.0 = plotted and k = 2 and frame = ?frame and b = ?b and ?b1.0 = ?b1
        and y = ?y and n = 497 and xs = "[]" and line = "\<lambda>z. ?frame" and z = 0 and zs = "[]"
        and cs = "[]" and stmt = ?frame and rest = "[]"]
  note t3 = library_exceptions_end_the_cell [OF member_notebook1(3) [of keeping_library],
      where a = plotted and r = 0 and x = ?x and name = "''start.bin''" and args = "star 1.5"
        and tmax = 100000 and body = print_period and e = plotted and e' = ?done
        and err = ?x and ?e1.0 = plotted and k = 2 and frame = ?frame and b = ?b and ?b1.0 = ?b1
        and y = ?y and n = 497 and xs = "[]" and line = "\<lambda>z. ?frame" and z = 0 and zs = "[]"
        and cs = "[]" and stmt = ?frame and rest = "[]"]
  from t1 [THEN conjunct2, THEN conjunct2, THEN conjunct2, THEN conjunct2, THEN conjunct2, THEN conjunct2, THEN conjunct2, THEN conjunct2, THEN conjunct2, THEN conjunct1] p(2) raising(2)
  have "cell_add_inner raising_library plotted =
       Inl (?x, plotted\<lparr>calls := calls plotted @ [Add 0 (star 1.5), Raised ?x]\<rparr>)"
    by simp
  moreover from t1 [THEN conjunct2, THEN conjunct2, THEN conjunct2, THEN conjunct2, THEN conjunct2, THEN conjunct2, THEN conjunct2, THEN conjunct2, THEN conjunct2, THEN conjunct2, THEN conjunct1] p(2) raising(3)
  have "cell_long_run raising_library plotted =
       Inl (?x, plotted\<lparr>calls := calls plotted @ [Integrate 0 100000, Raised ?x]\<rparr>)"
    by simp
  moreover from t1 [THEN conjunct2, THEN conjunct2, THEN conjunct2, THEN conjunct2, THEN conjunct2, THEN conjunct2, THEN conjunct2, THEN conjunct2, THEN conjunct2, THEN conjunct2, THEN conjunct2, THEN conjunct1] p(2) raising(4)
  have "cell_com raising_library plotted =
       Inl (?x, plotted\<lparr>calls := calls plotted @ [MoveToCom 0, Raised ?x]\<rparr>)"
    by simp
  moreover from t1 [THEN conjunct2, THEN conjunct2, THEN conjunct2, THEN conjunct2, THEN conjunct2, THEN conjunct2, THEN conjunct2, THEN conjunct2, THEN conjunct2, THEN conjunct2, THEN conjunct2, THEN conjunct2, THEN conjunct1] p(1,2) raising(5)
  have "cell_plot_save raising_library plotted =
       Inl (?x, plotted\<lparr>v_op := Some 0,
                  calls := calls plotted @ [Plot 0, Save 0 ''start.bin'', Raised ?x]\<rparr>)"
    by simp
  moreover from t1 [THEN conjunct2, THEN conjunct2, THEN conjunct2, THEN conjunct2, THEN conjunct2, THEN conjunct2, THEN conjunct2, THEN conjunct2, THEN conjunct2, THEN conjunct2, THEN conjunct2, THEN conjunct2, THEN conjunct2, THEN conjunct1] p(2) raising(6)
  have "cell_periods raising_library plotted =
       Inl (?x, plotted\<lparr>out := out plotted @ [Text ''   P (yr) ''],
                  calls := calls plotted @ [CalculateOrbits 0, Raised ?x]\<rparr>)"
    by simp
  ultimately have cells:
    "cell_add_inner raising_library plotted =
       Inl (?x, plotted\<lparr>calls := [Add 0 (star 1.5), Raised ?x]\<rparr>)"
    "cell_long_run raising_library plotted =
       Inl (?x, plotted\<lparr>calls := [Integrate 0 100000, Raised ?x]\<rparr>)"
    "cell_com raising_library plotted = Inl (?x, plotted\<lparr>calls := [MoveToCom 0, Raised ?x]\<rparr>)"
    "cell_plot_save raising_library plotted =
       Inl (?x, plotted\<lparr>calls := [Plot 0, Save 0 ''start.bin'', Raised ?x]\<rparr>)"
    "cell_periods raising_library plotted =
       Inl (?x, plotted\<lparr>out := [Text ''   P (yr) ''], calls := [CalculateOrbits 0, Raised ?x]\<rparr>)"
    by (simp_all add: p(4,5)) (simp add: plotted_def)
  from t1 [THEN conjunct2, THEN conjunct2, THEN conjunct2, THEN conjunct2, THEN conjunct2, THEN conjunct2, THEN conjunct2, THEN conjunct2, THEN conjunct2, THEN conjunct2, THEN conjunct2, THEN conjunct2, THEN conjunct2, THEN conjunct2, THEN conjunct1] two_frames third_frame have "for_range (Suc (2 + 497)) ?frame ?b = Inl ?y"
    by (rule mp [OF _ conjI])
  then have "for_nframe ?frame ?b = Inl ?y"
    by (simp add: for_nframe_def need_def)
  with seq_raises [OF start, of "for_nframe ?frame" ?y "[]"]
  have loop: "cell_animate bounded_library stepping = Inl ?y"
    by (simp add: cell_animate_def)
  from t2 [THEN conjunct2, THEN conjunct2, THEN conjunct2, THEN conjunct2, THEN conjunct2, THEN conjunct2, THEN conjunct2, THEN conjunct2, THEN conjunct1] p(1,2) missing have "cell_reset keeping_library plotted =
     Inl (LibraryError ''Cannot read binary file'',
          plotted\<lparr>v_sim := None,
            calls := calls plotted @ [Load ''start.bin'' (next_ref plotted),
              Raised (LibraryError ''Cannot read binary file'')]\<rparr>)"
    by simp
  then have reset: "cell_reset keeping_library plotted =
     Inl (LibraryError ''Cannot read binary file'',
          plotted\<lparr>v_sim := None,
            calls := [Load ''start.bin'' 1, Raised (LibraryError ''Cannot read binary file'')]\<rparr>)"
    by (simp add: p(4,6))
  from t3 [THEN conjunct1] returns have kept: "raised (calls ?done) = raised (calls plotted)"
    by (rule mp)
  from member_notebook1(1) [of keeping_library] p(3) reset cells loop returns kept
  show ?thesis by (intro conjI)
qed

section \<open>The library's part\<close>



text \<open>
  C8. The unit system and the gravitational constant are assigned in the setup cell only.
  When the library's operations leave them alone and a checkpoint gives them back, a
  notebook run from top to bottom ends with three simulation objects: the first, and the
  one loaded from the checkpoint, have G = 39.476926408897626 and the units AU, yr, Msun;
  the one made in the last experiment has the constants of a simulation fresh from the
  library. The cell of the last experiment leaves its new simulation with those, whatever
  the state it starts in.
\<close>

theorem last_simulation_has_default_constants:
  assumes "keeps_constants L" and "restores_constants L"
  shows
    "(run_all (notebook1 L) (fresh files) = Inr e1 \<longrightarrow>
        v_sim e1 = Some 2 \<and>
        constants (store e1 0) = (39.476926408897626, Some (''AU'', ''yr'', ''Msun'')) \<and>
        constants (store e1 1) = (39.476926408897626, Some (''AU'', ''yr'', ''Msun'')) \<and>
        constants (store e1 2) = constants (lib_Simulation L)) \<and>
     (run_all (notebook2 L) (fresh files) = Inr e2 \<longrightarrow>
        v_sim e2 = Some 2 \<and>
        constants (store e2 0) = (39.476926408897626, Some (''AU'', ''yr'', ''Msun'')) \<and>
        constants (store e2 1) = (39.476926408897626, Some (''AU'', ''yr'', ''Msun'')) \<and>
        constants (store e2 2) = constants (lib_Simulation L)) \<and>
     (cell_setup L e = Inr e3 \<longrightarrow>
        v_sim e3 = Some (next_ref e) \<and> constants (store e3 (next_ref e)) = (39.476926408897626, Some (''AU'', ''yr'', ''Msun''))) \<and>
     (cell_high_mass L mass e = Inr e4 \<longrightarrow>
        v_sim e4 = Some (next_ref e) \<and>
        constants (store e4 (next_ref e)) = constants (lib_Simulation L))"
proof (intro conjI impI)
  assume r: "run_all (notebook1 L) (fresh files) = Inr e1"
  from notebook1_constants [OF r assms]
  show "v_sim e1 = Some 2" and "constants (store e1 0) = (39.476926408897626, Some (''AU'', ''yr'', ''Msun''))"
    and "constants (store e1 1) = (39.476926408897626, Some (''AU'', ''yr'', ''Msun''))"
    and "constants (store e1 2) = constants (lib_Simulation L)" .
next
  assume r: "run_all (notebook2 L) (fresh files) = Inr e2"
  from notebook2_constants [OF r assms]
  show "v_sim e2 = Some 2" and "constants (store e2 0) = (39.476926408897626, Some (''AU'', ''yr'', ''Msun''))"
    and "constants (store e2 1) = (39.476926408897626, Some (''AU'', ''yr'', ''Msun''))"
    and "constants (store e2 2) = constants (lib_Simulation L)" .
next
  assume c: "cell_setup L e = Inr e3"
  from cell_setup_view [OF c view_now] show "v_sim e3 = Some (next_ref e)"
    by (simp add: view_def bindings_def)
  from cell_setup_store [OF c] show "constants (store e3 (next_ref e)) = (39.476926408897626, Some (''AU'', ''yr'', ''Msun''))"
    by (simp add: constants_def)
next
  assume c: "cell_high_mass L mass e = Inr e4"
  from cell_high_mass_view [OF c view_now] show "v_sim e4 = Some (next_ref e)"
    by (simp add: view_def bindings_def)
  from cell_high_mass_kept [OF keeps_constants_preserves [OF assms(1)] c, of "next_ref e"]
  show "constants (store e4 (next_ref e)) = constants (lib_Simulation L)"
    by simp
qed

theorem last_simulation_has_default_constants_witness:
  "keeps_constants keeping_library \<and> restores_constants keeping_library \<and>
   run_all (notebook1 keeping_library) (fresh Map.empty) =
     Inr (projr (run_all (notebook1 keeping_library) (fresh Map.empty))) \<and>
   constants (store (projr (run_all (notebook1 keeping_library) (fresh Map.empty))) 1) = (39.476926408897626, Some (''AU'', ''yr'', ''Msun'')) \<and>
   constants (store (projr (run_all (notebook1 keeping_library) (fresh Map.empty))) 2) = (1, None) \<and>
   run_all (notebook2 keeping_library) (fresh Map.empty) =
     Inr (projr (run_all (notebook2 keeping_library) (fresh Map.empty))) \<and>
   constants (store (projr (run_all (notebook2 keeping_library) (fresh Map.empty))) 2) = (1, None)"
proof -
  have d: "constants (lib_Simulation keeping_library) = (1, None)"
    by (simp add: keeping_library_def blank_simulation_def constants_def)
  from last_simulation_has_default_constants [OF keeping_library_constants,
      of Map.empty "projr (run_all (notebook1 keeping_library) (fresh Map.empty))"
        "projr (run_all (notebook2 keeping_library) (fresh Map.empty))"]
    notebook1_returns [OF never_raises_keeping, of Map.empty]
    notebook2_returns [OF never_raises_keeping, of Map.empty]
    keeping_library_constants d
  show ?thesis by simp
qed

end
